theory Spec2Isabelle
  imports Complex_Main "HOL-Library.Word" "HOL-Library.AList" "HOL-Library.Sublist"
begin

unbundle bit_operations_syntax

section \<open>Exceptions\<close>

text \<open>
  The exception classes of \<^verbatim>\<open>space.py\<close> and the built-in Python exceptions that the
  modelled code can raise.  \<open>SpaceError\<close> is the base class itself; the five constructors
  before it are its subclasses.  \<open>Diverges\<close> is not an exception: it marks a loop that
  never leaves (see \<open>ListParser_loop\<close>).
\<close>

datatype error =
    InitializationError
  | ParseError
  | IdentifierUnknown
  | ParameterInvalid
  | ParameterOutOfRange
  | SpaceError
  | StructError
  | IndexError
  | KeyError
  | AssertionError
  | OverflowError
  | ValueError
  | UnicodeDecodeError
  | UnicodeEncodeError
  | RecursionError
  | TypeError
  | AttributeError
  | Diverges

text \<open>\<^verbatim>\<open>except space.SpaceError\<close> catches the base class and its subclasses.\<close>

fun is_SpaceError :: "error \<Rightarrow> bool" where
  "is_SpaceError InitializationError = True"
| "is_SpaceError ParseError = True"
| "is_SpaceError IdentifierUnknown = True"
| "is_SpaceError ParameterInvalid = True"
| "is_SpaceError ParameterOutOfRange = True"
| "is_SpaceError SpaceError = True"
| "is_SpaceError _ = False"

section \<open>Bytes and the struct library\<close>

type_synonym byte = "8 word"
type_synonym bytes = "byte list"

text \<open>Little-endian encoding of a Python integer into \<open>n\<close> bytes, and back.\<close>

fun int_to_le :: "nat \<Rightarrow> int \<Rightarrow> bytes" where
  "int_to_le 0 v = []"
| "int_to_le (Suc n) v = word_of_int v # int_to_le n (v div 256)"

fun le_to_int :: "bytes \<Rightarrow> int" where
  "le_to_int [] = 0"
| "le_to_int (b # bs) = uint b + 256 * le_to_int bs"

text \<open>
  \<^verbatim>\<open>struct_format\<close> knows the widths 8, 16, 32 and 64 and fails its assertion on any
  other.
\<close>

definition supported_bits :: "nat \<Rightarrow> bool" where
  "supported_bits bits \<longleftrightarrow> bits = 8 \<or> bits = 16 \<or> bits = 32 \<or> bits = 64"

definition int_minimum :: "nat \<Rightarrow> bool \<Rightarrow> int" where
  "int_minimum bits is_signed = (if is_signed then 0 - 2 ^ (bits - 1) else 0)"

definition int_maximum :: "nat \<Rightarrow> bool \<Rightarrow> int" where
  "int_maximum bits is_signed = (if is_signed then (2 ^ bits - 1) - 2 ^ (bits - 1) else 2 ^ bits - 1)"

text \<open>
  \<^verbatim>\<open>struct.pack(struct_format(bits, signed), value)\<close>: the format is computed first (and
  may fail its assertion), then the value is range-checked by the struct library.
\<close>

definition struct_pack_int :: "nat \<Rightarrow> bool \<Rightarrow> int \<Rightarrow> error + bytes" where
  "struct_pack_int bits is_signed v =
     (if \<not> supported_bits bits then Inl AssertionError
      else if v < int_minimum bits is_signed \<or> int_maximum bits is_signed < v then Inl StructError
      else Inr (int_to_le (bits div 8) v))"

text \<open>
  \<^verbatim>\<open>struct.unpack(struct_format(bits, signed), parse)[0]\<close>: the buffer must have exactly
  the size of the format.
\<close>

definition struct_unpack_int :: "nat \<Rightarrow> bool \<Rightarrow> bytes \<Rightarrow> error + int" where
  "struct_unpack_int bits is_signed parse =
     (if \<not> supported_bits bits then Inl AssertionError
      else if length parse \<noteq> bits div 8 then Inl StructError
      else let u = le_to_int parse
           in Inr (if is_signed \<and> 2 ^ (bits - 1) \<le> u then u - 2 ^ bits else u))"

section \<open>Floating point and the Unicode tables as parameters\<close>

text \<open>
  Python floats, their 32-bit wire form and their text forms belong to the interpreter
  and the C library, and so do the Unicode character tables.  The model is parametric in
  them: \<open>'f\<close> is the type of Python float values, and a record carries the library
  operations the code calls:
  \<^item> \<open>f_unpack\<close>: \<^verbatim>\<open>struct.unpack('<f', b)[0]\<close> on four bytes;
  \<^item> \<open>f_pack\<close>: \<^verbatim>\<open>struct.pack('<f', x)\<close>, which raises \<^verbatim>\<open>OverflowError\<close> on a value too
    large for 32 bits;
  \<^item> \<open>f_parse\<close>: \<^verbatim>\<open>float(s)\<close>, \<open>None\<close> where it raises \<^verbatim>\<open>ValueError\<close>;
  \<^item> \<open>f_format_g\<close>: the \<^verbatim>\<open>%g\<close> text of a float;
  \<^item> \<open>f_int_key\<close>: the integer a float is equal to, if any (dictionary lookup);
  \<^item> \<open>f_sleep\<close>: the exception \<^verbatim>\<open>time.sleep\<close> raises on the float, if any;
  \<^item> \<open>u_isprintable\<close>: \<^verbatim>\<open>str.isprintable\<close> on a code point above ASCII;
  \<^item> \<open>u_lookup_name\<close>: the code point of a Unicode character name;
  \<^item> \<open>u_isspace\<close>: whether a code point is white space;
  \<^item> \<open>u_decimal\<close>: the value of a code point that is a decimal digit;
  \<^item> \<open>int_max_str_digits\<close>: the interpreter's limit on the number of digits of a
    decimal integer text (\<^verbatim>\<open>sys.get_int_max_str_digits()\<close>); it is 4300 unless configured
    otherwise, and 0 where there is no limit.
\<close>

record 'f pylib =
  f_unpack :: "bytes \<Rightarrow> 'f"
  f_pack :: "'f \<Rightarrow> error + bytes"
  f_parse :: "string \<Rightarrow> 'f option"
  f_format_g :: "'f \<Rightarrow> string"
  f_int_key :: "'f \<Rightarrow> int option"
  f_sleep :: "'f \<Rightarrow> error option"
  u_isprintable :: "nat \<Rightarrow> bool"
  u_lookup_name :: "string \<Rightarrow> nat option"
  u_isspace :: "nat \<Rightarrow> bool"
  u_decimal :: "nat \<Rightarrow> nat option"
  int_max_str_digits :: nat

section \<open>Parsed data: the \<open>SpaceData\<close> classes\<close>

datatype 'f space_data =
    EmptyData string
  | IntegerData int nat bool
  | ByteData int "string option"
  | FloatData 'f "string option"
  | StringData bytes
  | ListData "'f space_data list" string
  | MessageData "'f space_data list" string "rat option"

definition SPACE_PING :: string where
  "SPACE_PING = ''ping''"

definition MINIMUM_DEADLINE :: rat where
  "MINIMUM_DEADLINE = 2 / 1000"

text \<open>
  \<^verbatim>\<open>IntegerData.__init__\<close>: the value is an integer already where the parsers call it, so
  only the range check can fail.  A is_signed width of zero would shift by a negative
  count.
\<close>

definition IntegerData_init :: "int \<Rightarrow> nat \<Rightarrow> bool \<Rightarrow> error + 'f space_data" where
  "IntegerData_init v bits is_signed =
     (if is_signed \<and> bits = 0 then Inl ValueError
      else if \<not> (int_minimum bits is_signed \<le> v \<and> v \<le> int_maximum bits is_signed)
        then Inl ParameterInvalid
      else Inr (IntegerData v bits is_signed))"

text \<open>\<^verbatim>\<open>ByteData.__init__\<close> is the 8-bit unsigned check followed by the label.\<close>

definition ByteData_init :: "int \<Rightarrow> string option \<Rightarrow> error + 'f space_data" where
  "ByteData_init v label =
     (if \<not> (int_minimum 8 False \<le> v \<and> v \<le> int_maximum 8 False) then Inl ParameterInvalid
      else Inr (ByteData v label))"

text \<open>
  The \<^verbatim>\<open>.value\<close> attribute, as far as dictionary lookups use it: list-like data carry
  \<^verbatim>\<open>None\<close>.
\<close>

datatype 'f pyvalue = VInt int | VFloat 'f | VBytes bytes | VNone

fun data_value :: "'f space_data \<Rightarrow> 'f pyvalue" where
  "data_value (EmptyData label) = VNone"
| "data_value (IntegerData v bits is_signed) = VInt v"
| "data_value (ByteData v label) = VInt v"
| "data_value (FloatData x units) = VFloat x"
| "data_value (StringData s) = VBytes s"
| "data_value (ListData flds sep) = VNone"
| "data_value (MessageData flds sep deadline) = VNone"

text \<open>
  Looking a \<^verbatim>\<open>.value\<close> up in a dictionary with integer keys: an integer finds its key, a
  float finds the integer it equals, bytes and \<^verbatim>\<open>None\<close> find nothing.
\<close>

definition dict_lookup :: "'f pylib \<Rightarrow> (int \<times> 'a) list \<Rightarrow> 'f pyvalue \<Rightarrow> 'a option" where
  "dict_lookup fl d k =
     (case k of
        VInt n \<Rightarrow> map_of d n
      | VFloat x \<Rightarrow> (case f_int_key fl x of None \<Rightarrow> None | Some n \<Rightarrow> map_of d n)
      | VBytes s \<Rightarrow> None
      | VNone \<Rightarrow> None)"

section \<open>Rendering to the wire: \<open>to_binary\<close>\<close>

text \<open>Evaluating the elements of a sequence in order: the first exception wins.\<close>

fun collect_results :: "(error + 'a) list \<Rightarrow> error + 'a list" where
  "collect_results [] = Inr []"
| "collect_results (r # rs) =
     (case r of Inl e \<Rightarrow> Inl e
      | Inr x \<Rightarrow> (case collect_results rs of Inl e \<Rightarrow> Inl e | Inr xs \<Rightarrow> Inr (x # xs)))"

definition join_bytes :: "(error + bytes) list \<Rightarrow> error + bytes" where
  "join_bytes rs = (case collect_results rs of Inl e \<Rightarrow> Inl e | Inr bs \<Rightarrow> Inr (concat bs))"

fun to_binary :: "'f pylib \<Rightarrow> 'f space_data \<Rightarrow> error + bytes" where
  "to_binary fl (EmptyData label) = Inr []"
| "to_binary fl (IntegerData v bits is_signed) = struct_pack_int bits is_signed v"
| "to_binary fl (ByteData v label) = struct_pack_int 8 False v"
| "to_binary fl (FloatData x units) = f_pack fl x"
| "to_binary fl (StringData s) = Inr (s @ [0])"
| "to_binary fl (ListData flds sep) = join_bytes (map (to_binary fl) flds)"
| "to_binary fl (MessageData flds sep deadline) = join_bytes (map (to_binary fl) flds)"

section \<open>Text: Python strings and their library functions\<close>

text \<open>
  A Python string is modelled by its UTF-8 encoding, one \<open>char\<close> per byte, so that the
  string literals of the source read as they are written.  Splitting at a separator,
  \<^verbatim>\<open>startswith\<close> and slicing after an ASCII prefix act on the encoding as they act on
  the code points.  The functions below follow the CPython library on ASCII text; on
  text above ASCII they treat every character as an ordinary one (not as a digit and not
  as white space).
\<close>

definition text_of_bytes :: "bytes \<Rightarrow> string" where
  "text_of_bytes bs = map (\<lambda>b. char_of (unat b)) bs"

definition bytes_of_text :: "string \<Rightarrow> bytes" where
  "bytes_of_text s = map (\<lambda>c. of_nat (of_char c)) s"

definition digit_char :: "nat \<Rightarrow> char" where
  "digit_char n = ''0123456789abcdef'' ! n"

text \<open>\<^verbatim>\<open>str(n)\<close> for an integer.\<close>

fun nat_digits :: "nat \<Rightarrow> string" where
  "nat_digits n = (if n < 10 then [digit_char n] else nat_digits (n div 10) @ [digit_char (n mod 10)])"

declare nat_digits.simps [simp del]

definition str_int :: "int \<Rightarrow> string" where
  "str_int v = (if v < 0 then CHR ''-'' # nat_digits (nat (- v)) else nat_digits (nat v))"

text \<open>Lower-case hexadecimal of a fixed number of digits, as in \<^verbatim>\<open>\xNN\<close>.\<close>

fun hex_fixed :: "nat \<Rightarrow> nat \<Rightarrow> string" where
  "hex_fixed 0 n = []"
| "hex_fixed (Suc w) n = hex_fixed w (n div 16) @ [digit_char (n mod 16)]"

text \<open>\<^verbatim>\<open>sep.join(parts)\<close>.\<close>

fun join :: "string \<Rightarrow> string list \<Rightarrow> string" where
  "join sep [] = []"
| "join sep [x] = x"
| "join sep (x # y # ys) = x @ sep @ join sep (y # ys)"

text \<open>
  \<^verbatim>\<open>text.split(sep, 1)\<close> where \<^verbatim>\<open>sep in text\<close>: the text before the first occurrence of
  the separator and the text after it; \<open>None\<close> when the separator does not occur.
\<close>

fun split1 :: "string \<Rightarrow> string \<Rightarrow> (string \<times> string) option" where
  "split1 sep [] = (if sep = [] then Some ([], []) else None)"
| "split1 sep (c # cs) =
     (if prefix sep (c # cs) then Some ([], drop (length sep) (c # cs))
      else (case split1 sep cs of None \<Rightarrow> None | Some (a, b) \<Rightarrow> Some (c # a, b)))"

text \<open>
  The opening lines of the primitive \<^verbatim>\<open>from_text\<close> methods:
  \<^verbatim>\<open>if sep in text: parse, rest = text.split(sep, 1) else: parse, rest = text, ''\<close>.
  The empty separator occurs in every text, and \<^verbatim>\<open>split\<close> refuses it.
\<close>

definition split_sep :: "string \<Rightarrow> string \<Rightarrow> error + (string \<times> string)" where
  "split_sep sep text =
     (if sep = [] then Inl ValueError
      else (case split1 sep text of None \<Rightarrow> Inr (text, []) | Some pr \<Rightarrow> Inr pr))"

subsection \<open>UTF-8\<close>

definition is_cont :: "byte \<Rightarrow> bool" where
  "is_cont b \<longleftrightarrow> 0x80 \<le> unat b \<and> unat b \<le> 0xBF"

text \<open>
  \<^verbatim>\<open>bytes.decode('utf-8')\<close> into code points; \<open>None\<close> is \<^verbatim>\<open>UnicodeDecodeError\<close>
  (a stray or missing continuation byte, an overlong form, a surrogate, a value above
  U+10FFFF).
\<close>

fun utf8_decode :: "bytes \<Rightarrow> nat list option" where
  "utf8_decode [] = Some []"
| "utf8_decode (b # bs) =
     (let x = unat b in
      if x < 0x80 then map_option (Cons x) (utf8_decode bs)
      else if 0xC2 \<le> x \<and> x \<le> 0xDF then
        (case bs of
           c1 # r \<Rightarrow>
             if is_cont c1
             then map_option (Cons ((x - 0xC0) * 64 + (unat c1 - 0x80))) (utf8_decode r)
             else None
         | _ \<Rightarrow> None)
      else if 0xE0 \<le> x \<and> x \<le> 0xEF then
        (case bs of
           c1 # c2 # r \<Rightarrow>
             if is_cont c1 \<and> is_cont c2 \<and> (x = 0xE0 \<longrightarrow> 0xA0 \<le> unat c1)
                \<and> (x = 0xED \<longrightarrow> unat c1 \<le> 0x9F)
             then map_option
                    (Cons ((x - 0xE0) * 4096 + (unat c1 - 0x80) * 64 + (unat c2 - 0x80)))
                    (utf8_decode r)
             else None
         | _ \<Rightarrow> None)
      else if 0xF0 \<le> x \<and> x \<le> 0xF4 then
        (case bs of
           c1 # c2 # c3 # r \<Rightarrow>
             if is_cont c1 \<and> is_cont c2 \<and> is_cont c3 \<and> (x = 0xF0 \<longrightarrow> 0x90 \<le> unat c1)
                \<and> (x = 0xF4 \<longrightarrow> unat c1 \<le> 0x8F)
             then map_option
                    (Cons ((x - 0xF0) * 262144 + (unat c1 - 0x80) * 4096
                           + (unat c2 - 0x80) * 64 + (unat c3 - 0x80)))
                    (utf8_decode r)
             else None
         | _ \<Rightarrow> None)
      else None)"

text \<open>The UTF-8 form of one code point.\<close>

definition utf8_encode_cp :: "nat \<Rightarrow> bytes" where
  "utf8_encode_cp cp =
     (if cp < 0x80 then [of_nat cp]
      else if cp < 0x800 then [of_nat (0xC0 + cp div 64), of_nat (0x80 + cp mod 64)]
      else if cp < 0x10000 then
        [of_nat (0xE0 + cp div 4096), of_nat (0x80 + cp div 64 mod 64), of_nat (0x80 + cp mod 64)]
      else
        [of_nat (0xF0 + cp div 262144), of_nat (0x80 + cp div 4096 mod 64),
         of_nat (0x80 + cp div 64 mod 64), of_nat (0x80 + cp mod 64)])"

text \<open>
  \<^verbatim>\<open>str.encode('utf-8')\<close>; \<open>None\<close> is \<^verbatim>\<open>UnicodeEncodeError\<close>, raised for a surrogate.
\<close>

definition utf8_encode :: "nat list \<Rightarrow> bytes option" where
  "utf8_encode cps =
     (if \<exists>cp \<in> set cps. 0xD800 \<le> cp \<and> cp \<le> 0xDFFF then None
      else Some (concat (map utf8_encode_cp cps)))"

subsection \<open>\<^verbatim>\<open>repr\<close> of a string\<close>

text \<open>
  CPython's \<^verbatim>\<open>repr\<close> of a string: single quotes, unless the string holds a single quote
  and no double quote; the quote in use and the backslash are escaped, tab, newline and
  carriage return have their letters, other control characters and non-printable
  characters are written in hexadecimal, and everything else stands for itself.
\<close>

definition repr_quote :: "nat list \<Rightarrow> nat" where
  "repr_quote s = (if 0x27 \<in> set s \<and> 0x22 \<notin> set s then 0x22 else 0x27)"

definition repr_char :: "'f pylib \<Rightarrow> nat \<Rightarrow> nat \<Rightarrow> string" where
  "repr_char fl quote ch =
     (if ch = quote \<or> ch = 0x5C then [CHR 0x5C, char_of ch]
      else if ch = 0x09 then [CHR 0x5C, CHR ''t'']
      else if ch = 0x0A then [CHR 0x5C, CHR ''n'']
      else if ch = 0x0D then [CHR 0x5C, CHR ''r'']
      else if ch < 0x20 \<or> ch = 0x7F then [CHR 0x5C, CHR ''x''] @ hex_fixed 2 ch
      else if ch < 0x7F then [char_of ch]
      else if \<not> u_isprintable fl ch then
        (if ch \<le> 0xFF then [CHR 0x5C, CHR ''x''] @ hex_fixed 2 ch
         else if ch \<le> 0xFFFF then [CHR 0x5C, CHR ''u''] @ hex_fixed 4 ch
         else [CHR 0x5C, CHR ''U''] @ hex_fixed 8 ch)
      else text_of_bytes (utf8_encode_cp ch))"

definition py_repr :: "'f pylib \<Rightarrow> nat list \<Rightarrow> string" where
  "py_repr fl s =
     (let quote = repr_quote s
      in [char_of quote] @ concat (map (repr_char fl quote) s) @ [char_of quote])"

subsection \<open>\<^verbatim>\<open>int\<close> of a string\<close>

text \<open>
  White space as the integer parser skips it, and the value of a digit or letter.
\<close>

definition is_py_space :: "char \<Rightarrow> bool" where
  "is_py_space c \<longleftrightarrow> c \<in> set [CHR 0x20, CHR 0x09, CHR 0x0A, CHR 0x0B, CHR 0x0C, CHR 0x0D]"

definition digit_value :: "char \<Rightarrow> nat option" where
  "digit_value c =
     (let n = (of_char c :: nat) in
      if 0x30 \<le> n \<and> n \<le> 0x39 then Some (n - 0x30)
      else if 0x61 \<le> n \<and> n \<le> 0x7A then Some (n - 0x61 + 10)
      else if 0x41 \<le> n \<and> n \<le> 0x5A then Some (n - 0x41 + 10)
      else None)"

text \<open>
  The digits of a number in the given base, with single underscores between digits:
  the value and the text that follows; \<open>None\<close> for two underscores in a row or an
  underscore at the end.
\<close>

fun scan_digits :: "nat \<Rightarrow> int \<Rightarrow> bool \<Rightarrow> string \<Rightarrow> (int \<times> string) option" where
  "scan_digits base acc prev_us [] = (if prev_us then None else Some (acc, []))"
| "scan_digits base acc prev_us (c # cs) =
     (if c = CHR ''_'' then (if prev_us then None else scan_digits base acc True cs)
      else
        (case digit_value c of
           None \<Rightarrow> if prev_us then None else Some (acc, c # cs)
         | Some d \<Rightarrow>
             if d < base then scan_digits base (acc * int base + int d) False cs
             else if prev_us then None else Some (acc, c # cs)))"

definition is_digit_in :: "nat \<Rightarrow> char \<Rightarrow> bool" where
  "is_digit_in base c = (case digit_value c of None \<Rightarrow> False | Some d \<Rightarrow> d < base)"

text \<open>
  \<^verbatim>\<open>int\<close> of a string first makes the string ASCII: a string that is ASCII already is
  taken as it is; in any other string a character below 127 stays, a white space
  character becomes a space, a decimal digit becomes the ASCII digit of its value, and
  at the first character that is none of these the string is cut off after a question
  mark.
\<close>

fun decimal_and_space_to_ascii :: "'f pylib \<Rightarrow> nat list \<Rightarrow> string" where
  "decimal_and_space_to_ascii fl [] = []"
| "decimal_and_space_to_ascii fl (cp # cps) =
     (if cp < 127 then char_of cp # decimal_and_space_to_ascii fl cps
      else if u_isspace fl cp then CHR '' '' # decimal_and_space_to_ascii fl cps
      else
        (case u_decimal fl cp of
           None \<Rightarrow> ''?''
         | Some d \<Rightarrow> char_of (0x30 + d) # decimal_and_space_to_ascii fl cps))"

definition is_ascii :: "string \<Rightarrow> bool" where
  "is_ascii s \<longleftrightarrow> list_all (\<lambda>c. (of_char c :: nat) < 128) s"

definition int_text :: "'f pylib \<Rightarrow> string \<Rightarrow> string option" where
  "int_text fl s =
     (if is_ascii s then Some s
      else map_option (decimal_and_space_to_ascii fl) (utf8_decode (bytes_of_text s)))"

text \<open>
  Then the ASCII text is read in base 10 or 16: white space around the number, an
  optional sign, for base 16 an optional \<^verbatim>\<open>0x\<close> prefix that one underscore may follow,
  then at least one digit.  In a base that is not a power of two, more digits than the
  interpreter's limit are refused.  \<open>None\<close> is \<^verbatim>\<open>ValueError\<close>.
\<close>

definition int_sign :: "string \<Rightarrow> bool \<times> string" where
  "int_sign s =
     (case s of
        [] \<Rightarrow> (False, [])
      | c # cs \<Rightarrow>
          if c = CHR ''-'' then (True, cs) else if c = CHR ''+'' then (False, cs) else (False, s))"

definition int_prefix :: "nat \<Rightarrow> string \<Rightarrow> string" where
  "int_prefix base s =
     (if base = 16 \<and> (prefix ''0x'' s \<or> prefix ''0X'' s)
      then (let s' = drop 2 s in if prefix ''_'' s' then tl s' else s')
      else s)"

definition py_long_from_string :: "nat \<Rightarrow> nat \<Rightarrow> string \<Rightarrow> int option" where
  "py_long_from_string max_str_digits base s =
     (case int_sign (dropWhile is_py_space s) of
        (negative, s2) \<Rightarrow>
          let s3 = int_prefix base s2
          in if s3 = [] \<or> \<not> is_digit_in base (hd s3) then None
             else
               (case scan_digits base 0 False s3 of
                  None \<Rightarrow> None
                | Some (v, rest) \<Rightarrow>
                    let digits = length (filter (\<lambda>c. c \<noteq> CHR ''_'')
                                           (take (length s3 - length rest) s3))
                    in if base \<notin> set [2, 4, 8, 16, 32] \<and> 640 < digits
                          \<and> 0 < max_str_digits \<and> max_str_digits < digits
                       then None
                       else if dropWhile is_py_space rest \<noteq> [] then None
                       else Some (if negative then - v else v)))"

text \<open>\<^verbatim>\<open>int(s)\<close> with base 10 and \<^verbatim>\<open>int(s, 16)\<close>.\<close>

definition py_int :: "'f pylib \<Rightarrow> nat \<Rightarrow> string \<Rightarrow> int option" where
  "py_int fl base s =
     (case int_text fl s of
        None \<Rightarrow> None
      | Some a \<Rightarrow> py_long_from_string (int_max_str_digits fl) base a)"

subsection \<open>\<^verbatim>\<open>ast.literal_eval\<close> of a quoted string\<close>

text \<open>The value of a run of hexadecimal digits of exactly the given length.\<close>

fun hex_value :: "nat \<Rightarrow> nat \<Rightarrow> nat list \<Rightarrow> (nat \<times> nat list) option" where
  "hex_value 0 acc cs = Some (acc, cs)"
| "hex_value (Suc n) acc [] = None"
| "hex_value (Suc n) acc (c # cs) =
     (if 0x100 \<le> c then None
      else (case digit_value (char_of c) of
              None \<Rightarrow> None
            | Some d \<Rightarrow> if d < 16 then hex_value n (acc * 16 + d) cs else None))"

text \<open>Up to the given number of octal digits.\<close>

fun octal_value :: "nat \<Rightarrow> nat \<Rightarrow> nat list \<Rightarrow> nat \<times> nat list" where
  "octal_value 0 acc cs = (acc, cs)"
| "octal_value (Suc n) acc [] = (acc, [])"
| "octal_value (Suc n) acc (c # cs) =
     (if 0x30 \<le> c \<and> c \<le> 0x37 then octal_value n (acc * 8 + (c - 0x30)) cs
      else (acc, c # cs))"

lemma hex_value_length: "hex_value n acc cs = Some (v, r) \<Longrightarrow> length r \<le> length cs"
  by (induction n acc cs rule: hex_value.induct) (auto split: if_splits option.splits)

lemma octal_value_length: "length (snd (octal_value n acc cs)) \<le> length cs"
  by (induction n acc cs rule: octal_value.induct) auto

lemma octal_value_digit_length:
  "0x30 \<le> e \<Longrightarrow> e \<le> 0x37 \<Longrightarrow> length (snd (octal_value 3 0 (e # r))) < Suc (Suc (length r))"
  using octal_value_length [of "Suc (Suc 0)" "e - 0x30" r] by (simp add: numeral_3_eq_3)

lemma tl_dropWhile_length: "length (dropWhile P r) - Suc 0 < Suc (Suc (Suc (length r)))"
  using length_dropWhile_le [of P r] by simp

text \<open>
  The compiler reads the source with universal newlines: a carriage return, alone or
  before a line feed, is a line feed.
\<close>

fun translate_newlines :: "nat list \<Rightarrow> nat list" where
  "translate_newlines [] = []"
| "translate_newlines [c] = (if c = 0x0D then [0x0A] else [c])"
| "translate_newlines (c # d # cs) =
     (if c = 0x0D \<and> d = 0x0A then 0x0A # translate_newlines cs
      else if c = 0x0D then 0x0A # translate_newlines (d # cs)
      else c # translate_newlines (d # cs))"

text \<open>
  The body of a string literal, between its quotes, as code points, to the string it
  denotes.  \<open>None\<close> is any exception of \<^verbatim>\<open>ast.literal_eval\<close>: a line end or a null
  character in the body, a backslash at its end, a truncated or illegal \<^verbatim>\<open>\x\<close>, \<^verbatim>\<open>\u\<close>,
  \<^verbatim>\<open>\U\<close> or \<^verbatim>\<open>\N\<close> escape.  An unknown escape keeps its backslash.
\<close>

function unescape :: "'f pylib \<Rightarrow> nat list \<Rightarrow> nat list option" where
  "unescape fl [] = Some []"
| "unescape fl (c # cs) =
     (if c = 0x0A \<or> c = 0 then None
      else if c \<noteq> 0x5C then map_option (Cons c) (unescape fl cs)
      else
        (case cs of
           [] \<Rightarrow> None
         | e # r \<Rightarrow>
             if e = 0x0A then unescape fl r
             else if e = 0x5C \<or> e = 0x27 \<or> e = 0x22 then map_option (Cons e) (unescape fl r)
             else if e = 0x61 then map_option (Cons 0x07) (unescape fl r)
             else if e = 0x62 then map_option (Cons 0x08) (unescape fl r)
             else if e = 0x66 then map_option (Cons 0x0C) (unescape fl r)
             else if e = 0x6E then map_option (Cons 0x0A) (unescape fl r)
             else if e = 0x72 then map_option (Cons 0x0D) (unescape fl r)
             else if e = 0x74 then map_option (Cons 0x09) (unescape fl r)
             else if e = 0x76 then map_option (Cons 0x0B) (unescape fl r)
             else if 0x30 \<le> e \<and> e \<le> 0x37 then
               map_option (Cons (fst (octal_value 3 0 (e # r))))
                 (unescape fl (snd (octal_value 3 0 (e # r))))
             else if e = 0x78 then
               (case hex_value 2 0 r of
                  None \<Rightarrow> None
                | Some (v, r') \<Rightarrow> map_option (Cons v) (unescape fl r'))
             else if e = 0x75 then
               (case hex_value 4 0 r of
                  None \<Rightarrow> None
                | Some (v, r') \<Rightarrow> map_option (Cons v) (unescape fl r'))
             else if e = 0x55 then
               (case hex_value 8 0 r of
                  None \<Rightarrow> None
                | Some (v, r') \<Rightarrow>
                    if 0x10FFFF < v then None else map_option (Cons v) (unescape fl r'))
             else if e = 0x4E then
               (case r of
                  [] \<Rightarrow> None
                | b # r' \<Rightarrow>
                    if b \<noteq> 0x7B \<or> 0x7D \<notin> set r' then None
                    else
                      (case u_lookup_name fl (map char_of (takeWhile (\<lambda>x. x \<noteq> 0x7D) r')) of
                         None \<Rightarrow> None
                       | Some v \<Rightarrow>
                           map_option (Cons v)
                             (unescape fl (tl (dropWhile (\<lambda>x. x \<noteq> 0x7D) r')))))
             else map_option (\<lambda>v. 0x5C # e # v) (unescape fl r)))"
  by pat_completeness auto
termination
  by (relation "measure (\<lambda>(fl, cs). length cs)")
     (auto dest: hex_value_length simp: octal_value_digit_length tl_dropWhile_length)

declare unescape.simps [simp del]

section \<open>Rendering to text: \<open>to_text\<close>\<close>

definition join_text :: "string \<Rightarrow> (error + string) list \<Rightarrow> error + string" where
  "join_text sep rs = (case collect_results rs of Inl e \<Rightarrow> Inl e | Inr ts \<Rightarrow> Inr (join sep ts))"

fun to_text :: "'f pylib \<Rightarrow> 'f space_data \<Rightarrow> error + string" where
  "to_text fl (EmptyData label) = Inr label"
| "to_text fl (IntegerData v bits is_signed) = Inr (str_int v)"
| "to_text fl (ByteData v label) = (case label of Some l \<Rightarrow> Inr l | None \<Rightarrow> Inr (str_int v))"
| "to_text fl (FloatData x units) = Inr (f_format_g fl x)"
| "to_text fl (StringData s) =
     (case utf8_decode s of
        None \<Rightarrow> Inl UnicodeDecodeError
      | Some cps \<Rightarrow> Inr (py_repr fl cps))"
| "to_text fl (ListData flds sep) = join_text sep (map (to_text fl) flds)"
| "to_text fl (MessageData flds sep deadline) = join_text sep (map (to_text fl) flds)"

section \<open>The parsers\<close>

text \<open>
  Each constructor is one \<^verbatim>\<open>SpaceParser\<close> subclass with its attributes; the separator
  \<^verbatim>\<open>sep\<close> comes last.  \<^verbatim>\<open>ByteParser\<close> is \<open>IntegerParser 8 False\<close>.  The dictionaries of
  \<^verbatim>\<open>IdentifierParser\<close>, \<^verbatim>\<open>PairParser\<close> and \<^verbatim>\<open>MessageParser\<close> are association lists;
  a pair parser's dictionary may map a code to \<^verbatim>\<open>None\<close>.
\<close>

datatype parser =
    IntegerParser nat bool string
  | FloatParser "string option" string
  | StringParser string
  | IdentifierParser "(int \<times> string) list" "(string \<times> int) list" string
  | ListParser parser "nat option" string
  | PairParser parser "parser option" "(int \<times> parser option) list" string
  | MessageParser parser "parser option" "(int \<times> parser option) list" string
      "(int \<times> rat option) list"

definition ByteParser :: "string \<Rightarrow> parser" where
  "ByteParser sep = IntegerParser 8 False sep"

text \<open>
  The loop of \<^verbatim>\<open>ListParser.from_binary\<close> and \<^verbatim>\<open>ListParser.from_text\<close>, over the inner
  parser's function.  Without \<^verbatim>\<open>max_length\<close> the loop ends only when the input is used
  up: an inner parser that returns its whole input makes the next round the same as
  this one, for ever, which the model reports as \<open>Diverges\<close>.
\<close>

function ListParser_loop ::
  "('a list \<Rightarrow> error + ('d \<times> 'a list)) \<Rightarrow> nat option \<Rightarrow> 'd list \<Rightarrow> 'a list
    \<Rightarrow> error + ('d list \<times> 'a list)" where
  "ListParser_loop inner max_length flds input =
     (if input \<noteq> [] \<and> (case max_length of None \<Rightarrow> True | Some m \<Rightarrow> length flds < m) then
        (case inner input of
           Inl e \<Rightarrow> Inl e
         | Inr (data, rest) \<Rightarrow>
             if max_length = None \<and> length input \<le> length rest then Inl Diverges
             else ListParser_loop inner max_length (flds @ [data]) rest)
      else Inr (flds, input))"
  by pat_completeness auto
termination
  by (relation "measure (\<lambda>(inner, max_length, flds, input).
        case max_length of None \<Rightarrow> length input | Some m \<Rightarrow> m - length flds)")
     (auto split: option.splits)

declare ListParser_loop.simps [simp del]

text \<open>The second parser of a pair: the dictionary entry if there is one, else the default.\<close>

definition second_parser ::
  "'f pylib \<Rightarrow> (int \<times> parser option) list \<Rightarrow> parser option \<Rightarrow> 'f pyvalue \<Rightarrow> parser option" where
  "second_parser fl second_parsers default_parser k =
     (case dict_lookup fl second_parsers k of None \<Rightarrow> default_parser | Some p \<Rightarrow> p)"

lemma size_map_of_parser:
  "map_of d n = Some (Some p) \<Longrightarrow>
     size p < size_list (size_prod (\<lambda>_. 0) (size_option size)) d"
  by (induction d) (auto split: if_splits)

lemma size_second_parser:
  "second_parser fl d dflt k = Some p \<Longrightarrow>
     size p < Suc (size_option size dflt + size_list (size_prod (\<lambda>_. 0) (size_option size)) d)"
  by (cases dflt)
     (auto simp: second_parser_def dict_lookup_def
           split: option.splits pyvalue.splits dest: size_map_of_parser)

function from_binary ::
  "'f pylib \<Rightarrow> parser \<Rightarrow> bytes \<Rightarrow> error + ('f space_data \<times> bytes)" where
  "from_binary fl (IntegerParser bits is_signed sep) binary =
     (let parse = take ((bits + 7) div 8) binary; rest = drop ((bits + 7) div 8) binary
      in case struct_unpack_int bits is_signed parse of
           Inl e \<Rightarrow> Inl e
         | Inr v \<Rightarrow> (case IntegerData_init v bits is_signed of
                       Inl e \<Rightarrow> Inl e
                     | Inr d \<Rightarrow> Inr (d, rest)))"
| "from_binary fl (FloatParser units sep) binary =
     (let parse = take 4 binary; rest = drop 4 binary
      in if length parse \<noteq> 4 then Inl StructError
         else Inr (FloatData (f_unpack fl parse) units, rest))"
| "from_binary fl (StringParser sep) binary =
     (if 0 \<notin> set binary then Inl ParseError
      else Inr (StringData (takeWhile (\<lambda>b. b \<noteq> 0) binary),
                tl (dropWhile (\<lambda>b. b \<noteq> 0) binary)))"
| "from_binary fl (IdentifierParser code_to_label label_to_code sep) binary =
     (case binary of
        [] \<Rightarrow> Inl IndexError
      | code # rest \<Rightarrow>
          (case map_of code_to_label (uint code) of
             None \<Rightarrow> Inl IdentifierUnknown
           | Some label \<Rightarrow>
               (case ByteData_init (uint code) (Some label) of
                  Inl e \<Rightarrow> Inl e
                | Inr d \<Rightarrow> Inr (d, rest))))"
| "from_binary fl (ListParser p max_length sep) binary =
     (case ListParser_loop (from_binary fl p) max_length [] binary of
        Inl e \<Rightarrow> Inl e
      | Inr (flds, rest) \<Rightarrow> Inr (ListData flds sep, rest))"
| "from_binary fl (PairParser first_parser default_parser second_parsers sep) binary =
     (case from_binary fl first_parser binary of
        Inl e \<Rightarrow> Inl e
      | Inr (first, binary') \<Rightarrow>
          (case second_parser fl second_parsers default_parser (data_value first) of
             None \<Rightarrow>
               if binary' = [] then Inr (ListData [first] sep, binary')
               else Inl IdentifierUnknown
           | Some p \<Rightarrow>
               (case from_binary fl p binary' of
                  Inl e \<Rightarrow> Inl e
                | Inr (second, rest) \<Rightarrow> Inr (ListData [first, second] sep, rest))))"
| "from_binary fl (MessageParser first_parser default_parser second_parsers sep deadlines) binary =
     (if binary = [] then
        Inr (MessageData [EmptyData SPACE_PING] '' '' (Some MINIMUM_DEADLINE), [])
      else
        (case from_binary fl (PairParser first_parser default_parser second_parsers sep) binary of
           Inl e \<Rightarrow> Inl e
         | Inr (message, rest) \<Rightarrow>
             (case message of
                ListData flds sep' \<Rightarrow>
                  (case dict_lookup fl deadlines (data_value (hd flds)) of
                     None \<Rightarrow> Inl KeyError
                   | Some deadline \<Rightarrow> Inr (MessageData flds sep deadline, rest))
              | _ \<Rightarrow> Inl AssertionError)))"
  by pat_completeness auto
termination
  by (relation "measure (\<lambda>(fl, p, binary).
        2 * size p + (case p of MessageParser _ _ _ _ _ \<Rightarrow> 1 | _ \<Rightarrow> 0))")
     (auto dest: size_second_parser split: parser.splits)

declare from_binary.simps [simp del]

subsection \<open>Parsing text: \<open>from_text\<close>\<close>

text \<open>
  The \<^verbatim>\<open>try\<close> block of \<^verbatim>\<open>IntegerParser.from_text\<close>: a token that starts with \<^verbatim>\<open>0x\<close> or
  \<^verbatim>\<open>0X\<close> is read in base 16 after the prefix and, for a signed parser, wrapped into
  two's complement; any other token is read in base 10.  \<open>None\<close> is the \<^verbatim>\<open>ValueError\<close>
  that the block turns into \<^verbatim>\<open>ParseError\<close>; a signed width of zero shifts by a negative
  count, which is a \<^verbatim>\<open>ValueError\<close> too.
\<close>

definition integer_literal :: "'f pylib \<Rightarrow> nat \<Rightarrow> bool \<Rightarrow> string \<Rightarrow> int option" where
  "integer_literal fl bits is_signed parse =
     (if prefix ''0x'' parse \<or> prefix ''0X'' parse then
        (case py_int fl 16 (drop 2 parse) of
           None \<Rightarrow> None
         | Some v \<Rightarrow>
             if is_signed \<and> bits = 0 then None
             else Some (if is_signed \<and> 2 ^ (bits - 1) \<le> v then v - 2 ^ bits else v))
      else py_int fl 10 parse)"

text \<open>
  \<^verbatim>\<open>re.match\<close> of the pattern of \<^verbatim>\<open>StringParser.from_text\<close>: a quote, everything up to the
  next quote of the same kind, and the rest of the line.
\<close>

definition string_regex_match :: "string \<Rightarrow> (string \<times> string) option" where
  "string_regex_match text =
     (case text of
        [] \<Rightarrow> None
      | q # cs \<Rightarrow>
          if (q = CHR 0x27 \<or> q = CHR 0x22) \<and> q \<in> set cs
          then Some (q # takeWhile (\<lambda>c. c \<noteq> q) cs @ [q],
                     takeWhile (\<lambda>c. c \<noteq> CHR 0x0A) (tl (dropWhile (\<lambda>c. c \<noteq> q) cs)))
          else None)"

text \<open>
  \<^verbatim>\<open>ast.literal_eval\<close> of the quoted part; \<open>None\<close> is any exception.  Text that is not
  UTF-8 is no Python string and is refused here.
\<close>

definition literal_eval_string :: "'f pylib \<Rightarrow> string \<Rightarrow> nat list option" where
  "literal_eval_string fl lit =
     (case utf8_decode (bytes_of_text (butlast (tl lit))) of
        None \<Rightarrow> None
      | Some cps \<Rightarrow> unescape fl (translate_newlines cps))"

definition StringParser_from_text ::
  "'f pylib \<Rightarrow> string \<Rightarrow> string \<Rightarrow> error + ('f space_data \<times> string)" where
  "StringParser_from_text fl sep text =
     (case string_regex_match text of
        None \<Rightarrow> Inl ParseError
      | Some (quoted, after) \<Rightarrow>
          (case literal_eval_string fl quoted of
             None \<Rightarrow> Inl ParseError
           | Some v \<Rightarrow>
               if after \<noteq> [] \<and> \<not> prefix sep after then Inl ParseError
               else
                 (case utf8_encode v of
                    None \<Rightarrow> Inl UnicodeEncodeError
                  | Some b \<Rightarrow>
                      Inr (StringData b, if after \<noteq> [] then drop (length sep) after else after))))"

function from_text ::
  "'f pylib \<Rightarrow> parser \<Rightarrow> string \<Rightarrow> error + ('f space_data \<times> string)" where
  "from_text fl (IntegerParser bits is_signed sep) text =
     (case split_sep sep text of
        Inl e \<Rightarrow> Inl e
      | Inr (parse, rest) \<Rightarrow>
          (case integer_literal fl bits is_signed parse of
             None \<Rightarrow> Inl ParseError
           | Some v \<Rightarrow>
               (case IntegerData_init v bits is_signed of
                  Inl e \<Rightarrow> Inl e
                | Inr d \<Rightarrow> Inr (d, rest))))"
| "from_text fl (FloatParser units sep) text =
     (case split_sep sep text of
        Inl e \<Rightarrow> Inl e
      | Inr (parse, rest) \<Rightarrow>
          (case f_parse fl parse of
             None \<Rightarrow> Inl ParseError
           | Some x \<Rightarrow> Inr (FloatData x units, rest)))"
| "from_text fl (StringParser sep) text = StringParser_from_text fl sep text"
| "from_text fl (IdentifierParser code_to_label label_to_code sep) text =
     (case split_sep sep text of
        Inl e \<Rightarrow> Inl e
      | Inr (label, rest) \<Rightarrow>
          (case map_of label_to_code label of
             None \<Rightarrow> Inl IdentifierUnknown
           | Some code \<Rightarrow>
               (case map_of code_to_label code of
                  None \<Rightarrow> Inl KeyError
                | Some label' \<Rightarrow>
                    (case ByteData_init code (Some label') of
                       Inl e \<Rightarrow> Inl e
                     | Inr d \<Rightarrow> Inr (d, rest)))))"
| "from_text fl (ListParser p max_length sep) text =
     (case ListParser_loop (from_text fl p) max_length [] text of
        Inl e \<Rightarrow> Inl e
      | Inr (flds, rest) \<Rightarrow> Inr (ListData flds sep, rest))"
| "from_text fl (PairParser first_parser default_parser second_parsers sep) text =
     (case split_sep sep text of
        Inl e \<Rightarrow> Inl e
      | Inr (first_text, second_text) \<Rightarrow>
          (case from_text fl first_parser first_text of
             Inl e \<Rightarrow> Inl e
           | Inr (first, rest) \<Rightarrow>
               if rest \<noteq> [] then Inl ParseError
               else
                 (case second_parser fl second_parsers default_parser (data_value first) of
                    None \<Rightarrow>
                      if second_text = [] then Inr (ListData [first] sep, second_text)
                      else Inl IdentifierUnknown
                  | Some p \<Rightarrow>
                      (case from_text fl p second_text of
                         Inl e \<Rightarrow> Inl e
                       | Inr (second, rest') \<Rightarrow> Inr (ListData [first, second] sep, rest')))))"
| "from_text fl (MessageParser first_parser default_parser second_parsers sep deadlines) text =
     (if text = SPACE_PING then
        Inr (MessageData [EmptyData SPACE_PING] '' '' (Some MINIMUM_DEADLINE), [])
      else
        (case from_text fl (PairParser first_parser default_parser second_parsers sep) text of
           Inl e \<Rightarrow> Inl e
         | Inr (message, rest) \<Rightarrow>
             (case message of
                ListData flds sep' \<Rightarrow>
                  (case dict_lookup fl deadlines (data_value (hd flds)) of
                     None \<Rightarrow> Inl KeyError
                   | Some deadline \<Rightarrow> Inr (MessageData flds sep deadline, rest))
              | _ \<Rightarrow> Inl AssertionError)))"
  by pat_completeness auto
termination
  by (relation "measure (\<lambda>(fl, p, text).
        2 * size p + (case p of MessageParser _ _ _ _ _ \<Rightarrow> 1 | _ \<Rightarrow> 0))")
     (auto dest: size_second_parser split: parser.splits)

declare from_text.simps [simp del]

section \<open>Building the parsers: the \<open>add\<close> methods and the command catalogue\<close>

text \<open>
  \<^verbatim>\<open>IdentifierParser.add\<close>.  A dictionary assignment replaces the value of a key that is
  there and appends a new key.
\<close>

fun add_aliases :: "(string \<times> int) list \<Rightarrow> int \<Rightarrow> string list \<Rightarrow> error + (string \<times> int) list" where
  "add_aliases label_to_code code [] = Inr label_to_code"
| "add_aliases label_to_code code (alias # aliases) =
     (if (case map_of label_to_code alias of None \<Rightarrow> False | Some c \<Rightarrow> code \<noteq> c)
      then Inl InitializationError
      else add_aliases (AList.update alias code label_to_code) code aliases)"

fun IdentifierParser_add :: "parser \<Rightarrow> int \<Rightarrow> string \<Rightarrow> string list \<Rightarrow> error + parser" where
  "IdentifierParser_add (IdentifierParser code_to_label label_to_code sep) code label aliases =
     (if \<not> (0 \<le> code \<and> code \<le> 0xFF) then Inl ParameterInvalid
      else if (case map_of code_to_label code of None \<Rightarrow> False | Some l \<Rightarrow> label \<noteq> l)
        then Inl InitializationError
      else
        (case add_aliases label_to_code code (label # str_int code # aliases) of
           Inl e \<Rightarrow> Inl e
         | Inr label_to_code' \<Rightarrow>
             Inr (IdentifierParser (AList.update code label code_to_label) label_to_code' sep)))"
| "IdentifierParser_add p code label aliases = Inl AttributeError"

fun add_identifiers :: "parser \<Rightarrow> (int \<times> string \<times> string list) list \<Rightarrow> error + parser" where
  "add_identifiers p [] = Inr p"
| "add_identifiers p ((code, label, aliases) # adds) =
     (case IdentifierParser_add p code label aliases of
        Inl e \<Rightarrow> Inl e
      | Inr p' \<Rightarrow> add_identifiers p' adds)"

text \<open>
  \<^verbatim>\<open>PairParser.add\<close> and \<^verbatim>\<open>MessageParser.add\<close>.  Python compares the two parser objects;
  the model compares their structure.
\<close>

definition second_parsers_add ::
  "(int \<times> parser option) list \<Rightarrow> int \<Rightarrow> parser option \<Rightarrow> error + (int \<times> parser option) list" where
  "second_parsers_add second_parsers code p =
     (if (case map_of second_parsers code of None \<Rightarrow> False | Some q \<Rightarrow> p \<noteq> q)
      then Inl InitializationError
      else Inr (AList.update code p second_parsers))"

fun PairParser_add :: "parser \<Rightarrow> int \<Rightarrow> parser option \<Rightarrow> error + parser" where
  "PairParser_add (PairParser first_parser default_parser second_parsers sep) code p =
     (case second_parsers_add second_parsers code p of
        Inl e \<Rightarrow> Inl e
      | Inr second_parsers' \<Rightarrow> Inr (PairParser first_parser default_parser second_parsers' sep))"
| "PairParser_add q code p = Inl AttributeError"

fun MessageParser_add :: "parser \<Rightarrow> int \<Rightarrow> parser option \<Rightarrow> rat option \<Rightarrow> error + parser" where
  "MessageParser_add (MessageParser first_parser default_parser second_parsers sep deadlines)
       code p deadline =
     (case second_parsers_add second_parsers code p of
        Inl e \<Rightarrow> Inl e
      | Inr second_parsers' \<Rightarrow>
          Inr (MessageParser first_parser default_parser second_parsers' sep
                 (AList.update code deadline deadlines)))"
| "MessageParser_add q code p deadline = Inl AttributeError"

text \<open>The dataclass \<^verbatim>\<open>SpaceCommand\<close> with its two derived properties.\<close>

record SpaceCommand =
  command_code :: int
  command_str :: string
  deadline :: rat
  command_parser :: "parser option"
  reply_parser :: "parser option"

definition reply_code :: "SpaceCommand \<Rightarrow> int" where
  "reply_code c = command_code c + 1"

definition reply_str :: "SpaceCommand \<Rightarrow> string" where
  "reply_str c = command_str c @ ''_ack''"

definition CMD :: "int \<Rightarrow> string \<Rightarrow> rat \<Rightarrow> parser option \<Rightarrow> parser option \<Rightarrow> SpaceCommand" where
  "CMD code name dl cp rp =
     \<lparr> command_code = code, command_str = name, deadline = dl,
       command_parser = cp, reply_parser = rp \<rparr>"

text \<open>The two loops of \<^verbatim>\<open>get_protocol\<close> that build the message parser.\<close>

fun add_message_types :: "parser \<Rightarrow> SpaceCommand list \<Rightarrow> error + parser" where
  "add_message_types tp [] = Inr tp"
| "add_message_types tp (c # cs) =
     (case IdentifierParser_add tp (command_code c) (command_str c) [] of
        Inl e \<Rightarrow> Inl e
      | Inr tp' \<Rightarrow>
          (case IdentifierParser_add tp' (reply_code c) (reply_str c) [] of
             Inl e \<Rightarrow> Inl e
           | Inr tp'' \<Rightarrow> add_message_types tp'' cs))"

fun add_message_parsers :: "parser \<Rightarrow> SpaceCommand list \<Rightarrow> error + parser" where
  "add_message_parsers mp [] = Inr mp"
| "add_message_parsers mp (c # cs) =
     (case MessageParser_add mp (command_code c) (command_parser c) (Some (deadline c)) of
        Inl e \<Rightarrow> Inl e
      | Inr mp' \<Rightarrow>
          (case MessageParser_add mp' (reply_code c) (reply_parser c) None of
             Inl e \<Rightarrow> Inl e
           | Inr mp'' \<Rightarrow> add_message_parsers mp'' cs))"

definition get_message_parser :: "SpaceCommand list \<Rightarrow> error + parser" where
  "get_message_parser commands =
     (case add_message_types (IdentifierParser [] [] '' '') commands of
        Inl e \<Rightarrow> Inl e
      | Inr message_type_parser \<Rightarrow>
          add_message_parsers (MessageParser message_type_parser None [] '' '' []) commands)"

subsection \<open>The identifier tables of \<^verbatim>\<open>ace_common.py\<close>\<close>

text \<open>
  For each table, the list of its \<^verbatim>\<open>add\<close> calls as the source makes them, and the parser
  those calls build.
\<close>

definition TRISTATE_adds :: "(int \<times> string \<times> string list) list" where
  "TRISTATE_adds =
    [(0, ''off'', [''disable'', ''disabled'', ''dis'', ''idle'', ''0'']),
     (1, ''on'', [''enable'', ''enabled'', ''en'', ''active'', ''1'']),
     (255, ''n/a'', [''?'', ''unchanged'', ''ignore'', ''unknown'', ''-1''])]"

definition TRISTATE :: parser where
  "TRISTATE =
     IdentifierParser
       [(0, ''off''),
        (1, ''on''),
        (255, ''n/a'')]
       [(''off'', 0),
        (''0'', 0),
        (''disable'', 0),
        (''disabled'', 0),
        (''dis'', 0),
        (''idle'', 0),
        (''on'', 1),
        (''1'', 1),
        (''enable'', 1),
        (''enabled'', 1),
        (''en'', 1),
        (''active'', 1),
        (''n/a'', 255),
        (''255'', 255),
        (''?'', 255),
        (''unchanged'', 255),
        (''ignore'', 255),
        (''unknown'', 255),
        (''-1'', 255)]
       '' ''"

definition VALVE_ID_adds :: "(int \<times> string \<times> string list) list" where
  "VALVE_ID_adds =
    [(0, ''latch0'', []),
     (1, ''latch1'', []),
     (16, ''nonlatch0'', [''momentary0'', ''non0'', ''mom0'']),
     (17, ''nonlatch1'', [''momentary1'', ''non1'', ''mom1'']),
     (18, ''nonlatch2'', [''momentary2'', ''non2'', ''mom2'']),
     (19, ''nonlatch3'', [''momentary3'', ''non3'', ''mom3''])]"

definition VALVE_ID :: parser where
  "VALVE_ID =
     IdentifierParser
       [(0, ''latch0''),
        (1, ''latch1''),
        (16, ''nonlatch0''),
        (17, ''nonlatch1''),
        (18, ''nonlatch2''),
        (19, ''nonlatch3'')]
       [(''latch0'', 0),
        (''0'', 0),
        (''latch1'', 1),
        (''1'', 1),
        (''nonlatch0'', 16),
        (''16'', 16),
        (''momentary0'', 16),
        (''non0'', 16),
        (''mom0'', 16),
        (''nonlatch1'', 17),
        (''17'', 17),
        (''momentary1'', 17),
        (''non1'', 17),
        (''mom1'', 17),
        (''nonlatch2'', 18),
        (''18'', 18),
        (''momentary2'', 18),
        (''non2'', 18),
        (''mom2'', 18),
        (''nonlatch3'', 19),
        (''19'', 19),
        (''momentary3'', 19),
        (''non3'', 19),
        (''mom3'', 19)]
       '' ''"

definition VALVE_STATE_adds :: "(int \<times> string \<times> string list) list" where
  "VALVE_STATE_adds =
    [(0, ''closed'', [''close'', ''deenergize'', ''deenergized'']),
     (1, ''open'', [''opened'', ''energize'', ''energized''])]"

definition VALVE_STATE :: parser where
  "VALVE_STATE =
     IdentifierParser
       [(0, ''closed''),
        (1, ''open'')]
       [(''closed'', 0),
        (''0'', 0),
        (''close'', 0),
        (''deenergize'', 0),
        (''deenergized'', 0),
        (''open'', 1),
        (''1'', 1),
        (''opened'', 1),
        (''energize'', 1),
        (''energized'', 1)]
       '' ''"

definition UART_ID_adds :: "(int \<times> string \<times> string list) list" where
  "UART_ID_adds =
    [(0, ''uart0'', []),
     (1, ''uart1'', []),
     (2, ''uart2'', [])]"

definition UART_ID :: parser where
  "UART_ID =
     IdentifierParser
       [(0, ''uart0''),
        (1, ''uart1''),
        (2, ''uart2'')]
       [(''uart0'', 0),
        (''0'', 0),
        (''uart1'', 1),
        (''1'', 1),
        (''uart2'', 2),
        (''2'', 2)]
       '' ''"

definition TELEMETRY_ID_adds :: "(int \<times> string \<times> string list) list" where
  "TELEMETRY_ID_adds =
    [(1, ''igniter_on'', [''ig_en'']),
     (2, ''lvps_voltage'', [''lvps_v'']),
     (3, ''lvps_duty'', []),
     (4, ''vbus_voltage'', [''vbus_v'']),
     (5, ''vbus_current'', [''vbus_a'']),
     (6, ''scrubber_sbe'', []),
     (7, ''scrubber_mbe'', []),
     (8, ''cpu_usage'', []),
     (9, ''cpu_delay'', []),
     (10, ''discharge_on'', []),
     (11, ''discharge_setpoint'', []),
     (12, ''discharge_period'', []),
     (13, ''discharge_voltage'', [''discharge_v'']),
     (14, ''discharge_cathode'', []),
     (15, ''discharge_current'', [''discharge_a'']),
     (16, ''thruster_state'', []),
     (17, ''thruster_attempts'', []),
     (18, ''discharge_current_mean'', []),
     (19, ''discharge_current_stddev'', []),
     (20, ''rtd1_discharge_q3'', [''rtd1'', ''rtd_1_temp'']),
     (21, ''rtd2_discharge_q2'', [''rtd2'', ''rtd_2_temp'']),
     (22, ''rtd3_discharge_q1'', [''rtd3'', ''rtd_3_temp'']),
     (23, ''rtd4_discharge_transformer'', [''rtd4'', ''rtd_4_temp'']),
     (24, ''thruster_temp'', []),
     (25, ''cpu_temp'', []),
     (26, ''thrust_duration'', [''duration'']),
     (27, ''flow_control_current'', [''flow_c'', ''pfcv'']),
     (30, ''valve_latching_0_on'', [''latch0'']),
     (31, ''valve_latching_1_on'', [''latch1'']),
     (32, ''valve_nonlatching_0_on'', [''nonlatch0'']),
     (33, ''valve_nonlatching_1_on'', [''nonlatch1'']),
     (34, ''tank_pressure'', [''tank_p'']),
     (35, ''plenum_pressure'', [''plenum_p'']),
     (36, ''feed_target_pressure'', [''feed_tar_p'']),
     (37, ''feed_target_current'', [''feed_tar_a'']),
     (38, ''valve_nonlatching_2_on'', [''nonlatch2'']),
     (39, ''valve_nonlatching_3_on'', [''nonlatch3'']),
     (40, ''adc_ain0'', []),
     (41, ''adc_ain1'', []),
     (42, ''adc_ain2'', []),
     (43, ''adc_ain3'', []),
     (44, ''adc_ain4'', []),
     (45, ''adc_ain5'', []),
     (46, ''adc_ain6'', []),
     (47, ''adc_ain7'', []),
     (50, ''adc_amux00'', []),
     (51, ''adc_amux01'', []),
     (52, ''adc_amux02'', []),
     (53, ''adc_amux03'', []),
     (54, ''adc_amux04'', []),
     (55, ''adc_amux10'', []),
     (56, ''adc_amux11'', []),
     (57, ''adc_amux12'', []),
     (58, ''adc_amux13'', []),
     (59, ''adc_amux14'', []),
     (60, ''valve_latching_0_time'', [''latch0_time'']),
     (61, ''valve_latching_1_time'', [''latch1_time'']),
     (62, ''valve_nonlatching_0_time'', [''nonlatch0_time'']),
     (63, ''valve_nonlatching_1_time'', [''nonlatch1_time'']),
     (64, ''valve_nonlatching_2_time'', [''nonlatch2_time'']),
     (65, ''valve_nonlatching_3_time'', [''nonlatch3_time'']),
     (70, ''edu_load_current'', [''load_a'']),
     (71, ''edu_load_power'', [''load_w'']),
     (72, ''edu_load_temp'', [''load_t'']),
     (73, ''edu_fan_on'', [''fan_on'']),
     (240, ''zero'', []),
     (241, ''forty_two'', []),
     (242, ''time'', [])]"

definition TELEMETRY_ID :: parser where
  "TELEMETRY_ID =
     IdentifierParser
       [(1, ''igniter_on''),
        (2, ''lvps_voltage''),
        (3, ''lvps_duty''),
        (4, ''vbus_voltage''),
        (5, ''vbus_current''),
        (6, ''scrubber_sbe''),
        (7, ''scrubber_mbe''),
        (8, ''cpu_usage''),
        (9, ''cpu_delay''),
        (10, ''discharge_on''),
        (11, ''discharge_setpoint''),
        (12, ''discharge_period''),
        (13, ''discharge_voltage''),
        (14, ''discharge_cathode''),
        (15, ''discharge_current''),
        (16, ''thruster_state''),
        (17, ''thruster_attempts''),
        (18, ''discharge_current_mean''),
        (19, ''discharge_current_stddev''),
        (20, ''rtd1_discharge_q3''),
        (21, ''rtd2_discharge_q2''),
        (22, ''rtd3_discharge_q1''),
        (23, ''rtd4_discharge_transformer''),
        (24, ''thruster_temp''),
        (25, ''cpu_temp''),
        (26, ''thrust_duration''),
        (27, ''flow_control_current''),
        (30, ''valve_latching_0_on''),
        (31, ''valve_latching_1_on''),
        (32, ''valve_nonlatching_0_on''),
        (33, ''valve_nonlatching_1_on''),
        (34, ''tank_pressure''),
        (35, ''plenum_pressure''),
        (36, ''feed_target_pressure''),
        (37, ''feed_target_current''),
        (38, ''valve_nonlatching_2_on''),
        (39, ''valve_nonlatching_3_on''),
        (40, ''adc_ain0''),
        (41, ''adc_ain1''),
        (42, ''adc_ain2''),
        (43, ''adc_ain3''),
        (44, ''adc_ain4''),
        (45, ''adc_ain5''),
        (46, ''adc_ain6''),
        (47, ''adc_ain7''),
        (50, ''adc_amux00''),
        (51, ''adc_amux01''),
        (52, ''adc_amux02''),
        (53, ''adc_amux03''),
        (54, ''adc_amux04''),
        (55, ''adc_amux10''),
        (56, ''adc_amux11''),
        (57, ''adc_amux12''),
        (58, ''adc_amux13''),
        (59, ''adc_amux14''),
        (60, ''valve_latching_0_time''),
        (61, ''valve_latching_1_time''),
        (62, ''valve_nonlatching_0_time''),
        (63, ''valve_nonlatching_1_time''),
        (64, ''valve_nonlatching_2_time''),
        (65, ''valve_nonlatching_3_time''),
        (70, ''edu_load_current''),
        (71, ''edu_load_power''),
        (72, ''edu_load_temp''),
        (73, ''edu_fan_on''),
        (240, ''zero''),
        (241, ''forty_two''),
        (242, ''time'')]
       [(''igniter_on'', 1),
        (''1'', 1),
        (''ig_en'', 1),
        (''lvps_voltage'', 2),
        (''2'', 2),
        (''lvps_v'', 2),
        (''lvps_duty'', 3),
        (''3'', 3),
        (''vbus_voltage'', 4),
        (''4'', 4),
        (''vbus_v'', 4),
        (''vbus_current'', 5),
        (''5'', 5),
        (''vbus_a'', 5),
        (''scrubber_sbe'', 6),
        (''6'', 6),
        (''scrubber_mbe'', 7),
        (''7'', 7),
        (''cpu_usage'', 8),
        (''8'', 8),
        (''cpu_delay'', 9),
        (''9'', 9),
        (''discharge_on'', 10),
        (''10'', 10),
        (''discharge_setpoint'', 11),
        (''11'', 11),
        (''discharge_period'', 12),
        (''12'', 12),
        (''discharge_voltage'', 13),
        (''13'', 13),
        (''discharge_v'', 13),
        (''discharge_cathode'', 14),
        (''14'', 14),
        (''discharge_current'', 15),
        (''15'', 15),
        (''discharge_a'', 15),
        (''thruster_state'', 16),
        (''16'', 16),
        (''thruster_attempts'', 17),
        (''17'', 17),
        (''discharge_current_mean'', 18),
        (''18'', 18),
        (''discharge_current_stddev'', 19),
        (''19'', 19),
        (''rtd1_discharge_q3'', 20),
        (''20'', 20),
        (''rtd1'', 20),
        (''rtd_1_temp'', 20),
        (''rtd2_discharge_q2'', 21),
        (''21'', 21),
        (''rtd2'', 21),
        (''rtd_2_temp'', 21),
        (''rtd3_discharge_q1'', 22),
        (''22'', 22),
        (''rtd3'', 22),
        (''rtd_3_temp'', 22),
        (''rtd4_discharge_transformer'', 23),
        (''23'', 23),
        (''rtd4'', 23),
        (''rtd_4_temp'', 23),
        (''thruster_temp'', 24),
        (''24'', 24),
        (''cpu_temp'', 25),
        (''25'', 25),
        (''thrust_duration'', 26),
        (''26'', 26),
        (''duration'', 26),
        (''flow_control_current'', 27),
        (''27'', 27),
        (''flow_c'', 27),
        (''pfcv'', 27),
        (''valve_latching_0_on'', 30),
        (''30'', 30),
        (''latch0'', 30),
        (''valve_latching_1_on'', 31),
        (''31'', 31),
        (''latch1'', 31),
        (''valve_nonlatching_0_on'', 32),
        (''32'', 32),
        (''nonlatch0'', 32),
        (''valve_nonlatching_1_on'', 33),
        (''33'', 33),
        (''nonlatch1'', 33),
        (''tank_pressure'', 34),
        (''34'', 34),
        (''tank_p'', 34),
        (''plenum_pressure'', 35),
        (''35'', 35),
        (''plenum_p'', 35),
        (''feed_target_pressure'', 36),
        (''36'', 36),
        (''feed_tar_p'', 36),
        (''feed_target_current'', 37),
        (''37'', 37),
        (''feed_tar_a'', 37),
        (''valve_nonlatching_2_on'', 38),
        (''38'', 38),
        (''nonlatch2'', 38),
        (''valve_nonlatching_3_on'', 39),
        (''39'', 39),
        (''nonlatch3'', 39),
        (''adc_ain0'', 40),
        (''40'', 40),
        (''adc_ain1'', 41),
        (''41'', 41),
        (''adc_ain2'', 42),
        (''42'', 42),
        (''adc_ain3'', 43),
        (''43'', 43),
        (''adc_ain4'', 44),
        (''44'', 44),
        (''adc_ain5'', 45),
        (''45'', 45),
        (''adc_ain6'', 46),
        (''46'', 46),
        (''adc_ain7'', 47),
        (''47'', 47),
        (''adc_amux00'', 50),
        (''50'', 50),
        (''adc_amux01'', 51),
        (''51'', 51),
        (''adc_amux02'', 52),
        (''52'', 52),
        (''adc_amux03'', 53),
        (''53'', 53),
        (''adc_amux04'', 54),
        (''54'', 54),
        (''adc_amux10'', 55),
        (''55'', 55),
        (''adc_amux11'', 56),
        (''56'', 56),
        (''adc_amux12'', 57),
        (''57'', 57),
        (''adc_amux13'', 58),
        (''58'', 58),
        (''adc_amux14'', 59),
        (''59'', 59),
        (''valve_latching_0_time'', 60),
        (''60'', 60),
        (''latch0_time'', 60),
        (''valve_latching_1_time'', 61),
        (''61'', 61),
        (''latch1_time'', 61),
        (''valve_nonlatching_0_time'', 62),
        (''62'', 62),
        (''nonlatch0_time'', 62),
        (''valve_nonlatching_1_time'', 63),
        (''63'', 63),
        (''nonlatch1_time'', 63),
        (''valve_nonlatching_2_time'', 64),
        (''64'', 64),
        (''nonlatch2_time'', 64),
        (''valve_nonlatching_3_time'', 65),
        (''65'', 65),
        (''nonlatch3_time'', 65),
        (''edu_load_current'', 70),
        (''70'', 70),
        (''load_a'', 70),
        (''edu_load_power'', 71),
        (''71'', 71),
        (''load_w'', 71),
        (''edu_load_temp'', 72),
        (''72'', 72),
        (''load_t'', 72),
        (''edu_fan_on'', 73),
        (''73'', 73),
        (''fan_on'', 73),
        (''zero'', 240),
        (''240'', 240),
        (''forty_two'', 241),
        (''241'', 241),
        (''time'', 242),
        (''242'', 242)]
       '' ''"

definition CHANNEL_ID_adds :: "(int \<times> string \<times> string list) list" where
  "CHANNEL_ID_adds =
    [(0, ''description'', []),
     (1, ''console_input'', []),
     (2, ''console_output'', []),
     (3, ''space_command'', []),
     (4, ''space_reply'', [])]"

definition CHANNEL_ID :: parser where
  "CHANNEL_ID =
     IdentifierParser
       [(0, ''description''),
        (1, ''console_input''),
        (2, ''console_output''),
        (3, ''space_command''),
        (4, ''space_reply'')]
       [(''description'', 0),
        (''0'', 0),
        (''console_input'', 1),
        (''1'', 1),
        (''console_output'', 2),
        (''2'', 2),
        (''space_command'', 3),
        (''3'', 3),
        (''space_reply'', 4),
        (''4'', 4)]
       '' ''"

definition HEALTH_ID_adds :: "(int \<times> string \<times> string list) list" where
  "HEALTH_ID_adds =
    [(2, ''lvps_voltage'', [''lvps_v'']),
     (4, ''vbus_voltage'', [''vbus_v'']),
     (5, ''vbus_current'', [''vbus_a'']),
     (13, ''discharge_voltage'', [''discharge_v'']),
     (14, ''discharge_cathode'', []),
     (15, ''discharge_current'', [''discharge_a'']),
     (16, ''discharge_overcurrent'', []),
     (17, ''thruster_attempts'', []),
     (20, ''rtd_1_temp'', [''rtd1'']),
     (21, ''rtd_2_temp'', [''rtd2'']),
     (22, ''rtd_3_temp'', [''rtd3'']),
     (23, ''rtd_4_temp'', [''rtd4'']),
     (24, ''thruster_temp'', []),
     (25, ''cpu_temp'', []),
     (26, ''thrust_duration'', [''duration'']),
     (35, ''plenum_pressure'', []),
     (72, ''edu_load_temp'', [''load_t'']),
     (100, ''feed_valve'', []),
     (101, ''feed_ignited'', []),
     (102, ''cpu_rebooted'', [''boot'']),
     (103, ''config_error'', [''config'']),
     (255, ''all'', [])]"

definition HEALTH_ID :: parser where
  "HEALTH_ID =
     IdentifierParser
       [(2, ''lvps_voltage''),
        (4, ''vbus_voltage''),
        (5, ''vbus_current''),
        (13, ''discharge_voltage''),
        (14, ''discharge_cathode''),
        (15, ''discharge_current''),
        (16, ''discharge_overcurrent''),
        (17, ''thruster_attempts''),
        (20, ''rtd_1_temp''),
        (21, ''rtd_2_temp''),
        (22, ''rtd_3_temp''),
        (23, ''rtd_4_temp''),
        (24, ''thruster_temp''),
        (25, ''cpu_temp''),
        (26, ''thrust_duration''),
        (35, ''plenum_pressure''),
        (72, ''edu_load_temp''),
        (100, ''feed_valve''),
        (101, ''feed_ignited''),
        (102, ''cpu_rebooted''),
        (103, ''config_error''),
        (255, ''all'')]
       [(''lvps_voltage'', 2),
        (''2'', 2),
        (''lvps_v'', 2),
        (''vbus_voltage'', 4),
        (''4'', 4),
        (''vbus_v'', 4),
        (''vbus_current'', 5),
        (''5'', 5),
        (''vbus_a'', 5),
        (''discharge_voltage'', 13),
        (''13'', 13),
        (''discharge_v'', 13),
        (''discharge_cathode'', 14),
        (''14'', 14),
        (''discharge_current'', 15),
        (''15'', 15),
        (''discharge_a'', 15),
        (''discharge_overcurrent'', 16),
        (''16'', 16),
        (''thruster_attempts'', 17),
        (''17'', 17),
        (''rtd_1_temp'', 20),
        (''20'', 20),
        (''rtd1'', 20),
        (''rtd_2_temp'', 21),
        (''21'', 21),
        (''rtd2'', 21),
        (''rtd_3_temp'', 22),
        (''22'', 22),
        (''rtd3'', 22),
        (''rtd_4_temp'', 23),
        (''23'', 23),
        (''rtd4'', 23),
        (''thruster_temp'', 24),
        (''24'', 24),
        (''cpu_temp'', 25),
        (''25'', 25),
        (''thrust_duration'', 26),
        (''26'', 26),
        (''duration'', 26),
        (''plenum_pressure'', 35),
        (''35'', 35),
        (''edu_load_temp'', 72),
        (''72'', 72),
        (''load_t'', 72),
        (''feed_valve'', 100),
        (''100'', 100),
        (''feed_ignited'', 101),
        (''101'', 101),
        (''cpu_rebooted'', 102),
        (''102'', 102),
        (''boot'', 102),
        (''config_error'', 103),
        (''103'', 103),
        (''config'', 103),
        (''all'', 255),
        (''255'', 255)]
       '' ''"

definition CONFIG_ID_adds :: "(int \<times> string \<times> string list) list" where
  "CONFIG_ID_adds =
    [(1, ''serial_num'', [''serial'']),
     (2, ''hw_variant'', [''variant'']),
     (3, ''space_address'', [''address'']),
     (4, ''part_number'', [''part'', ''part_num'']),
     (10, ''edu_load_disable'', []),
     (20, ''flow_ignition_amps'', []),
     (21, ''feed_ignition_amps'', []),
     (22, ''feed_ignition_psi'', []),
     (23, ''feed_delta_psi'', []),
     (24, ''feed_stddev_amps'', []),
     (30, ''plenum_0psi_volts'', []),
     (31, ''plenum_ref_volts'', []),
     (32, ''plenum_ref_psi'', []),
     (33, ''tank_0psi_volts'', []),
     (34, ''tank_ref_volts'', []),
     (35, ''tank_ref_psi'', []),
     (36, ''vbus_offset_amps'', []),
     (255, ''all'', [])]"

definition CONFIG_ID :: parser where
  "CONFIG_ID =
     IdentifierParser
       [(1, ''serial_num''),
        (2, ''hw_variant''),
        (3, ''space_address''),
        (4, ''part_number''),
        (10, ''edu_load_disable''),
        (20, ''flow_ignition_amps''),
        (21, ''feed_ignition_amps''),
        (22, ''feed_ignition_psi''),
        (23, ''feed_delta_psi''),
        (24, ''feed_stddev_amps''),
        (30, ''plenum_0psi_volts''),
        (31, ''plenum_ref_volts''),
        (32, ''plenum_ref_psi''),
        (33, ''tank_0psi_volts''),
        (34, ''tank_ref_volts''),
        (35, ''tank_ref_psi''),
        (36, ''vbus_offset_amps''),
        (255, ''all'')]
       [(''serial_num'', 1),
        (''1'', 1),
        (''serial'', 1),
        (''hw_variant'', 2),
        (''2'', 2),
        (''variant'', 2),
        (''space_address'', 3),
        (''3'', 3),
        (''address'', 3),
        (''part_number'', 4),
        (''4'', 4),
        (''part'', 4),
        (''part_num'', 4),
        (''edu_load_disable'', 10),
        (''10'', 10),
        (''flow_ignition_amps'', 20),
        (''20'', 20),
        (''feed_ignition_amps'', 21),
        (''21'', 21),
        (''feed_ignition_psi'', 22),
        (''22'', 22),
        (''feed_delta_psi'', 23),
        (''23'', 23),
        (''feed_stddev_amps'', 24),
        (''24'', 24),
        (''plenum_0psi_volts'', 30),
        (''30'', 30),
        (''plenum_ref_volts'', 31),
        (''31'', 31),
        (''plenum_ref_psi'', 32),
        (''32'', 32),
        (''tank_0psi_volts'', 33),
        (''33'', 33),
        (''tank_ref_volts'', 34),
        (''34'', 34),
        (''tank_ref_psi'', 35),
        (''35'', 35),
        (''vbus_offset_amps'', 36),
        (''36'', 36),
        (''all'', 255),
        (''255'', 255)]
       '' ''"

definition TELEMETRY_FIELD :: parser where
  "TELEMETRY_FIELD = PairParser TELEMETRY_ID (Some (FloatParser None '' '')) [] ''=''"

definition CHANNEL_ENABLE :: parser where
  "CHANNEL_ENABLE = PairParser CHANNEL_ID (Some TRISTATE) [] ''=''"

subsection \<open>The command list\<close>

definition COMMANDS :: "SpaceCommand list" where
  "COMMANDS =
    [CMD 0x10 ''igniter'' (2 / 1000) (Some (FloatParser None '' '')) (Some (FloatParser None '' '')),
     CMD 0x12 ''discharge'' (2 / 1000) (Some TRISTATE) (Some TRISTATE),
     CMD 0x16 ''valve'' (5 / 1000)
       (Some (ListParser (PairParser VALVE_ID (Some (FloatParser None '' '')) [] ''='') None '' ''))
       (Some (ListParser (PairParser VALVE_ID (Some VALVE_STATE) [] ''='') None '' '')),
     CMD 0x18 ''flow'' (2 / 1000)
       (Some (ListParser (FloatParser None '' '') (Some 1) '' ''))
       (Some (FloatParser None '' '')),
     CMD 0x1A ''thrust'' (2 / 1000)
       (Some (PairParser TRISTATE (Some (ListParser (FloatParser None '' '') (Some 4) '' '')) [] '' ''))
       (Some TRISTATE),
     CMD 0x1C ''feedpres'' (2 / 1000) (Some (FloatParser None '' '')) (Some (FloatParser None '' '')),
     CMD 0x1E ''feedcur'' (2 / 1000) (Some (FloatParser None '' '')) (Some (FloatParser None '' '')),
     CMD 0x20 ''tele'' (5 / 1000)
       (Some (ListParser TELEMETRY_ID None '' ''))
       (Some (ListParser TELEMETRY_FIELD None '' '')),
     CMD 0x22 ''telexl'' (20 / 1000)
       (Some (ListParser TELEMETRY_ID None '' ''))
       (Some (ListParser TELEMETRY_FIELD None '' '')),
     CMD 0x24 ''telefreq'' (5 / 1000)
       (Some (ListParser TELEMETRY_FIELD None '' ''))
       (Some (ListParser TELEMETRY_FIELD None '' '')),
     CMD 0x26 ''telechan'' (5 / 1000)
       (Some (ListParser CHANNEL_ENABLE None '' ''))
       (Some (ListParser CHANNEL_ENABLE None '' '')),
     CMD 0x28 ''telestart'' (5 / 1000)
       (Some (PairParser UART_ID (Some (IntegerParser 32 False '' '')) [] '' ''))
       (Some (PairParser UART_ID (Some (IntegerParser 32 False '' '')) [] '' '')),
     CMD 0x2E ''teleset'' (20 / 1000)
       (Some (ListParser TELEMETRY_FIELD None '' ''))
       (Some (ListParser TELEMETRY_FIELD None '' '')),
     CMD 0x30 ''henable'' (20 / 1000)
       (Some (ListParser (PairParser HEALTH_ID (Some TRISTATE) [] ''='') None '' ''))
       (Some (ListParser HEALTH_ID None '' '')),
     CMD 0x32 ''htrip'' (20 / 1000)
       (Some (ListParser HEALTH_ID None '' ''))
       (Some (ListParser (PairParser HEALTH_ID (Some (FloatParser None '' '')) [] ''='') None '' '')),
     CMD 0x34 ''hreset'' (5 / 1000)
       (Some (ListParser HEALTH_ID None '' ''))
       (Some (ListParser HEALTH_ID None '' '')),
     CMD 0x36 ''hconfig'' (5 / 1000)
       (Some (PairParser HEALTH_ID (Some (ListParser (FloatParser None '' '') (Some 3) '' '')) [] '' ''))
       (Some (PairParser HEALTH_ID (Some (ListParser (FloatParser None '' '') (Some 3) '' '')) [] '' '')),
     CMD 0x40 ''cvalue'' (20 / 1000)
       (Some (PairParser CONFIG_ID (Some (ListParser (FloatParser None '' '') (Some 2) '' '')) [] '' ''))
       (Some (PairParser CONFIG_ID (Some (ListParser (FloatParser None '' '') (Some 3) '' '')) [] '' '')),
     CMD 0x42 ''cstring'' (20 / 1000)
       (Some (PairParser CONFIG_ID (Some (ListParser (StringParser '' '') (Some 2) '' '')) [] '' ''))
       (Some (PairParser CONFIG_ID (Some (ListParser (StringParser '' '') (Some 3) '' '')) [] '' '')),
     CMD 0x44 ''cerase'' (5 / 1000)
       (Some CONFIG_ID)
       (Some (ListParser CONFIG_ID (Some 1) '' '')),
     CMD 0x02 ''sysver'' (20 / 1000) None (Some (StringParser '' '')),
     CMD 0x04 ''echo'' (20 / 1000)
       (Some (ListParser (ByteParser '' '') None '' ''))
       (Some (ListParser (ByteParser '' '') None '' '')),
     CMD 0x06 ''delay'' (100 / 1000) (Some (FloatParser None '' '')) (Some (FloatParser None '' '')),
     CMD 0x08 ''sysreset'' (2 / 1000) (Some (FloatParser None '' '')) (Some (FloatParser None '' '')),
     CMD 0x0A ''syspeek'' (20 / 1000)
       (Some (PairParser (IntegerParser 32 False '' '') (Some (ByteParser '' '')) [] '' ''))
       (Some (PairParser (IntegerParser 32 False '' '')
                (Some (ListParser (ByteParser '' '') None '' '')) [] '' '')),
     CMD 0x0C ''syspoke'' (20 / 1000)
       (Some (PairParser (IntegerParser 32 False '' '')
                (Some (ListParser (ByteParser '' '') None '' '')) [] '' ''))
       (Some (PairParser (IntegerParser 32 False '' '') (Some (ByteParser '' '')) [] '' ''))]"

text \<open>
  What \<^verbatim>\<open>get_protocol\<close> builds from the command list: the table of message types, the
  second parsers keyed by command and reply codes, and the deadlines.
\<close>

definition ACE_TYPES :: parser where
  "ACE_TYPES =
     IdentifierParser
       [(16, ''igniter''),
        (17, ''igniter_ack''),
        (18, ''discharge''),
        (19, ''discharge_ack''),
        (22, ''valve''),
        (23, ''valve_ack''),
        (24, ''flow''),
        (25, ''flow_ack''),
        (26, ''thrust''),
        (27, ''thrust_ack''),
        (28, ''feedpres''),
        (29, ''feedpres_ack''),
        (30, ''feedcur''),
        (31, ''feedcur_ack''),
        (32, ''tele''),
        (33, ''tele_ack''),
        (34, ''telexl''),
        (35, ''telexl_ack''),
        (36, ''telefreq''),
        (37, ''telefreq_ack''),
        (38, ''telechan''),
        (39, ''telechan_ack''),
        (40, ''telestart''),
        (41, ''telestart_ack''),
        (46, ''teleset''),
        (47, ''teleset_ack''),
        (48, ''henable''),
        (49, ''henable_ack''),
        (50, ''htrip''),
        (51, ''htrip_ack''),
        (52, ''hreset''),
        (53, ''hreset_ack''),
        (54, ''hconfig''),
        (55, ''hconfig_ack''),
        (64, ''cvalue''),
        (65, ''cvalue_ack''),
        (66, ''cstring''),
        (67, ''cstring_ack''),
        (68, ''cerase''),
        (69, ''cerase_ack''),
        (2, ''sysver''),
        (3, ''sysver_ack''),
        (4, ''echo''),
        (5, ''echo_ack''),
        (6, ''delay''),
        (7, ''delay_ack''),
        (8, ''sysreset''),
        (9, ''sysreset_ack''),
        (10, ''syspeek''),
        (11, ''syspeek_ack''),
        (12, ''syspoke''),
        (13, ''syspoke_ack'')]
       [(''igniter'', 16),
        (''16'', 16),
        (''igniter_ack'', 17),
        (''17'', 17),
        (''discharge'', 18),
        (''18'', 18),
        (''discharge_ack'', 19),
        (''19'', 19),
        (''valve'', 22),
        (''22'', 22),
        (''valve_ack'', 23),
        (''23'', 23),
        (''flow'', 24),
        (''24'', 24),
        (''flow_ack'', 25),
        (''25'', 25),
        (''thrust'', 26),
        (''26'', 26),
        (''thrust_ack'', 27),
        (''27'', 27),
        (''feedpres'', 28),
        (''28'', 28),
        (''feedpres_ack'', 29),
        (''29'', 29),
        (''feedcur'', 30),
        (''30'', 30),
        (''feedcur_ack'', 31),
        (''31'', 31),
        (''tele'', 32),
        (''32'', 32),
        (''tele_ack'', 33),
        (''33'', 33),
        (''telexl'', 34),
        (''34'', 34),
        (''telexl_ack'', 35),
        (''35'', 35),
        (''telefreq'', 36),
        (''36'', 36),
        (''telefreq_ack'', 37),
        (''37'', 37),
        (''telechan'', 38),
        (''38'', 38),
        (''telechan_ack'', 39),
        (''39'', 39),
        (''telestart'', 40),
        (''40'', 40),
        (''telestart_ack'', 41),
        (''41'', 41),
        (''teleset'', 46),
        (''46'', 46),
        (''teleset_ack'', 47),
        (''47'', 47),
        (''henable'', 48),
        (''48'', 48),
        (''henable_ack'', 49),
        (''49'', 49),
        (''htrip'', 50),
        (''50'', 50),
        (''htrip_ack'', 51),
        (''51'', 51),
        (''hreset'', 52),
        (''52'', 52),
        (''hreset_ack'', 53),
        (''53'', 53),
        (''hconfig'', 54),
        (''54'', 54),
        (''hconfig_ack'', 55),
        (''55'', 55),
        (''cvalue'', 64),
        (''64'', 64),
        (''cvalue_ack'', 65),
        (''65'', 65),
        (''cstring'', 66),
        (''66'', 66),
        (''cstring_ack'', 67),
        (''67'', 67),
        (''cerase'', 68),
        (''68'', 68),
        (''cerase_ack'', 69),
        (''69'', 69),
        (''sysver'', 2),
        (''2'', 2),
        (''sysver_ack'', 3),
        (''3'', 3),
        (''echo'', 4),
        (''4'', 4),
        (''echo_ack'', 5),
        (''5'', 5),
        (''delay'', 6),
        (''6'', 6),
        (''delay_ack'', 7),
        (''7'', 7),
        (''sysreset'', 8),
        (''8'', 8),
        (''sysreset_ack'', 9),
        (''9'', 9),
        (''syspeek'', 10),
        (''10'', 10),
        (''syspeek_ack'', 11),
        (''11'', 11),
        (''syspoke'', 12),
        (''12'', 12),
        (''syspoke_ack'', 13),
        (''13'', 13)]
       '' ''"

definition ACE_SECOND_PARSERS :: "(int \<times> parser option) list" where
  "ACE_SECOND_PARSERS =
     concat (map (\<lambda>c. [(command_code c, command_parser c), (reply_code c, reply_parser c)]) COMMANDS)"

definition ACE_DEADLINES :: "(int \<times> rat option) list" where
  "ACE_DEADLINES =
     concat (map (\<lambda>c. [(command_code c, Some (deadline c)), (reply_code c, None)]) COMMANDS)"

definition ACE_PARSER :: parser where
  "ACE_PARSER = MessageParser ACE_TYPES None ACE_SECOND_PARSERS '' '' ACE_DEADLINES"

section \<open>The frame codec of \<open>SpaceProtocol\<close>\<close>

definition SYNC_SEQUENCE :: bytes where
  "SYNC_SEQUENCE = [0x1A, 0xCE]"

definition COMMAND_BYTE :: int where
  "COMMAND_BYTE = 0xA0"

definition REPLY_BYTE :: int where
  "REPLY_BYTE = 0xB0"

definition CRC_INITIAL :: "16 word" where
  "CRC_INITIAL = 0xFFFF"

definition CRC_XOR :: "16 word" where
  "CRC_XOR = 0xACE1"

definition MAX_MESSAGE_SIZE :: nat where
  "MAX_MESSAGE_SIZE = 127"

definition EXTRA_DEADLINE :: rat where
  "EXTRA_DEADLINE = 1 / 10"

text \<open>
  \<^verbatim>\<open>binascii.crc_hqx(data, value)\<close> as the C library computes it: one table lookup per
  byte, \<^verbatim>\<open>crc = ((crc << 8) & 0xff00) ^ crctab_hqx[(crc >> 8) ^ byte]\<close>.  Entry \<open>i\<close> of the
  table is the remainder of \<open>i\<close>, shifted up by eight bits, for the polynomial 0x1021.
\<close>

definition crc_shift :: "16 word \<Rightarrow> 16 word" where
  "crc_shift c = (if bit c 15 then push_bit 1 c XOR 0x1021 else push_bit 1 c)"

definition crctab_hqx :: "byte \<Rightarrow> 16 word" where
  "crctab_hqx i = (crc_shift ^^ 8) (push_bit 8 (ucast i))"

definition crc_hqx_step :: "16 word \<Rightarrow> byte \<Rightarrow> 16 word" where
  "crc_hqx_step crc b = (push_bit 8 crc AND 0xFF00) XOR crctab_hqx (ucast (drop_bit 8 crc) XOR b)"

definition crc_hqx :: "bytes \<Rightarrow> 16 word \<Rightarrow> 16 word" where
  "crc_hqx data v = foldl crc_hqx_step v data"

definition crc16 :: "bytes \<Rightarrow> 16 word" where
  "crc16 data = crc_hqx data CRC_INITIAL XOR CRC_XOR"

text \<open>\<^verbatim>\<open>struct.pack('<H', crc)\<close>.\<close>

definition pack_H :: "16 word \<Rightarrow> bytes" where
  "pack_H c = [ucast c, ucast (drop_bit 8 c)]"

text \<open>The Python slice \<^verbatim>\<open>xs[i:j]\<close> for \<open>0 \<le> i\<close> and \<open>0 \<le> j\<close>.\<close>

definition slice :: "nat \<Rightarrow> nat \<Rightarrow> 'a list \<Rightarrow> 'a list" where
  "slice i j xs = take (j - i) (drop i xs)"

text \<open>
  The protocol object.  The fields of \<^verbatim>\<open>SpaceProtocol\<close> come first, then those that
  \<^verbatim>\<open>LoggingSpaceProtocol\<close> adds.  The serial port is the list of packets written to it
  and a device: given the packets written so far and the time the master waits, the
  device answers with the outcomes of the master's successive \<^verbatim>\<open>read(1)\<close> calls before
  the time is up, each a byte or nothing.  The file system is the content of each file
  that exists and the set of paths that can be written.
\<close>

datatype console_event =
    Print string
  | Print_error error
  | Print_elapsed
  | Print_noend string
  | Print_deadline rat

record 'f protocol =
  address :: int
  parser :: parser
  debug :: bool
  status :: "int option"
  written :: "bytes list"
  device :: "bytes list \<Rightarrow> rat \<Rightarrow> byte option list"
  console :: "console_event list"
  logfile :: "string list"
  macros :: "(string \<times> string) list"
  echo :: bool
  telemetry :: "(string option \<times> 'f pyvalue) list"
  files :: "string \<Rightarrow> bytes option"
  writable :: "string \<Rightarrow> bool"

text \<open>\<^verbatim>\<open>bytes((n,))\<close>: a single byte, for \<open>n\<close> in \<^verbatim>\<open>range(256)\<close>.\<close>

definition bytes1 :: "int \<Rightarrow> error + bytes" where
  "bytes1 n = (if 0 \<le> n \<and> n < 256 then Inr [word_of_int n] else Inl ValueError)"

definition to_packet :: "'f pylib \<Rightarrow> 'f protocol \<Rightarrow> 'f space_data \<Rightarrow> error + bytes" where
  "to_packet fl self message =
     (case bytes1 (COMMAND_BYTE OR address self) of
        Inl e \<Rightarrow> Inl e
      | Inr dir \<Rightarrow>
          (case to_binary fl message of
             Inl e \<Rightarrow> Inl e
           | Inr message_bytes \<Rightarrow>
               if MAX_MESSAGE_SIZE < length message_bytes then
                 (case to_text fl message of Inl e \<Rightarrow> Inl e | Inr t \<Rightarrow> Inl ParseError)
               else
                 let packet = SYNC_SEQUENCE @ dir @ [of_nat (length message_bytes)] @ message_bytes;
                     crc = crc16 (drop 2 packet)
                 in Inr (packet @ pack_H crc)))"

text \<open>
  \<^verbatim>\<open>_from_packet\<close>: \<open>Inr None\<close> is the pair \<^verbatim>\<open>(None, None)\<close>, \<open>Inr (Some (message, status))\<close>
  a parsed reply, \<open>Inl\<close> an exception of the message parser or the failed assertion.
\<close>

definition from_packet ::
  "'f pylib \<Rightarrow> 'f protocol \<Rightarrow> bytes \<Rightarrow> error + ('f space_data \<times> int) option" where
  "from_packet fl self packet =
     (if length packet < 7 \<or> take 2 packet \<noteq> SYNC_SEQUENCE
         \<or> uint (packet ! 2) \<noteq> (REPLY_BYTE OR address self)
      then Inr None
      else
        let len = unat (packet ! 4) in
        if MAX_MESSAGE_SIZE < len \<or> length packet \<noteq> len + 7 then Inr None
        else
          let crc = crc16 (slice 2 (5 + len) packet) in
          if pack_H crc \<noteq> slice (5 + len) (7 + len) packet then Inr None
          else
            let status = uint (packet ! 3) in
            (case from_binary fl (parser self) (slice 5 (5 + len) packet) of
               Inl e \<Rightarrow> Inl e
             | Inr (message, rest) \<Rightarrow>
                 if rest \<noteq> [] then Inl AssertionError
                 else Inr (Some (message, status))))"

section \<open>The transport: \<open>send_message\<close> of \<open>SpaceProtocol\<close>\<close>

type_synonym ('a, 'f) outcome = "(error + 'a) \<times> 'f protocol"

text \<open>\<^verbatim>\<open>packet.hex(' ')\<close>.\<close>

definition hex_bytes :: "bytes \<Rightarrow> string" where
  "hex_bytes bs = join '' '' (map (\<lambda>b. hex_fixed 2 (unat b)) bs)"

definition print_line :: "console_event \<Rightarrow> 'f protocol \<Rightarrow> 'f protocol" where
  "print_line ev self = self\<lparr>console := console self @ [ev]\<rparr>"

text \<open>The \<^verbatim>\<open>deadline\<close> attribute, which only a message carries.\<close>

fun command_deadline :: "'f space_data \<Rightarrow> error + rat option" where
  "command_deadline (MessageData flds sep wait) = Inr wait"
| "command_deadline d = Inl AttributeError"

text \<open>
  The loop of \<^verbatim>\<open>send_message\<close> over the outcomes of its reads before the time is up: an
  empty read sleeps and goes on; a byte is appended to the reply and the reply decoded;
  a decoded message stores its status byte and is returned.  When the reads are used up
  the deadline has expired.
\<close>

fun read_loop ::
  "'f pylib \<Rightarrow> 'f protocol \<Rightarrow> rat \<Rightarrow> byte option list \<Rightarrow> bytes \<Rightarrow> ('f space_data option, 'f) outcome" where
  "read_loop fl self wait [] reply =
     (Inr None,
      (if reply \<noteq> [] then print_line (Print (''Partial/invalid packet: '' @ hex_bytes reply))
       else id)
        (print_line (Print_deadline wait) self))"
| "read_loop fl self wait (None # polls) reply = read_loop fl self wait polls reply"
| "read_loop fl self wait (Some b # polls) reply =
     (case from_packet fl self (reply @ [b]) of
        Inl e \<Rightarrow> (Inl e, self)
      | Inr None \<Rightarrow> read_loop fl self wait polls (reply @ [b])
      | Inr (Some (message, st)) \<Rightarrow>
          (let self1 = self\<lparr>status := Some st\<rparr> in
           if debug self1 then
             (case to_text fl message of
                Inl e \<Rightarrow> (Inl e, print_line Print_elapsed self1)
              | Inr t \<Rightarrow>
                  (Inr (Some message),
                   print_line (Print (''  Packet: '' @ hex_bytes (reply @ [b])))
                     (print_line (Print (''Received: '' @ t)) (print_line Print_elapsed self1))))
           else (Inr (Some message), self1)))"

definition SpaceProtocol_send_message ::
  "'f pylib \<Rightarrow> 'f protocol \<Rightarrow> 'f space_data \<Rightarrow> rat option \<Rightarrow> ('f space_data option, 'f) outcome" where
  "SpaceProtocol_send_message fl self command wait =
     (case (case wait of None \<Rightarrow> command_deadline command | Some d \<Rightarrow> Inr (Some d)) of
        Inl e \<Rightarrow> (Inl e, self)
      | Inr found \<Rightarrow>
          (let deadline' = (case found of None \<Rightarrow> MINIMUM_DEADLINE | Some d \<Rightarrow> d) in
           case to_packet fl self command of
             Inl e \<Rightarrow> (Inl e, self)
           | Inr packet \<Rightarrow>
               (case (if debug self then to_text fl command else Inr []) of
                  Inl e \<Rightarrow> (Inl e, self)
                | Inr t \<Rightarrow>
                    (let self1 =
                       (if debug self
                        then print_line (Print ('' Packet: '' @ hex_bytes packet))
                               (print_line (Print (''Sending: '' @ t)) self)
                        else self);
                         self2 = self1\<lparr>written := written self1 @ [packet]\<rparr>
                     in read_loop fl self2 deadline'
                          (device self2 (written self2) (deadline' + EXTRA_DEADLINE)) []))))"

definition get_status :: "'f protocol \<Rightarrow> int option" where
  "get_status self = status self"

section \<open>The logging session: \<open>LoggingSpaceProtocol\<close>\<close>

text \<open>
  The clock is not modelled: every timestamp in the log is the same text.
\<close>

definition timestamp :: string where
  "timestamp = ''00000000T000000.000Z''"

definition log_write :: "string \<Rightarrow> 'f protocol \<Rightarrow> 'f protocol" where
  "log_write text self = self\<lparr>logfile := logfile self @ [text]\<rparr>"

text \<open>The status flags from the highest mask down, as \<^verbatim>\<open>status_label\<close> sorts them.\<close>

definition STATUS_FLAGS :: "(int \<times> string) list" where
  "STATUS_FLAGS =
     [(0x80, ''SYSTEM_FAULT''), (0x40, ''OPERATIONAL_FAULT''), (0x20, ''[reserved]''),
      (0x10, ''[reserved]''), (0x08, ''[reserved]''), (0x04, ''[reserved]''),
      (0x02, ''THRUSTING''), (0x01, ''BUSY''), (0x00, ''IDLE'')]"

definition status_label :: "int \<Rightarrow> string" where
  "status_label st =
     (let labels = map snd (filter (\<lambda>(mask, label). mask \<noteq> 0 \<and> mask AND st \<noteq> 0) STATUS_FLAGS)
      in join '','' (if labels = [] then [''IDLE''] else labels))"

text \<open>Indexing, length, iteration and truth of parsed data: only lists have them.\<close>

fun data_fields :: "'f space_data \<Rightarrow> error + 'f space_data list" where
  "data_fields (ListData flds sep) = Inr flds"
| "data_fields (MessageData flds sep wait) = Inr flds"
| "data_fields d = Inl TypeError"

definition data_index :: "'f space_data \<Rightarrow> nat \<Rightarrow> error + 'f space_data" where
  "data_index d i =
     (case data_fields d of
        Inl e \<Rightarrow> Inl e
      | Inr flds \<Rightarrow> if i < length flds then Inr (flds ! i) else Inl IndexError)"

fun data_truth :: "'f space_data \<Rightarrow> bool" where
  "data_truth (ListData flds sep) = (flds \<noteq> [])"
| "data_truth (MessageData flds sep wait) = (flds \<noteq> [])"
| "data_truth d = True"

fun data_label :: "'f space_data \<Rightarrow> error + string option" where
  "data_label (ByteData v label) = Inr label"
| "data_label (EmptyData label) = Inr (Some label)"
| "data_label d = Inl AttributeError"

text \<open>\<^verbatim>\<open>x in (0x21, 0x23)\<close> for a \<^verbatim>\<open>.value\<close>.\<close>

definition is_tele_ack :: "'f pylib \<Rightarrow> 'f pyvalue \<Rightarrow> bool" where
  "is_tele_ack fl v =
     (case v of
        VInt n \<Rightarrow> n = 0x21 \<or> n = 0x23
      | VFloat x \<Rightarrow> f_int_key fl x = Some 0x21 \<or> f_int_key fl x = Some 0x23
      | _ \<Rightarrow> False)"

text \<open>The loop that stores the fields of a telemetry reply.\<close>

fun store_telemetry :: "'f protocol \<Rightarrow> 'f space_data list \<Rightarrow> (unit, 'f) outcome" where
  "store_telemetry self [] = (Inr (), self)"
| "store_telemetry self (field # more_fields) =
     (case data_index field 1 of
        Inl e \<Rightarrow> (Inl e, self)
      | Inr f1 \<Rightarrow>
          (case data_index field 0 of
             Inl e \<Rightarrow> (Inl e, self)
           | Inr f0 \<Rightarrow>
               (case data_label f0 of
                  Inl e \<Rightarrow> (Inl e, self)
                | Inr label \<Rightarrow>
                    store_telemetry
                      (self\<lparr>telemetry := AList.update label (data_value f1) (telemetry self)\<rparr>)
                      more_fields)))"

text \<open>The part of the wrapper after a reply has come: the log text and the telemetry.\<close>

definition reply_output :: "'f pylib \<Rightarrow> 'f protocol \<Rightarrow> 'f space_data \<Rightarrow> (string, 'f) outcome" where
  "reply_output fl self reply =
     (case get_status self of
        None \<Rightarrow> (Inl TypeError, self)
      | Some st \<Rightarrow>
          (case to_text fl reply of
             Inl e \<Rightarrow> (Inl e, self)
           | Inr t \<Rightarrow>
               (let output = ''# Status: '' @ str_int st @ '' ('' @ status_label st @ '')''
                             @ [CHR 0x0A] @ ''< '' @ t @ [CHR 0x0A, CHR 0x0A]
                in case data_fields reply of
                     Inl e \<Rightarrow> (Inl e, self)
                   | Inr flds \<Rightarrow>
                       if length flds = 2 \<and> is_tele_ack fl (data_value (flds ! 0)) then
                         (case data_fields (flds ! 1) of
                            Inl e \<Rightarrow> (Inl e, self)
                          | Inr tele \<Rightarrow>
                              (case store_telemetry self tele of
                                 (Inl e, self1) \<Rightarrow> (Inl e, self1)
                               | (Inr u, self1) \<Rightarrow> (Inr output, self1)))
                       else (Inr output, self))))"

definition send_message ::
  "'f pylib \<Rightarrow> 'f protocol \<Rightarrow> 'f space_data \<Rightarrow> bool \<Rightarrow> rat option \<Rightarrow> ('f space_data option, 'f) outcome" where
  "send_message fl self command logged wait =
     (let self1 = (if logged then log_write (''# '' @ timestamp @ [CHR 0x0A]) self else self) in
      case (if logged then to_text fl command else Inr []) of
        Inl e \<Rightarrow> (Inl e, self1)
      | Inr t \<Rightarrow>
          (let self2 = (if logged then log_write (''> '' @ t @ [CHR 0x0A]) self1 else self1) in
           case SpaceProtocol_send_message fl self2 command wait of
             (Inl e, self3) \<Rightarrow> (Inl e, self3)
           | (Inr reply, self3) \<Rightarrow>
               (case (case reply of
                        None \<Rightarrow> (Inr (''# No reply received'' @ [CHR 0x0A, CHR 0x0A]), self3)
                      | Some r \<Rightarrow> reply_output fl self3 r) of
                  (Inl e, self4) \<Rightarrow> (Inl e, self4)
                | (Inr output, self4) \<Rightarrow>
                    (let self5 = (if logged then log_write output self4 else self4);
                         self6 = (if echo self5 then print_line (Print_noend output) self5 else self5)
                     in (Inr reply, self6)))))"

definition send_text ::
  "'f pylib \<Rightarrow> 'f protocol \<Rightarrow> string \<Rightarrow> bool \<Rightarrow> (string option, 'f) outcome" where
  "send_text fl self command logged =
     (case from_text fl (parser self) command of
        Inl e \<Rightarrow> (Inl e, self)
      | Inr (message, rest) \<Rightarrow>
          if rest \<noteq> [] then (Inl ParseError, self)
          else
            (case send_message fl self message logged None of
               (Inl e, self1) \<Rightarrow> (Inl e, self1)
             | (Inr None, self1) \<Rightarrow> (Inr None, self1)
             | (Inr (Some reply), self1) \<Rightarrow>
                 (case to_text fl reply of
                    Inl e \<Rightarrow> (Inl e, self1)
                  | Inr t \<Rightarrow> (Inr (Some t), self1))))"

section \<open>The script driver: \<open>run_line\<close> and its macros\<close>

text \<open>\<^verbatim>\<open>str.strip()\<close>; the white space of \<^verbatim>\<open>str\<close> has four separator controls more.\<close>

definition is_str_space :: "char \<Rightarrow> bool" where
  "is_str_space c \<longleftrightarrow> is_py_space c \<or> c \<in> set [CHR 0x1C, CHR 0x1D, CHR 0x1E, CHR 0x1F]"

definition py_strip :: "string \<Rightarrow> string" where
  "py_strip s = rev (dropWhile is_str_space (rev (dropWhile is_str_space s)))"

text \<open>\<^verbatim>\<open>text.split('\n')\<close>.\<close>

fun split_lines :: "string \<Rightarrow> string list" where
  "split_lines [] = [[]]"
| "split_lines (c # cs) =
     (if c = CHR 0x0A then [] # split_lines cs
      else (case split_lines cs of [] \<Rightarrow> [[c]] | l # ls \<Rightarrow> (c # l) # ls))"

text \<open>The format \<^verbatim>\<open>08x\<close>: lower-case hexadecimal, filled with zeros to eight characters.\<close>

fun hex_nat :: "nat \<Rightarrow> string" where
  "hex_nat n = (if n < 16 then [digit_char n] else hex_nat (n div 16) @ [digit_char (n mod 16)])"

declare hex_nat.simps [simp del]

definition format_08x :: "int \<Rightarrow> string" where
  "format_08x v =
     (if v < 0 then CHR ''-'' # replicate (7 - length (hex_nat (nat (- v)))) CHR ''0'' @ hex_nat (nat (- v))
      else replicate (8 - length (hex_nat (nat v))) CHR ''0'' @ hex_nat (nat v))"

text \<open>The pieces \<^verbatim>\<open>data[offset:offset + n]\<close> for \<^verbatim>\<open>offset in range(0, len(data), n)\<close>.\<close>

function pieces_of :: "nat \<Rightarrow> 'a list \<Rightarrow> 'a list list" where
  "pieces_of n xs = (if n = 0 \<or> xs = [] then [] else take n xs # pieces_of n (drop n xs))"
  by pat_completeness auto
termination
  by (relation "measure (\<lambda>(n, xs). length xs)") auto

declare pieces_of.simps [simp del]

text \<open>
  \<^verbatim>\<open>crc32\<close>: the checksum of firmware images, a register of 32 bits shifted to the right.
\<close>

definition crc32_bit :: "32 word \<Rightarrow> 32 word \<Rightarrow> 32 word" where
  "crc32_bit polynomial crc =
     (if crc AND 0x01 \<noteq> 0 then drop_bit 1 crc XOR polynomial else drop_bit 1 crc)"

definition crc32_byte :: "32 word \<Rightarrow> 32 word \<Rightarrow> byte \<Rightarrow> 32 word" where
  "crc32_byte polynomial crc b = (crc32_bit polynomial ^^ 8) (crc XOR ucast b)"

definition crc32 :: "bytes \<Rightarrow> 32 word" where
  "crc32 data = foldl (crc32_byte 0x82F63B78) 0xFFFFFFFF data XOR 0xFFFFFFFF"

text \<open>
  The checks of the \<^verbatim>\<open>flash\<close> command on an application image: its size, the length
  stored at offset 32 and the checksum stored in its last four bytes.
\<close>

definition firmware_size_ok :: "bytes \<Rightarrow> bool" where
  "firmware_size_ok data \<longleftrightarrow> \<not> (length data < 64 * 1024 \<or> (256 - 32) * 1024 \<le> length data)"

definition firmware_checksum_ok :: "bytes \<Rightarrow> bool" where
  "firmware_checksum_ok data \<longleftrightarrow>
     \<not> (le_to_int (slice 32 36 data) \<noteq> int (length data) - 4
        \<or> le_to_int (drop (length data - 4) data) \<noteq> uint (crc32 (take (length data - 4) data)))"

definition bootloader_size_ok :: "bytes \<Rightarrow> bool" where
  "bootloader_size_ok data \<longleftrightarrow> \<not> (length data < 8 * 1024 \<or> 32 * 1024 \<le> length data)"

definition PROGRESS_BAR :: string where
  "PROGRESS_BAR = ''[----1----2----3----4----5----6----7----8----9----]''"

text \<open>
  The macros call \<^verbatim>\<open>run_line\<close>, and \<^verbatim>\<open>run_line\<close> calls the macros.  Each macro is written
  over the \<^verbatim>\<open>run_line\<close> it calls, \<open>rl\<close>, which takes the session, the line and the flags
  \<^verbatim>\<open>echo_input\<close> and \<^verbatim>\<open>logged\<close>.
\<close>

type_synonym 'f line_runner =
  "'f protocol \<Rightarrow> string \<Rightarrow> bool \<Rightarrow> bool \<Rightarrow> (string option, 'f) outcome"

text \<open>
  The \<^verbatim>\<open>finally\<close> clause of the three macros: the echo flag is restored when the body
  returns or raises.  A body that never returns restores nothing.
\<close>

definition restore_echo :: "bool \<Rightarrow> ('a, 'f) outcome \<Rightarrow> ('a, 'f) outcome" where
  "restore_echo orig_echo res =
     (case res of (r, self) \<Rightarrow> if r = Inl Diverges then (r, self) else (r, self\<lparr>echo := orig_echo\<rparr>))"

subsection \<open>\<^verbatim>\<open>run_script\<close>\<close>

fun script_loop :: "'f line_runner \<Rightarrow> 'f protocol \<Rightarrow> string list \<Rightarrow> bool \<Rightarrow> (string option, 'f) outcome" where
  "script_loop rl self [] logged = (Inr None, self)"
| "script_loop rl self (line # more_lines) logged =
     (case rl self line True logged of
        (Inl e, self1) \<Rightarrow>
          if is_SpaceError e
          then (Inr None, print_line (Print ''Script aborted.'') (print_line (Print_error e) self1))
          else (Inl e, self1)
      | (Inr reply, self1) \<Rightarrow> script_loop rl self1 more_lines logged)"

definition run_script_with ::
  "'f line_runner \<Rightarrow> 'f protocol \<Rightarrow> string \<Rightarrow> bool \<Rightarrow> (string option, 'f) outcome" where
  "run_script_with rl self script_data logged = script_loop rl self (split_lines script_data) logged"

subsection \<open>\<^verbatim>\<open>flash_binary\<close>\<close>

fun flash_pieces ::
  "'f line_runner \<Rightarrow> 'f protocol \<Rightarrow> int \<Rightarrow> nat \<Rightarrow> bool \<Rightarrow> bool \<Rightarrow> nat \<Rightarrow> nat \<Rightarrow> bytes list
    \<Rightarrow> (unit, 'f) outcome" where
  "flash_pieces rl self addr data_len progress logged offset last_progress [] = (Inr (), self)"
| "flash_pieces rl self addr data_len progress logged offset last_progress (piece # more_pieces) =
     (let piece_str = join '' '' (map (\<lambda>x. str_int (uint x)) piece);
          command = ''syspoke 0x'' @ format_08x (addr + int offset) @ '' '' @ piece_str;
          expected = ''syspoke_ack '' @ str_int (addr + int offset) @ '' ''
                     @ str_int (int (length piece))
      in case rl self command True logged of
           (Inl e, self1) \<Rightarrow> (Inl e, self1)
         | (Inr reply, self1) \<Rightarrow>
             if reply \<noteq> Some expected then (Inl SpaceError, self1)
             else
               (let new_progress = last_progress + length piece;
                    self2 =
                      (if progress
                       then print_line
                              (Print_noend (slice (last_progress * length PROGRESS_BAR div data_len)
                                        (new_progress * length PROGRESS_BAR div data_len) PROGRESS_BAR))
                              self1
                       else self1)
                in flash_pieces rl self2 addr data_len progress logged (offset + 64)
                     (if progress then new_progress else last_progress) more_pieces))"

definition flash_binary_with ::
  "'f line_runner \<Rightarrow> 'f protocol \<Rightarrow> int \<Rightarrow> bytes \<Rightarrow> bool \<Rightarrow> bool \<Rightarrow> (unit, 'f) outcome" where
  "flash_binary_with rl self addr data progress logged =
     (let orig_echo = echo self;
          self1 = self\<lparr>echo := False\<rparr>;
          self2 = (if progress then print_line (Print_noend ''Flashing... '') self1 else self1)
      in restore_echo orig_echo
           (case flash_pieces rl self2 addr (length data) progress logged 0 0 (pieces_of 64 data) of
              (Inl e, self3) \<Rightarrow> (Inl e, self3)
            | (Inr u, self3) \<Rightarrow>
                (Inr (),
                 if progress then print_line (Print (''  Done!'' @ [CHR 0x0A])) self3 else self3)))"

subsection \<open>\<^verbatim>\<open>load_config\<close>\<close>

text \<open>
  \<^verbatim>\<open>re.match\<close> of the pattern of \<^verbatim>\<open>load_config\<close> on one line: the label up to the first
  colon and space, the live value up to the next space and opening bracket, the default
  up to an arrow if there is one, the local value after the arrow, and the closing
  bracket at the end of the line.  The first three groups are as short as they can be.
\<close>

definition config_line_match :: "string \<Rightarrow> (string \<times> string \<times> string \<times> string option) option" where
  "config_line_match line =
     (if line = [] \<or> last line \<noteq> CHR '')'' then None
      else
        (case split1 '': '' (butlast line) of
           None \<Rightarrow> None
         | Some (g1, r1) \<Rightarrow>
             (case split1 '' ('' r1 of
                None \<Rightarrow> None
              | Some (g2, r2) \<Rightarrow>
                  (case split1 '' -> '' r2 of
                     None \<Rightarrow> Some (g1, g2, r2, None)
                   | Some (g3, g4) \<Rightarrow> Some (g1, g2, g3, Some g4)))))"

text \<open>\<^verbatim>\<open>reply[1][1][1].to_text()\<close> with its \<^verbatim>\<open>except IndexError\<close>.\<close>

definition reply_default :: "'f pylib \<Rightarrow> 'f space_data \<Rightarrow> error + string" where
  "reply_default fl reply =
     (case data_index reply 1 of
        Inl e \<Rightarrow> Inl e
      | Inr a \<Rightarrow>
          (case data_index a 1 of
             Inl e \<Rightarrow> Inl e
           | Inr b \<Rightarrow>
               (case data_index b 1 of
                  Inl e \<Rightarrow> Inl e
                | Inr c \<Rightarrow> to_text fl c)))"

definition index_error_to_space_error :: "'f pylib \<Rightarrow> 'f space_data \<Rightarrow> error + 'a \<Rightarrow> error + 'a" where
  "index_error_to_space_error fl reply r =
     (case r of
        Inl e \<Rightarrow>
          if e = IndexError
          then (case to_text fl reply of Inl e' \<Rightarrow> Inl e' | Inr t \<Rightarrow> Inl SpaceError)
          else Inl e
      | Inr x \<Rightarrow> Inr x)"

fun load_config_lines ::
  "'f pylib \<Rightarrow> 'f line_runner \<Rightarrow> 'f protocol \<Rightarrow> string list \<Rightarrow> bool \<Rightarrow> (unit, 'f) outcome" where
  "load_config_lines fl rl self [] logged = (Inr (), self)"
| "load_config_lines fl rl self (line # more_lines) logged =
     (if line = [] \<or> prefix ''#'' line then load_config_lines fl rl self more_lines logged
      else
        (case config_line_match line of
           None \<Rightarrow> (Inl SpaceError, self)
         | Some (g1, g2, g3, g4) \<Rightarrow>
             (let self1 = print_line (Print line) self;
                  command0 = (if prefix [CHR 0x22] g2 \<or> prefix [CHR 0x27] g2 then ''cstring''
                              else ''cvalue'') @ '' '' @ g1 @ '' '' @ g2;
                  has_local = (case g4 of None \<Rightarrow> False | Some t \<Rightarrow> t \<noteq> []);
                  command = (if has_local then command0 @ '' '' @ the g4 else command0)
              in case (if has_local then (Inr (), self1)
                       else
                         (case rl self1 (''cerase '' @ g1) True logged of
                            (Inl e, self2) \<Rightarrow> (Inl e, self2)
                          | (Inr reply, self2) \<Rightarrow>
                              if reply = None \<or> reply = Some [] \<or> reply = Some ''cerase_ack ''
                              then (Inl SpaceError, self2)
                              else (Inr (), self2))) of
                   (Inl e, self2) \<Rightarrow> (Inl e, self2)
                 | (Inr u, self2) \<Rightarrow>
                     (case from_text fl (parser self2) command of
                        Inl e \<Rightarrow> (Inl e, self2)
                      | Inr (message, rest) \<Rightarrow>
                          (case send_message fl self2 message logged None of
                             (Inl e, self3) \<Rightarrow> (Inl e, self3)
                           | (Inr None, self3) \<Rightarrow> (Inl SpaceError, self3)
                           | (Inr (Some reply), self3) \<Rightarrow>
                               if \<not> data_truth reply then (Inl SpaceError, self3)
                               else
                                 (case index_error_to_space_error fl reply (reply_default fl reply) of
                                    Inl e \<Rightarrow> (Inl e, self3)
                                  | Inr new_default \<Rightarrow>
                                      (let self4 =
                                         (if new_default \<noteq> g3
                                          then print_line (Print (''  Thruster firmware: '' @ new_default))
                                                 (print_line (Print (''  Config file value: '' @ g3))
                                                    (print_line
                                                       (Print (''WARNING: '' @ g1
                                                               @ '' default does not match.''))
                                                       self3))
                                          else self3)
                                       in load_config_lines fl rl self4 more_lines logged)))))))"

definition load_config_with ::
  "'f pylib \<Rightarrow> 'f line_runner \<Rightarrow> 'f protocol \<Rightarrow> string \<Rightarrow> bool \<Rightarrow> (unit, 'f) outcome" where
  "load_config_with fl rl self config logged =
     (let orig_echo = echo self
      in restore_echo orig_echo
           (load_config_lines fl rl (self\<lparr>echo := False\<rparr>) (split_lines config) logged))"

subsection \<open>\<^verbatim>\<open>save_config\<close>\<close>

text \<open>
  The list of configuration fields, read out of the parser of the \<^verbatim>\<open>cerase\<close> command:
  \<^verbatim>\<open>self.parser.first_parser._label_to_code['cerase']\<close> and
  \<^verbatim>\<open>self.parser._second_parsers[cerase_code]._code_to_label\<close>.
\<close>

fun first_parser_of :: "parser \<Rightarrow> error + parser" where
  "first_parser_of (PairParser fp dp sp sep) = Inr fp"
| "first_parser_of (MessageParser fp dp sp sep dl) = Inr fp"
| "first_parser_of p = Inl AttributeError"

fun second_parsers_of :: "parser \<Rightarrow> error + (int \<times> parser option) list" where
  "second_parsers_of (PairParser fp dp sp sep) = Inr sp"
| "second_parsers_of (MessageParser fp dp sp sep dl) = Inr sp"
| "second_parsers_of p = Inl AttributeError"

fun label_to_code_of :: "parser \<Rightarrow> error + (string \<times> int) list" where
  "label_to_code_of (IdentifierParser c2l l2c sep) = Inr l2c"
| "label_to_code_of p = Inl AttributeError"

fun code_to_label_of :: "parser option \<Rightarrow> error + (int \<times> string) list" where
  "code_to_label_of (Some (IdentifierParser c2l l2c sep)) = Inr c2l"
| "code_to_label_of p = Inl AttributeError"

definition config_fields :: "parser \<Rightarrow> error + (int \<times> string) list" where
  "config_fields p =
     (case first_parser_of p of
        Inl e \<Rightarrow> Inl e
      | Inr fp \<Rightarrow>
          (case label_to_code_of fp of
             Inl e \<Rightarrow> Inl e
           | Inr l2c \<Rightarrow>
               (case map_of l2c ''cerase'' of
                  None \<Rightarrow> Inl KeyError
                | Some cerase_code \<Rightarrow>
                    (case second_parsers_of p of
                       Inl e \<Rightarrow> Inl e
                     | Inr sp \<Rightarrow>
                         (case map_of sp cerase_code of
                            None \<Rightarrow> Inl KeyError
                          | Some q \<Rightarrow> code_to_label_of q)))))"

text \<open>\<^verbatim>\<open>params = reply[1][1]\<close>.\<close>

definition reply_params :: "'f space_data \<Rightarrow> error + 'f space_data" where
  "reply_params reply =
     (case data_index reply 1 of Inl e \<Rightarrow> Inl e | Inr a \<Rightarrow> data_index a 1)"

text \<open>
  The body of the \<^verbatim>\<open>try\<close> block of \<^verbatim>\<open>save_config\<close>: the parameters of the numeric reply,
  or of a second, string query when the numeric reply has none.
\<close>

definition query_params ::
  "'f pylib \<Rightarrow> 'f protocol \<Rightarrow> string \<Rightarrow> 'f space_data \<Rightarrow> bool \<Rightarrow> ('f space_data, 'f) outcome" where
  "query_params fl self label reply logged =
     (case reply_params reply of
        Inl e \<Rightarrow> (index_error_to_space_error fl reply (Inl e), self)
      | Inr params \<Rightarrow>
          if data_truth params then (Inr params, self)
          else
            (case from_text fl (parser self) (''cstring '' @ label) of
               Inl e \<Rightarrow> (index_error_to_space_error fl reply (Inl e), self)
             | Inr (command, rest) \<Rightarrow>
                 (case send_message fl self command logged None of
                    (Inl e, self1) \<Rightarrow> (index_error_to_space_error fl reply (Inl e), self1)
                  | (Inr None, self1) \<Rightarrow>
                      (case to_text fl command of
                         Inl e \<Rightarrow> (index_error_to_space_error fl reply (Inl e), self1)
                       | Inr t \<Rightarrow> (Inl SpaceError, self1))
                  | (Inr (Some reply2), self1) \<Rightarrow>
                      if \<not> data_truth reply2 then
                        (case to_text fl command of
                           Inl e \<Rightarrow> (index_error_to_space_error fl reply2 (Inl e), self1)
                         | Inr t \<Rightarrow> (Inl SpaceError, self1))
                      else (index_error_to_space_error fl reply2 (reply_params reply2), self1))))"

text \<open>The line of the snapshot for two or three parameters.\<close>

definition config_line :: "'f pylib \<Rightarrow> string \<Rightarrow> 'f space_data \<Rightarrow> 'f space_data \<Rightarrow> error + string" where
  "config_line fl label reply params =
     (case data_fields params of
        Inl e \<Rightarrow> Inl e
      | Inr ps \<Rightarrow>
          if length ps = 2 then
            (case to_text fl (ps ! 0) of
               Inl e \<Rightarrow> Inl e
             | Inr t0 \<Rightarrow>
                 (case to_text fl (ps ! 1) of
                    Inl e \<Rightarrow> Inl e
                  | Inr t1 \<Rightarrow> Inr (label @ '': '' @ t0 @ '' ('' @ t1 @ '')'')))
          else if length ps = 3 then
            (case to_text fl (ps ! 0) of
               Inl e \<Rightarrow> Inl e
             | Inr t0 \<Rightarrow>
                 (case to_text fl (ps ! 1) of
                    Inl e \<Rightarrow> Inl e
                  | Inr t1 \<Rightarrow>
                      (case to_text fl (ps ! 2) of
                         Inl e \<Rightarrow> Inl e
                       | Inr t2 \<Rightarrow>
                           Inr (label @ '': '' @ t0 @ '' ('' @ t1 @ '' -> '' @ t2 @ '')''))))
          else (case to_text fl reply of Inl e \<Rightarrow> Inl e | Inr t \<Rightarrow> Inl SpaceError))"

fun save_config_fields ::
  "'f pylib \<Rightarrow> 'f protocol \<Rightarrow> string \<Rightarrow> string list \<Rightarrow> bool \<Rightarrow> (string, 'f) outcome" where
  "save_config_fields fl self config [] logged = (Inr config, self)"
| "save_config_fields fl self config (label # more_labels) logged =
     (if label = ''all'' then save_config_fields fl self config more_labels logged
      else
        (case from_text fl (parser self) (''cvalue '' @ label) of
           Inl e \<Rightarrow> (Inl e, self)
         | Inr (command, rest) \<Rightarrow>
             (case send_message fl self command logged None of
                (Inl e, self1) \<Rightarrow> (Inl e, self1)
              | (Inr None, self1) \<Rightarrow>
                  save_config_fields fl
                    (print_line (Print (''WARNING: no value for parameter: '' @ label)) self1)
                    config more_labels logged
              | (Inr (Some reply), self1) \<Rightarrow>
                  if \<not> data_truth reply then
                    save_config_fields fl
                      (print_line (Print (''WARNING: no value for parameter: '' @ label)) self1)
                      config more_labels logged
                  else
                    (case query_params fl self1 label reply logged of
                       (Inl e, self2) \<Rightarrow> (Inl e, self2)
                     | (Inr params, self2) \<Rightarrow>
                         (case config_line fl label reply params of
                            Inl e \<Rightarrow> (Inl e, self2)
                          | Inr line \<Rightarrow>
                              save_config_fields fl (print_line (Print line) self2)
                                (config @ line @ [CHR 0x0A]) more_labels logged)))))"

definition save_config_with ::
  "'f pylib \<Rightarrow> 'f line_runner \<Rightarrow> 'f protocol \<Rightarrow> bool \<Rightarrow> (string, 'f) outcome" where
  "save_config_with fl rl self logged =
     (let orig_echo = echo self
      in restore_echo orig_echo
           (case rl (self\<lparr>echo := False\<rparr>) ''sysver'' True logged of
              (Inl e, self1) \<Rightarrow> (Inl e, self1)
            | (Inr sysver, self1) \<Rightarrow>
                (let config = ''# SPACESUIT thruster configuration parameters snapshot'' @ [CHR 0x0A]
                              @ ''# Created: '' @ timestamp @ [CHR 0x0A]
                              @ ''# '' @ (case sysver of None \<Rightarrow> ''None'' | Some t \<Rightarrow> t)
                              @ [CHR 0x0A]
                 in case config_fields (parser self1) of
                      Inl e \<Rightarrow> (Inl e, self1)
                    | Inr fields_by_code \<Rightarrow>
                        save_config_fields fl self1 config
                          (map snd (sort_key fst fields_by_code)) logged)))"

subsection \<open>\<^verbatim>\<open>run_line\<close>\<close>

text \<open>
  Reading a file: a path that names no file raises \<^verbatim>\<open>FileNotFoundError\<close>, which the
  callers turn into \<^verbatim>\<open>SpaceError\<close>.  A file opened as text is decoded and its line ends
  are made line feeds.
\<close>

fun universal_newlines :: "string \<Rightarrow> string" where
  "universal_newlines [] = []"
| "universal_newlines [c] = (if c = CHR 0x0D then [CHR 0x0A] else [c])"
| "universal_newlines (c # d # cs) =
     (if c = CHR 0x0D \<and> d = CHR 0x0A then CHR 0x0A # universal_newlines cs
      else if c = CHR 0x0D then CHR 0x0A # universal_newlines (d # cs)
      else c # universal_newlines (d # cs))"

definition read_text :: "bytes \<Rightarrow> error + string" where
  "read_text data =
     (case utf8_decode data of
        None \<Rightarrow> Inl UnicodeDecodeError
      | Some cps \<Rightarrow> Inr (universal_newlines (text_of_bytes data)))"

text \<open>
  The recursion of \<^verbatim>\<open>run_line\<close> through macros, scripts and the flashing and
  configuration macros is bounded by the interpreter: \<open>depth\<close> is the number of nested
  calls it still allows, and a call beyond it raises \<^verbatim>\<open>RecursionError\<close>.
\<close>

fun run_line ::
  "'f pylib \<Rightarrow> nat \<Rightarrow> 'f protocol \<Rightarrow> string \<Rightarrow> bool \<Rightarrow> bool \<Rightarrow> (string option, 'f) outcome" where
  "run_line fl 0 self line echo_input logged = (Inl RecursionError, self)"
| "run_line fl (Suc depth) self line0 echo_input logged =
     (let line1 = py_strip line0 in
      if line1 = [] \<or> prefix ''#'' line1 \<or> prefix ''<'' line1 then (Inr None, self)
      else
        (let line = (if prefix ''>'' line1 then py_strip (tl line1) else line1);
             self1 = (if echo self \<and> echo_input then print_line (Print (''> '' @ line)) self
                      else self)
         in case map_of (macros self1) line of
              Some body \<Rightarrow>
                run_script_with (run_line fl depth)
                  (if logged then log_write (''# MACRO: '' @ line @ [CHR 0x0A]) self1 else self1)
                  body logged
            | None \<Rightarrow>
                if prefix ''pause '' line then
                  (case f_parse fl (drop 6 line) of
                     None \<Rightarrow> (Inl ParseError, self1)
                   | Some delay \<Rightarrow>
                       (let self2 =
                          (if logged
                           then log_write (''> pause '' @ f_format_g fl delay @ [CHR 0x0A, CHR 0x0A])
                                  (log_write (''# '' @ timestamp @ [CHR 0x0A]) self1)
                           else self1)
                        in case f_sleep fl delay of
                             Some e \<Rightarrow> (Inl e, self2)
                           | None \<Rightarrow>
                               (Inr None, if echo self2 then print_line (Print []) self2 else self2)))
                else if prefix ''flash '' line then
                  (let self2 =
                     (if logged
                      then log_write (''# '' @ line @ [CHR 0x0A, CHR 0x0A])
                             (log_write (''# '' @ timestamp @ [CHR 0x0A]) self1)
                      else self1)
                   in case files self2 (drop 6 line) of
                        None \<Rightarrow> (Inl SpaceError, self2)
                      | Some data \<Rightarrow>
                          if \<not> firmware_size_ok data then (Inl SpaceError, self2)
                          else if \<not> firmware_checksum_ok data then (Inl SpaceError, self2)
                          else
                            (case flash_binary_with (run_line fl depth) self2 0x80008000 data
                                    (echo self2) logged of
                               (Inl e, self3) \<Rightarrow> (Inl e, self3)
                             | (Inr u, self3) \<Rightarrow> run_line fl depth self3 ''sysreset 0.1'' True logged))
                else if prefix ''flashboot '' line then
                  (let self2 =
                     (if logged
                      then log_write (''# '' @ line @ [CHR 0x0A, CHR 0x0A])
                             (log_write (''# '' @ timestamp @ [CHR 0x0A]) self1)
                      else self1)
                   in case files self2 (drop 10 line) of
                        None \<Rightarrow> (Inl SpaceError, self2)
                      | Some data \<Rightarrow>
                          if \<not> bootloader_size_ok data then (Inl SpaceError, self2)
                          else
                            (case flash_binary_with (run_line fl depth) self2 0x80000000 data
                                    (echo self2) logged of
                               (Inl e, self3) \<Rightarrow> (Inl e, self3)
                             | (Inr u, self3) \<Rightarrow> run_line fl depth self3 ''sysreset 0.1'' True logged))
                else if prefix ''cload '' line then
                  (let self2 =
                     (if logged
                      then log_write (''# '' @ line @ [CHR 0x0A, CHR 0x0A])
                             (log_write (''# '' @ timestamp @ [CHR 0x0A]) self1)
                      else self1)
                   in case files self2 (drop 6 line) of
                        None \<Rightarrow> (Inl SpaceError, self2)
                      | Some data \<Rightarrow>
                          (case read_text data of
                             Inl e \<Rightarrow> (Inl e, self2)
                           | Inr config \<Rightarrow>
                               (case load_config_with fl (run_line fl depth) self2 config logged of
                                  (Inl e, self3) \<Rightarrow> (Inl e, self3)
                                | (Inr u, self3) \<Rightarrow> (Inr None, self3))))
                else if prefix ''csave '' line then
                  (let self2 =
                     (if logged
                      then log_write (''# '' @ line @ [CHR 0x0A, CHR 0x0A])
                             (log_write (''# '' @ timestamp @ [CHR 0x0A]) self1)
                      else self1)
                   in case save_config_with fl (run_line fl depth) self2 logged of
                        (Inl e, self3) \<Rightarrow> (Inl e, self3)
                      | (Inr config, self3) \<Rightarrow>
                          if \<not> writable self3 (drop 6 line) then (Inl SpaceError, self3)
                          else
                            (Inr None,
                             self3\<lparr>files := (files self3)(drop 6 line \<mapsto> bytes_of_text config)\<rparr>))
                else send_text fl self1 line logged))"

declare run_line.simps [simp del]

definition run_script ::
  "'f pylib \<Rightarrow> nat \<Rightarrow> 'f protocol \<Rightarrow> string \<Rightarrow> bool \<Rightarrow> (string option, 'f) outcome" where
  "run_script fl depth self script_data logged =
     run_script_with (run_line fl depth) self script_data logged"

definition flash_binary ::
  "'f pylib \<Rightarrow> nat \<Rightarrow> 'f protocol \<Rightarrow> int \<Rightarrow> bytes \<Rightarrow> bool \<Rightarrow> bool \<Rightarrow> (unit, 'f) outcome" where
  "flash_binary fl depth self addr data progress logged =
     flash_binary_with (run_line fl depth) self addr data progress logged"

definition load_config ::
  "'f pylib \<Rightarrow> nat \<Rightarrow> 'f protocol \<Rightarrow> string \<Rightarrow> bool \<Rightarrow> (unit, 'f) outcome" where
  "load_config fl depth self config logged =
     load_config_with fl (run_line fl depth) self config logged"

definition save_config ::
  "'f pylib \<Rightarrow> nat \<Rightarrow> 'f protocol \<Rightarrow> bool \<Rightarrow> (string, 'f) outcome" where
  "save_config fl depth self logged = save_config_with fl (run_line fl depth) self logged"

section \<open>The specification's reading of the frame\<close>

text \<open>
  The checksum as the specification words it: a 16-bit register, each message byte
  exclusive-ored into its high byte, then eight shifts to the left, each followed by
  the polynomial when the bit shifted out was set; nothing is reflected and nothing is
  applied at the end.
\<close>

definition crc16_bitwise_byte :: "16 word \<Rightarrow> 16 word \<Rightarrow> byte \<Rightarrow> 16 word" where
  "crc16_bitwise_byte poly c b =
     ((\<lambda>r. if bit r 15 then push_bit 1 r XOR poly else push_bit 1 r) ^^ 8)
       (c XOR push_bit 8 (ucast b))"

definition crc16_bitwise :: "16 word \<Rightarrow> 16 word \<Rightarrow> bytes \<Rightarrow> 16 word" where
  "crc16_bitwise poly init data = foldl (crc16_bitwise_byte poly) init data"

text \<open>
  The conditions on a reply frame as the specification lists them: the sync bytes, the
  reply nibble with the session's addr, a length byte of at most 127, a data_len length
  of seven more than the length byte, and the checksum of bytes 2 up to the end of the
  body in the last two bytes, low byte first.
\<close>

definition frame_ok :: "int \<Rightarrow> bytes \<Rightarrow> bool" where
  "frame_ok a p \<longleftrightarrow>
     7 \<le> length p \<and> take 2 p = [0x1A, 0xCE] \<and> uint (p ! 2) = (0xB0 OR a)
     \<and> unat (p ! 4) \<le> 127 \<and> length p = unat (p ! 4) + 7
     \<and> slice (5 + unat (p ! 4)) (7 + unat (p ! 4)) p
         = pack_H (crc16 (slice 2 (5 + unat (p ! 4)) p))"

section \<open>The specification's reading of integer literals\<close>

text \<open>
  A decimal literal is a run of the digits 0 to 9, a hexadecimal literal a run of those
  and the letters a to f in either case; its value is read from the left.
\<close>

definition is_dec_digit :: "char \<Rightarrow> bool" where
  "is_dec_digit c \<longleftrightarrow> 0x30 \<le> (of_char c :: nat) \<and> (of_char c :: nat) \<le> 0x39"

definition is_hex_digit :: "char \<Rightarrow> bool" where
  "is_hex_digit c \<longleftrightarrow>
     is_dec_digit c \<or> (0x61 \<le> (of_char c :: nat) \<and> (of_char c :: nat) \<le> 0x66)
       \<or> (0x41 \<le> (of_char c :: nat) \<and> (of_char c :: nat) \<le> 0x46)"

definition digits_value :: "nat \<Rightarrow> string \<Rightarrow> int" where
  "digits_value base ds = foldl (\<lambda>a c. a * int base + int (the (digit_value c))) 0 ds"

text \<open>
  The syntax of a number as \<^verbatim>\<open>int\<close> takes it, on ASCII text.  The digits are digits of the
  base with single underscores between them: a run starts and ends with a digit.
  \<open>tail_run\<close> is what may follow a digit (\<open>p\<close> false) or an underscore (\<open>p\<close> true).
\<close>

fun digit_run :: "nat \<Rightarrow> string \<Rightarrow> bool" where
  "digit_run base [] = False"
| "digit_run base [c] = is_digit_in base c"
| "digit_run base (c # d # r) =
     (is_digit_in base c \<and> (if d = CHR ''_'' then digit_run base r else digit_run base (d # r)))"

fun tail_run :: "nat \<Rightarrow> bool \<Rightarrow> string \<Rightarrow> bool" where
  "tail_run base p [] = (\<not> p)"
| "tail_run base p (c # r) =
     (if c = CHR ''_'' then \<not> p \<and> tail_run base True r
      else is_digit_in base c \<and> tail_run base False r)"

text \<open>
  Around the digits: white space on both sides, then one sign, then for base 16 the
  prefix \<^verbatim>\<open>0x\<close> or \<^verbatim>\<open>0X\<close> and one underscore after it.  \<open>number_core\<close> is what is left
  when these are taken away; the text is a number when that is a run of digits, and its
  value is the value of the digits with the sign.
\<close>

definition strip_right :: "string \<Rightarrow> string" where
  "strip_right s = rev (dropWhile is_py_space (rev s))"

definition strip_spaces :: "string \<Rightarrow> string" where
  "strip_spaces s = strip_right (dropWhile is_py_space s)"

definition number_core :: "nat \<Rightarrow> string \<Rightarrow> string" where
  "number_core base a =
     (let t = strip_spaces a;
          u = (if prefix ''-'' t \<or> prefix ''+'' t then tl t else t)
      in if base = 16 \<and> (prefix ''0x'' u \<or> prefix ''0X'' u)
         then (if prefix ''_'' (drop 2 u) then drop 3 u else drop 2 u)
         else u)"

definition is_number :: "nat \<Rightarrow> string \<Rightarrow> bool" where
  "is_number base a \<longleftrightarrow> digit_run base (number_core base a)"

definition number_value :: "nat \<Rightarrow> string \<Rightarrow> int" where
  "number_value base a =
     (if prefix ''-'' (strip_spaces a) then - 1 else 1)
       * digits_value base (filter (\<lambda>c. c \<noteq> CHR ''_'') (number_core base a))"

text \<open>A decimal number with more digits than the interpreter allows.\<close>

definition over_digit_limit :: "nat \<Rightarrow> string \<Rightarrow> bool" where
  "over_digit_limit limit a \<longleftrightarrow>
     0 < limit \<and> max 640 limit < length (filter (\<lambda>c. c \<noteq> CHR ''_'') (number_core 10 a))"

text \<open>
  Wrapping a hexadecimal value into two's complement under a signed parser, and the
  outcome of the range check of the width.
\<close>

definition wrap_signed :: "nat \<Rightarrow> bool \<Rightarrow> int \<Rightarrow> int" where
  "wrap_signed w sg v = (if sg \<and> 2 ^ (w - 1) \<le> v then v - 2 ^ w else v)"

definition range_checked ::
  "nat \<Rightarrow> bool \<Rightarrow> int \<Rightarrow> string \<Rightarrow> error + ('f space_data \<times> string)" where
  "range_checked w sg v rest =
     (if (if sg then - (2 ^ (w - 1)) else 0) \<le> v \<and> v \<le> (if sg then 2 ^ (w - 1) - 1 else 2 ^ w - 1)
      then Inr (IntegerData v w sg, rest)
      else Inl ParameterInvalid)"

text \<open>
  The value of a token, if it has one: after \<^verbatim>\<open>0x\<close> or \<^verbatim>\<open>0X\<close> a number in base 16,
  wrapped; otherwise a number in base 10 within the digit limit.  The token is made
  ASCII first, as \<^verbatim>\<open>int\<close> does.
\<close>

definition token_value :: "'f pylib \<Rightarrow> nat \<Rightarrow> bool \<Rightarrow> string \<Rightarrow> int option" where
  "token_value fl w sg tok =
     (if prefix ''0x'' tok \<or> prefix ''0X'' tok then
        (case int_text fl (drop 2 tok) of
           None \<Rightarrow> None
         | Some a \<Rightarrow>
             if is_number 16 a then Some (wrap_signed w sg (number_value 16 a)) else None)
      else
        (case int_text fl tok of
           None \<Rightarrow> None
         | Some a \<Rightarrow>
             if is_number 10 a \<and> \<not> over_digit_limit (int_max_str_digits fl) a
             then Some (number_value 10 a) else None))"

section \<open>The specification's reading of the line classifier\<close>

text \<open>The first rule: a blank line, a comment, a recorded reply.\<close>

definition ignored_line :: "string \<Rightarrow> bool" where
  "ignored_line s \<longleftrightarrow> s = [] \<or> prefix ''#'' s \<or> prefix ''<'' s"

section \<open>The bytes a device delivers\<close>

text \<open>The bytes among the outcomes of the reads, in the order they came.\<close>

definition bytes_read :: "byte option list \<Rightarrow> bytes" where
  "bytes_read polls = map the (filter (\<lambda>x. x \<noteq> None) polls)"

section \<open>A session for the examples\<close>

text \<open>
  The examples need a library and a session.  In \<open>wire_floats\<close> a float is the four
  bytes of its wire form and has no text form; no example below reads or writes the text
  of a float.  \<open>ace_session\<close> is a session at the default address 5 over the
  catalogue of \<^verbatim>\<open>ace_common.py\<close>, with a device that never answers.  (The tool itself
  imports \<^verbatim>\<open>ace_max.py\<close>, which appends its \<^verbatim>\<open>magcoil\<close> command to the same list;
  no example below names that command.)  The library reads the Arabic-Indic digits and
  the no-break space of Unicode and has the interpreter's default digit limit.
\<close>

definition wire_floats :: "bytes pylib" where
  "wire_floats =
     \<lparr> f_unpack = (\<lambda>b. b), f_pack = Inr, f_parse = (\<lambda>s. None), f_format_g = (\<lambda>x. []),
       f_int_key = (\<lambda>x. None), f_sleep = (\<lambda>x. None), u_isprintable = (\<lambda>n. False),
       u_lookup_name = (\<lambda>s. None), u_isspace = (\<lambda>n. n = 0xA0),
       u_decimal = (\<lambda>n. if 0x660 \<le> n \<and> n \<le> 0x669 then Some (n - 0x660) else None),
       int_max_str_digits = 4300 \<rparr>"

definition ace_session :: "bytes protocol" where
  "ace_session =
     \<lparr> address = 5, parser = ACE_PARSER, debug = False, status = None, written = [],
       device = (\<lambda>history wait. []), console = [], logfile = [], macros = [], echo = False,
       telemetry = [], files = (\<lambda>path. None), writable = (\<lambda>path. True) \<rparr>"

definition ping_message :: "'f space_data" where
  "ping_message = MessageData [EmptyData ''ping''] '' '' (Some MINIMUM_DEADLINE)"

text \<open>A device that answers every command with the empty reply frame, status 0.\<close>

definition polite_device :: "bytes list \<Rightarrow> rat \<Rightarrow> byte option list" where
  "polite_device history wait =
     [None, Some 0x1A, Some 0xCE, None, Some 0xB5, Some 0x00, Some 0x00, Some 0x72, Some 0x75, None]"

section \<open>The checksum\<close>

lemma crc_shift_xor: "crc_shift (x XOR y) = crc_shift x XOR crc_shift y"
  by (cases "bit x 15"; cases "bit y 15")
     (simp_all add: crc_shift_def bit_xor_iff ac_simps)

lemma crc_shift_funpow_xor:
  "(crc_shift ^^ k) (x XOR y) = (crc_shift ^^ k) x XOR (crc_shift ^^ k) y"
  by (induction k arbitrary: x y) (simp_all add: crc_shift_xor funpow_swap1)

lemma crc_shift_low:
  "k \<le> 8 \<Longrightarrow> (crc_shift ^^ k) (ucast (b :: byte)) = push_bit k (ucast b)"
proof (induction k)
  case 0
  then show ?case by simp
next
  case (Suc k)
  then have IH: "(crc_shift ^^ k) (ucast b) = push_bit k (ucast b)" and k: "k < 8"
    by simp_all
  have nb: "\<not> bit (push_bit k (ucast b :: 16 word)) 15"
    using k by (auto simp: bit_push_bit_iff bit_ucast_iff dest!: bit_imp_le_length)
  have "(crc_shift ^^ Suc k) (ucast b) = crc_shift (push_bit k (ucast b))"
    by (simp only: funpow.simps o_apply IH)
  also have "\<dots> = push_bit 1 (push_bit k (ucast b))"
    using nb by (simp only: crc_shift_def if_False)
  finally show ?case by (simp add: push_bit_push_bit)
qed

lemma split_high_low:
  "(c :: 16 word) XOR push_bit 8 (ucast (b :: byte)) =
     ucast (ucast c :: byte) XOR push_bit 8 (ucast (ucast (drop_bit 8 c) XOR b))"
  apply (rule bit_eqI)
  apply (simp only: bit_xor_iff bit_push_bit_iff bit_ucast_iff bit_drop_bit_eq)
  apply (auto dest: bit_imp_le_length)
  done

lemma word_FF00: "(0xFF00 :: 16 word) = push_bit 8 (mask 8)"
  by (simp add: mask_eq_exp_minus_1)

lemma bit_FF00: "bit (0xFF00 :: 16 word) n \<longleftrightarrow> 8 \<le> n \<and> n < 16"
  by (auto simp add: word_FF00 bit_push_bit_iff bit_mask_iff simp del: push_bit_numeral)

lemma low_shift:
  "push_bit 8 (ucast (ucast (c :: 16 word) :: byte)) = (push_bit 8 c AND 0xFF00 :: 16 word)"
  apply (rule bit_eqI)
  apply (simp only: bit_and_iff bit_FF00 bit_push_bit_iff bit_ucast_iff)
  apply auto
  done

text \<open>One table lookup does the work of eight shifts.\<close>

lemma crc_hqx_step_bitwise: "crc_hqx_step c b = crc16_bitwise_byte 0x1021 c b"
proof -
  have "crc16_bitwise_byte 0x1021 c b = (crc_shift ^^ 8) (c XOR push_bit 8 (ucast b))"
    unfolding crc16_bitwise_byte_def crc_shift_def ..
  also have "\<dots> = (crc_shift ^^ 8) (ucast (ucast c :: byte))
        XOR (crc_shift ^^ 8) (push_bit 8 (ucast (ucast (drop_bit 8 c) XOR b)))"
    by (subst split_high_low) (simp only: crc_shift_funpow_xor)
  also have "\<dots> = push_bit 8 (ucast (ucast c :: byte))
        XOR (crc_shift ^^ 8) (push_bit 8 (ucast (ucast (drop_bit 8 c) XOR b)))"
    by (simp only: crc_shift_low [OF order_refl])
  also have "\<dots> = crc_hqx_step c b"
    by (simp only: low_shift crc_hqx_step_def crctab_hqx_def)
  finally show ?thesis by simp
qed

lemma crc_hqx_bitwise: "crc_hqx data v = crc16_bitwise 0x1021 v data"
  by (induction data arbitrary: v)
     (simp_all add: crc_hqx_def crc16_bitwise_def crc_hqx_step_bitwise)

lemma crc16_ping_command: "crc16 [0xA5, 0x00] = 0x5365"
  by code_simp

lemma to_binary_ping [simp]: "to_binary fl ping_message = Inr []"
  by (simp add: ping_message_def join_bytes_def)

lemma to_packet_layout:
  assumes "to_binary fl m = Inr body" and "length body \<le> 127"
    and "0 \<le> address self" and "address self \<le> 15"
  shows "to_packet fl self m =
           Inr ([0x1A, 0xCE, word_of_int (0xA0 OR address self), of_nat (length body)] @ body
                @ pack_H (crc16 ([word_of_int (0xA0 OR address self), of_nat (length body)] @ body)))"
proof -
  have "(0xA0 :: int) OR address self < 2 ^ 8"
    using assms(4) by (intro OR_upper) simp_all
  then have "0xA0 OR address self < 256"
    by simp
  moreover have "0 \<le> 0xA0 OR address self"
    using assms(3) by simp
  ultimately show ?thesis
    using assms(1,2)
    by (simp add: to_packet_def bytes1_def COMMAND_BYTE_def MAX_MESSAGE_SIZE_def
        SYNC_SEQUENCE_def)
qed

section \<open>Decoding a reply frame\<close>

lemma from_packet_frame:
  "from_packet fl self p =
     (if frame_ok (address self) p then
        (case from_binary fl (parser self) (slice 5 (5 + unat (p ! 4)) p) of
           Inl e \<Rightarrow> Inl e
         | Inr (m, rest) \<Rightarrow>
             if rest = [] then Inr (Some (m, uint (p ! 3))) else Inl AssertionError)
      else Inr None)"
  by (auto simp: from_packet_def frame_ok_def Let_def SYNC_SEQUENCE_def REPLY_BYTE_def
        MAX_MESSAGE_SIZE_def split: sum.splits)

lemma frame_ok_length: "frame_ok a p \<Longrightarrow> length p = unat (p ! 4) + 7"
  by (simp add: frame_ok_def)

lemma from_packet_Some_frame_ok:
  "from_packet fl self p = Inr (Some r) \<Longrightarrow> frame_ok (address self) p"
  by (simp add: from_packet_frame split: if_splits)

lemma not_frame_ok_length:
  assumes "frame_ok a p" and "length q \<noteq> length p" and "7 \<le> length q \<longrightarrow> q ! 4 = p ! 4"
  shows "\<not> frame_ok a q"
  using assms by (auto simp: frame_ok_def)

lemma from_packet_ping_reply:
  "from_packet wire_floats ace_session [0x1A, 0xCE, 0xB5, 0x00, 0x00, 0x72, 0x75]
     = Inr (Some (ping_message, 0))"
proof -
  have "crc16 [0xB5, 0x00, 0x00] = 0x7572"
    by code_simp
  then have "frame_ok 5 [0x1A, 0xCE, 0xB5, 0x00, 0x00, 0x72, 0x75]"
    by (simp add: frame_ok_def slice_def pack_H_def)
  then show ?thesis
    by (simp add: from_packet_frame ace_session_def slice_def ACE_PARSER_def ping_message_def
        SPACE_PING_def from_binary.simps)
qed

lemma not_frame_ok_bad_crc: "\<not> frame_ok 5 [0x1A, 0xCE, 0xB5, 0x00, 0x00, 0x72, 0x76]"
proof -
  have "crc16 [0xB5, 0x00, 0x00] = 0x7572"
    by code_simp
  then show ?thesis
    by (simp add: frame_ok_def slice_def pack_H_def)
qed

section \<open>Claims about the frame codec\<close>

text \<open>
  C3 (amended).  For every byte sequence, the frame checksum \<open>crc16\<close> is the bitwise
  CRC with polynomial 0x1021 and initial value 0xFFFF, not reflected and with no final
  exclusive-or of its own, exclusive-ored with 0xACE1; it is appended low byte first; it
  runs over the packet from the direction and address byte to the last body byte.
  Encoding the empty ping message at device address 5 gives the six bytes
  1A CE A5 00 65 53.
\<close>

theorem crc16_frame:
  "crc16 d = crc16_bitwise 0x1021 0xFFFF d XOR 0xACE1
   \<and> pack_H c = [ucast c, ucast (drop_bit 8 c)]
   \<and> (to_binary fl m = Inr body \<and> length body \<le> 127 \<and> 0 \<le> address self \<and> address self \<le> 15
        \<longrightarrow> to_packet fl self m =
           Inr ([0x1A, 0xCE, word_of_int (0xA0 OR address self), of_nat (length body)] @ body
                @ pack_H (crc16 ([word_of_int (0xA0 OR address self), of_nat (length body)] @ body))))
   \<and> to_packet fl (self\<lparr>address := 5\<rparr>) ping_message = Inr [0x1A, 0xCE, 0xA5, 0x00, 0x65, 0x53]"
proof -
  have ping: "to_packet fl (self\<lparr>address := 5\<rparr>) ping_message
                = Inr [0x1A, 0xCE, 0xA5, 0x00, 0x65, 0x53]"
    using to_packet_layout [of fl ping_message "[]" "self\<lparr>address := 5\<rparr>"]
    by (simp add: crc16_ping_command pack_H_def)
  show ?thesis
    using ping
    by (simp add: crc16_def crc_hqx_bitwise CRC_INITIAL_def CRC_XOR_def pack_H_def
        to_packet_layout)
qed

theorem crc16_frame_witness:
  "to_packet wire_floats ace_session ping_message = Inr [0x1A, 0xCE, 0xA5, 0x00, 0x65, 0x53]
   \<and> crc16 [0xA5, 0x00] = crc16_bitwise 0x1021 0xFFFF [0xA5, 0x00] XOR 0xACE1"
proof -
  have "ace_session\<lparr>address := 5\<rparr> = ace_session"
    by (simp add: ace_session_def)
  then show ?thesis
    using crc16_frame [of "[0xA5, 0x00]" 0 wire_floats ping_message "[]" ace_session]
    by simp
qed

text \<open>
  The bytes the specification gives for the ping, 1A CE A5 00 5F 31, are not what the
  encoder produces.
\<close>

theorem ping_bytes_counterexample:
  "to_packet wire_floats ace_session ping_message \<noteq> Inr [0x1A, 0xCE, 0xA5, 0x00, 0x5F, 0x31]"
proof -
  have "to_packet wire_floats ace_session ping_message
          = Inr [0x1A, 0xCE, 0xA5, 0x00, 0x65, 0x53]"
    using to_packet_layout [of wire_floats ping_message "[]" ace_session]
    by (simp add: crc16_ping_command pack_H_def ace_session_def)
  then show ?thesis by simp
qed

text \<open>
  C1 (amended).  For every buffer and session, \<open>from_packet\<close> returns \<^verbatim>\<open>(None, None)\<close>
  exactly when one of the frame conditions fails (sync bytes, reply nibble with the
  session's address, length byte at most 127, total length of the length byte plus 7,
  checksum).  When they all hold it gives the body to the message parser: it returns
  the parsed message with the status byte when the parser leaves no remainder, raises
  the parser's exception when the parser raises, and fails its assertion when a
  remainder is left.
\<close>

theorem from_packet_cases:
  "from_packet fl self p =
     (if frame_ok (address self) p then
        (case from_binary fl (parser self) (slice 5 (5 + unat (p ! 4)) p) of
           Inl e \<Rightarrow> Inl e
         | Inr (m, rest) \<Rightarrow>
             if rest = [] then Inr (Some (m, uint (p ! 3))) else Inl AssertionError)
      else Inr None)"
  by (rule from_packet_frame)

theorem from_packet_cases_witness:
  "from_packet wire_floats ace_session [0x1A, 0xCE, 0xB5, 0x00, 0x00, 0x72, 0x75]
     = Inr (Some (ping_message, 0))
   \<and> from_packet wire_floats ace_session [0x1A, 0xCE, 0xB5, 0x00, 0x00, 0x72, 0x76] = Inr None"
proof -
  have g: "\<not> frame_ok (address ace_session) [0x1A, 0xCE, 0xB5, 0x00, 0x00, 0x72, 0x76]"
    using not_frame_ok_bad_crc by (simp add: ace_session_def)
  show ?thesis
    using from_packet_cases [of wire_floats ace_session "[0x1A, 0xCE, 0xB5, 0x00, 0x00, 0x72, 0x76]"]
      g from_packet_ping_reply
    by simp
qed

text \<open>
  A reply frame that meets every frame condition and carries the unregistered message
  type 0xFF: the decoder raises \<^verbatim>\<open>IdentifierUnknown\<close>; it returns neither a parsed pair
  nor \<^verbatim>\<open>(None, None)\<close>.
\<close>

theorem from_packet_raises_counterexample:
  "frame_ok 5 [0x1A, 0xCE, 0xB5, 0x00, 0x01, 0xFF, 0x74, 0x48]
   \<and> from_packet wire_floats ace_session [0x1A, 0xCE, 0xB5, 0x00, 0x01, 0xFF, 0x74, 0x48]
       = Inl IdentifierUnknown"
proof -
  have "crc16 [0xB5, 0x00, 0x01, 0xFF] = 0x4874"
    by code_simp
  then have f: "frame_ok 5 [0x1A, 0xCE, 0xB5, 0x00, 0x01, 0xFF, 0x74, 0x48]"
    by (simp add: frame_ok_def slice_def pack_H_def)
  have "from_binary wire_floats ACE_PARSER [0xFF] = Inl IdentifierUnknown"
    by (simp add: ACE_PARSER_def ACE_TYPES_def from_binary.simps)
  with f show ?thesis
    by (simp add: from_packet_frame ace_session_def slice_def)
qed

text \<open>
  C4.  The frame decoder is monotone over prefixes.  Let \<open>p\<close> be a reply packet that
  decodes to a result, followed in the stream by any further bytes \<open>rest\<close>.  Every
  prefix of the stream shorter than \<open>p\<close> decodes to \<^verbatim>\<open>(None, None)\<close>; the prefix of
  the length of \<open>p\<close> decodes to the result of \<open>p\<close>, and so does every slice \<^verbatim>\<open>p[:k]\<close> with
  \<open>k\<close> at or beyond that length; a prefix that takes in a byte of what follows decodes
  to \<^verbatim>\<open>(None, None)\<close> again.
\<close>

theorem from_packet_prefix:
  assumes "from_packet fl self p = Inr (Some r)"
  shows "(\<forall>k<length p. from_packet fl self (take k (p @ rest)) = Inr None)
       \<and> from_packet fl self (take (length p) (p @ rest)) = Inr (Some r)
       \<and> (\<forall>k\<ge>length p. from_packet fl self (take k p) = Inr (Some r))
       \<and> (\<forall>k>length p. k \<le> length (p @ rest)
            \<longrightarrow> from_packet fl self (take k (p @ rest)) = Inr None)"
proof -
  from assms have ok: "frame_ok (address self) p"
    by (rule from_packet_Some_frame_ok)
  then have len: "7 \<le> length p"
    by (simp add: frame_ok_def)
  have other: "from_packet fl self (take k (p @ rest)) = Inr None"
    if "k \<noteq> length p" "k \<le> length (p @ rest)" for k
  proof -
    have "\<not> frame_ok (address self) (take k (p @ rest))"
    proof (rule not_frame_ok_length [OF ok])
      show "length (take k (p @ rest)) \<noteq> length p"
        using that by simp
      show "7 \<le> length (take k (p @ rest)) \<longrightarrow> take k (p @ rest) ! 4 = p ! 4"
        using that len by (auto simp: nth_append)
    qed
    then show ?thesis by (simp add: from_packet_frame)
  qed
  have short: "\<forall>k<length p. from_packet fl self (take k (p @ rest)) = Inr None"
  proof (intro allI impI)
    fix k assume "k < length p"
    then show "from_packet fl self (take k (p @ rest)) = Inr None"
      by (intro other) simp_all
  qed
  have long: "\<forall>k>length p. k \<le> length (p @ rest)
                \<longrightarrow> from_packet fl self (take k (p @ rest)) = Inr None"
  proof (intro allI impI)
    fix k assume "length p < k" "k \<le> length (p @ rest)"
    then show "from_packet fl self (take k (p @ rest)) = Inr None"
      by (intro other) simp_all
  qed
  have exact: "from_packet fl self (take (length p) (p @ rest)) = Inr (Some r)"
    using assms by simp
  have whole: "\<forall>k\<ge>length p. from_packet fl self (take k p) = Inr (Some r)"
    using assms by simp
  from short exact whole long show ?thesis
    by (intro conjI)
qed

theorem from_packet_prefix_witness:
  "from_packet wire_floats ace_session
     (take 6 ([0x1A, 0xCE, 0xB5, 0x00, 0x00, 0x72, 0x75] @ [0x1A, 0xCE])) = Inr None
   \<and> from_packet wire_floats ace_session
     (take 7 ([0x1A, 0xCE, 0xB5, 0x00, 0x00, 0x72, 0x75] @ [0x1A, 0xCE]))
       = Inr (Some (ping_message, 0))
   \<and> from_packet wire_floats ace_session
     (take 8 ([0x1A, 0xCE, 0xB5, 0x00, 0x00, 0x72, 0x75] @ [0x1A, 0xCE])) = Inr None"
proof -
  note t = from_packet_prefix [OF from_packet_ping_reply, of "[0x1A, 0xCE]"]
  from t have "from_packet wire_floats ace_session
      (take 6 ([0x1A, 0xCE, 0xB5, 0x00, 0x00, 0x72, 0x75] @ [0x1A, 0xCE])) = Inr None"
    by (elim conjE allE [of _ 6]) simp
  moreover from t have "from_packet wire_floats ace_session
      (take 8 ([0x1A, 0xCE, 0xB5, 0x00, 0x00, 0x72, 0x75] @ [0x1A, 0xCE])) = Inr None"
    by (elim conjE allE [of _ 8]) simp
  moreover from t have "from_packet wire_floats ace_session
      (take 7 ([0x1A, 0xCE, 0xB5, 0x00, 0x00, 0x72, 0x75] @ [0x1A, 0xCE]))
        = Inr (Some (ping_message, 0))"
    by simp
  ultimately show ?thesis by blast
qed

section \<open>Claims about the list parser\<close>

lemma float_loop_residue:
  "length binary mod 4 \<noteq> 0 \<Longrightarrow>
   (case max_length of None \<Rightarrow> True | Some m \<Rightarrow> length flds + length binary div 4 < m) \<Longrightarrow>
   ListParser_loop (from_binary fl (FloatParser units sep)) max_length flds binary = Inl StructError"
proof (induction "length binary" arbitrary: binary flds rule: less_induct)
  case less
  from less.prems(1) have ne: "binary \<noteq> []" by auto
  have go: "(case max_length of None \<Rightarrow> True | Some m \<Rightarrow> length flds < m)"
    using less.prems(2) by (auto split: option.splits)
  show ?case
  proof (cases "length binary < 4")
    case True
    then show ?thesis
      using ne go by (subst ListParser_loop.simps) (simp add: Let_def from_binary.simps)
  next
    case False
    have shorter: "length (drop 4 binary) < length binary"
      using False by simp
    have m: "length (drop 4 binary) mod 4 \<noteq> 0"
      using less.prems(1) False by (simp add: mod_diff_eq [symmetric]) presburger
    have b: "(case max_length of None \<Rightarrow> True
              | Some m \<Rightarrow> length (flds @ [FloatData (f_unpack fl (take 4 binary)) units])
                          + length (drop 4 binary) div 4 < m)"
      using less.prems(2) False by (auto split: option.splits)
    have IH: "ListParser_loop (from_binary fl (FloatParser units sep)) max_length
                (flds @ [FloatData (f_unpack fl (take 4 binary)) units]) (drop 4 binary)
              = Inl StructError"
      using less.hyps [OF shorter m b] .
    show ?thesis
      using ne go False IH shorter
      by (subst ListParser_loop.simps) (auto simp add: Let_def from_binary.simps)
  qed
qed

lemma crc16_cvalue_reply: "crc16 [0xB5, 0x00, 0x04, 0x41, 0x14, 0x00, 0x00] = 0xD871"
  by code_simp

lemma cvalue_short_reply_frame_ok:
  "frame_ok 5 [0x1A, 0xCE, 0xB5, 0x00, 0x04, 0x41, 0x14, 0x00, 0x00, 0x71, 0xD8]"
  by (simp add: frame_ok_def slice_def crc16_cvalue_reply pack_H_def)

lemma ace_second_cvalue_ack:
  "second_parser fl ACE_SECOND_PARSERS None (VInt 0x41) =
     Some (PairParser CONFIG_ID (Some (ListParser (FloatParser None '' '') (Some 3) '' '')) [] '' '')"
  by (simp add: second_parser_def dict_lookup_def ACE_SECOND_PARSERS_def COMMANDS_def CMD_def
      reply_code_def)

text \<open>
  C6 (the code departs from the claim).  A list of floats whose binary input does not
  divide into four-byte elements, and whose element limit does not stop the loop before
  the residue, fails with the struct library's own error, not with the parse error of
  the command language.
\<close>

theorem list_residue_struct_error:
  assumes "length binary mod 4 \<noteq> 0"
    and "case max_length of None \<Rightarrow> True | Some m \<Rightarrow> length binary div 4 < m"
  shows "from_binary fl (ListParser (FloatParser units sep) max_length sep') binary
           = Inl StructError
       \<and> from_binary fl (ListParser (FloatParser units sep) max_length sep') binary
           \<noteq> Inl ParseError"
proof -
  have "ListParser_loop (from_binary fl (FloatParser units sep)) max_length [] binary
          = Inl StructError"
    by (rule float_loop_residue) (use assms in \<open>auto split: option.splits\<close>)
  then show ?thesis by (simp add: from_binary.simps)
qed

text \<open>
  The reply \<^verbatim>\<open>cvalue_ack flow_ignition_amps\<close> followed by two bytes of a float, in a frame
  with a correct checksum: the decoder raises the struct library's error.
\<close>

theorem list_residue_struct_error_witness:
  "from_binary wire_floats (ListParser (FloatParser None '' '') (Some 3) '' '') [0x00, 0x00]
     = Inl StructError
   \<and> from_packet wire_floats ace_session
       [0x1A, 0xCE, 0xB5, 0x00, 0x04, 0x41, 0x14, 0x00, 0x00, 0x71, 0xD8] = Inl StructError"
proof -
  have a: "from_binary wire_floats (ListParser (FloatParser None '' '') (Some 3) '' '') [0x00, 0x00]
     = Inl StructError"
    using list_residue_struct_error [of "[0x00, 0x00]" "Some 3" wire_floats None "'' ''" "'' ''"]
    by simp
  have b: "from_binary wire_floats
             (PairParser CONFIG_ID (Some (ListParser (FloatParser None '' '') (Some 3) '' '')) [] '' '')
             [0x14, 0x00, 0x00] = Inl StructError"
    by (simp add: from_binary.simps(4,6) CONFIG_ID_def ByteData_init_def int_minimum_def
          int_maximum_def second_parser_def dict_lookup_def a)
  have c: "from_binary wire_floats (PairParser ACE_TYPES None ACE_SECOND_PARSERS '' '')
             [0x41, 0x14, 0x00, 0x00] = Inl StructError"
    by (subst from_binary.simps(6))
       (simp add: from_binary.simps(4) ACE_TYPES_def ByteData_init_def int_minimum_def
          int_maximum_def ace_second_cvalue_ack b)
  have "from_binary wire_floats ACE_PARSER [0x41, 0x14, 0x00, 0x00] = Inl StructError"
    by (simp add: ACE_PARSER_def from_binary.simps(7) c)
  then show ?thesis
    using a cvalue_short_reply_frame_ok
    by (simp add: from_packet_frame ace_session_def slice_def)
qed

section \<open>Claims about the integer parser\<close>

lemma eq_char_code: "(c = d) = ((of_char c :: nat) = of_char d)"
  by simp

lemma is_py_space_code:
  "is_py_space c \<longleftrightarrow> (of_char c :: nat) = 0x20 \<or> (9 \<le> (of_char c :: nat) \<and> (of_char c :: nat) \<le> 13)"
proof -
  have "is_py_space c \<longleftrightarrow> (of_char c :: nat) \<in> {0x20, 9, 10, 11, 12, 13}"
    by (simp only: is_py_space_def list.set insert_iff empty_iff eq_char_code [of c])
       (simp del: of_char_eq_iff)
  also have "\<dots> \<longleftrightarrow> (of_char c :: nat) = 0x20 \<or> (9 \<le> (of_char c :: nat) \<and> (of_char c :: nat) \<le> 13)"
    by auto
  finally show ?thesis .
qed

lemma char_code_simps:
  "c = CHR ''_'' \<longleftrightarrow> (of_char c :: nat) = 0x5F"
  "c = CHR ''-'' \<longleftrightarrow> (of_char c :: nat) = 0x2D"
  "c = CHR ''+'' \<longleftrightarrow> (of_char c :: nat) = 0x2B"
  "c = CHR ''x'' \<longleftrightarrow> (of_char c :: nat) = 0x78"
  "c = CHR ''X'' \<longleftrightarrow> (of_char c :: nat) = 0x58"
  "c = CHR ''0'' \<longleftrightarrow> (of_char c :: nat) = 0x30"
  by (simp_all only: eq_char_code [of c]) (simp_all del: of_char_eq_iff)

lemma dec_digit_props:
  assumes "is_dec_digit c"
  shows "is_digit_in 10 c" "c \<noteq> CHR ''_''" "\<not> is_py_space c" "c \<noteq> CHR ''-''" "c \<noteq> CHR ''+''"
  using assms
  by (auto simp add: is_dec_digit_def is_digit_in_def digit_value_def is_py_space_code Let_def
        char_code_simps)

lemma hex_digit_props:
  assumes "is_hex_digit c"
  shows "is_digit_in 16 c" "c \<noteq> CHR ''_''" "\<not> is_py_space c" "c \<noteq> CHR ''-''" "c \<noteq> CHR ''+''"
    "c \<noteq> CHR ''x''" "c \<noteq> CHR ''X''"
  using assms
  by (auto simp add: is_hex_digit_def is_dec_digit_def is_digit_in_def digit_value_def
        is_py_space_code Let_def char_code_simps)

lemma scan_digits_all:
  "list_all (\<lambda>c. is_digit_in base c \<and> c \<noteq> CHR ''_'') ds \<Longrightarrow>
   scan_digits base acc False ds
     = Some (foldl (\<lambda>a c. a * int base + int (the (digit_value c))) acc ds, [])"
  by (induction ds arbitrary: acc) (auto simp: is_digit_in_def split: option.splits)

lemma space_props:
  assumes "is_py_space c"
  shows "digit_value c = None" "\<not> is_digit_in base c" "c \<noteq> CHR ''_''" "c \<noteq> CHR ''-''"
    "c \<noteq> CHR ''+''" "c \<noteq> CHR ''0''" "c \<noteq> CHR ''x''" "c \<noteq> CHR ''X''"
  using assms
  by (auto simp add: is_digit_in_def digit_value_def is_py_space_code Let_def char_code_simps)

lemma underscore_props:
  "\<not> is_digit_in base CHR ''_''" "\<not> is_py_space CHR ''_''" "digit_value CHR ''_'' = None"
  by (simp_all add: is_digit_in_def digit_value_def is_py_space_code)

lemma digit_props:
  assumes "is_digit_in base c"
  shows "\<not> is_py_space c" "c \<noteq> CHR ''_''"
  using assms space_props(2) underscore_props(1) by auto

lemma scan_digits_spaces:
  "list_all is_py_space ws \<Longrightarrow> scan_digits base acc False ws = Some (acc, ws)"
  by (cases ws) (simp_all add: space_props)

lemma scan_digits_run:
  "tail_run base p pre \<Longrightarrow> list_all is_py_space ws \<Longrightarrow>
     scan_digits base acc p (pre @ ws)
       = Some (foldl (\<lambda>a c. a * int base + int (the (digit_value c))) acc
                 (filter (\<lambda>c. c \<noteq> CHR ''_'') pre), ws)"
proof (induction pre arbitrary: acc p)
  case Nil
  then show ?case by (simp add: scan_digits_spaces)
next
  case (Cons c r)
  show ?case
  proof (cases "c = CHR ''_''")
    case True
    with Cons show ?thesis by simp
  next
    case False
    with Cons.prems obtain d where "digit_value c = Some d" "d < base" "tail_run base False r"
      by (auto simp: is_digit_in_def split: option.splits)
    with False Cons.IH [of False _] Cons.prems(2) show ?thesis by simp
  qed
qed

lemma scan_digits_split:
  "scan_digits base acc p s = Some (v, rest) \<Longrightarrow>
     \<exists>pre. s = pre @ rest \<and> tail_run base p pre
       \<and> v = foldl (\<lambda>a c. a * int base + int (the (digit_value c))) acc
               (filter (\<lambda>c. c \<noteq> CHR ''_'') pre)"
proof (induction base acc p s rule: scan_digits.induct)
  case (1 base acc prev_us)
  then show ?case by (auto split: if_splits)
next
  case (2 base acc prev_us c cs)
  show ?case
  proof (cases "c = CHR ''_''")
    case True
    with "2.prems" have np: "\<not> prev_us" and sc: "scan_digits base acc True cs = Some (v, rest)"
      by (auto split: if_splits)
    from "2.IH"(1) [OF True np sc] obtain pre where
      "cs = pre @ rest" "tail_run base True pre"
      "v = foldl (\<lambda>a c. a * int base + int (the (digit_value c))) acc (filter (\<lambda>c. c \<noteq> CHR ''_'') pre)"
      by blast
    with True np show ?thesis
      by (intro exI [of _ "c # pre"]) simp
  next
    case False
    show ?thesis
    proof (cases "is_digit_in base c")
      case True
      then obtain d where d: "digit_value c = Some d" "d < base"
        by (auto simp: is_digit_in_def split: option.splits)
      with "2.prems" False have sc: "scan_digits base (acc * int base + int d) False cs = Some (v, rest)"
        by simp
      from "2.IH"(2) [OF False d sc] obtain pre where
        "cs = pre @ rest" "tail_run base False pre"
        "v = foldl (\<lambda>a c. a * int base + int (the (digit_value c))) (acc * int base + int d)
               (filter (\<lambda>c. c \<noteq> CHR ''_'') pre)"
        by blast
      with False True d show ?thesis
        by (intro exI [of _ "c # pre"]) simp
    next
      case nd: False
      with "2.prems" False have "\<not> prev_us" "v = acc" "rest = c # cs"
        by (auto simp: is_digit_in_def split: option.splits if_splits)
      then show ?thesis
        by (intro exI [of _ "[]"]) simp
    qed
  qed
qed

lemma digit_run_tail: "digit_run base (c # r) \<longleftrightarrow> is_digit_in base c \<and> tail_run base False r"
proof (induction base "c # r" arbitrary: c r rule: digit_run.induct)
  case (2 base c)
  then show ?case by simp
next
  case (3 base c d r)
  show ?case
  proof (cases "d = CHR ''_''")
    case True
    show ?thesis
    proof (cases r)
      case Nil
      with True show ?thesis by simp
    next
      case (Cons e r')
      with True "3.hyps"(1) [OF True Cons] show ?thesis
        by (auto simp: underscore_props)
    qed
  next
    case False
    with "3.hyps"(2) [OF False] show ?thesis by auto
  qed
qed

lemma tail_run_no_space: "tail_run base p pre \<Longrightarrow> list_all (\<lambda>c. \<not> is_py_space c) pre"
  by (induction pre arbitrary: p) (auto simp: underscore_props digit_props split: if_splits)


lemma strip_right_Cons: "\<not> is_py_space c \<Longrightarrow> strip_right (c # s) = c # strip_right s"
  by (auto simp: strip_right_def dropWhile_append)

lemma strip_right_spaces: "list_all is_py_space ws \<Longrightarrow> strip_right (pre @ ws) = strip_right pre"
  by (simp add: strip_right_def dropWhile_append list_all_iff)

lemma strip_right_id: "list_all (\<lambda>c. \<not> is_py_space c) pre \<Longrightarrow> strip_right pre = pre"
  by (induction pre) (simp_all add: strip_right_Cons, simp add: strip_right_def)

lemma strip_right_decomp: "\<exists>ws. s = strip_right s @ ws \<and> list_all is_py_space ws"
proof -
  have "rev s = takeWhile is_py_space (rev s) @ dropWhile is_py_space (rev s)"
    by simp
  then have "s = rev (dropWhile is_py_space (rev s)) @ rev (takeWhile is_py_space (rev s))"
    by (metis rev_append rev_rev_ident)
  moreover have "list_all is_py_space (rev (takeWhile is_py_space (rev s)))"
    by (auto simp: list_all_iff dest: set_takeWhileD)
  ultimately show ?thesis
    unfolding strip_right_def by blast
qed

lemma strip_right_prefix2:
  assumes "\<not> is_py_space c1" "\<not> is_py_space c2"
  shows "prefix [c1, c2] (strip_right s) \<longleftrightarrow> prefix [c1, c2] s"
proof
  assume "prefix [c1, c2] (strip_right s)"
  moreover obtain ws where "s = strip_right s @ ws"
    using strip_right_decomp by blast
  ultimately show "prefix [c1, c2] s"
    by (metis prefix_prefix)
next
  assume "prefix [c1, c2] s"
  then obtain r where "s = c1 # c2 # r"
    by (auto simp: prefix_def)
  with assms show "prefix [c1, c2] (strip_right s)"
    by (simp add: strip_right_Cons)
qed

lemma strip_right_prefix1:
  assumes "\<not> is_py_space c1"
  shows "prefix [c1] (strip_right s) \<longleftrightarrow> prefix [c1] s"
proof
  assume "prefix [c1] (strip_right s)"
  moreover obtain ws where "s = strip_right s @ ws"
    using strip_right_decomp by blast
  ultimately show "prefix [c1] s"
    by (metis prefix_prefix)
next
  assume "prefix [c1] s"
  then obtain r where "s = c1 # r"
    by (auto simp: prefix_def)
  with assms show "prefix [c1] (strip_right s)"
    by (simp add: strip_right_Cons)
qed

lemma strip_right_tl: "s \<noteq> [] \<Longrightarrow> \<not> is_py_space (hd s) \<Longrightarrow> tl (strip_right s) = strip_right (tl s)"
  by (cases s) (simp_all add: strip_right_Cons)

lemma plain_not_space:
  "\<not> is_py_space CHR ''0''" "\<not> is_py_space CHR ''x''" "\<not> is_py_space CHR ''X''"
  "\<not> is_py_space CHR ''_''" "\<not> is_py_space CHR ''-''" "\<not> is_py_space CHR ''+''"
  by (simp_all add: is_py_space_code)

lemma strip_right_int_prefix:
  "(if base = 16 \<and> (prefix ''0x'' (strip_right s2) \<or> prefix ''0X'' (strip_right s2))
    then (if prefix ''_'' (drop 2 (strip_right s2)) then drop 3 (strip_right s2)
          else drop 2 (strip_right s2))
    else strip_right s2) = strip_right (int_prefix base s2)"
proof (cases "base = 16 \<and> (prefix ''0x'' s2 \<or> prefix ''0X'' s2)")
  case True
  then obtain b r where s2: "s2 = CHR ''0'' # b # r" and b: "b = CHR ''x'' \<or> b = CHR ''X''"
    by (auto simp: prefix_def)
  then have nb: "\<not> is_py_space b"
    using plain_not_space by auto
  have u: "strip_right s2 = CHR ''0'' # b # strip_right r"
    using s2 nb by (simp add: strip_right_Cons plain_not_space)
  have us: "prefix ''_'' (strip_right r) \<longleftrightarrow> prefix ''_'' r"
    by (rule strip_right_prefix1) (rule plain_not_space)
  have "drop 3 (strip_right s2) = tl (strip_right r)"
    using u by (simp add: drop_Suc numeral_3_eq_3)
  moreover have "tl (strip_right r) = strip_right (tl r)" if "prefix ''_'' r"
    using that by (intro strip_right_tl) (auto simp: prefix_def plain_not_space)
  ultimately show ?thesis
    using True s2 b u us by (auto simp: int_prefix_def Let_def)
next
  case False
  then have "\<not> (base = 16 \<and> (prefix ''0x'' (strip_right s2) \<or> prefix ''0X'' (strip_right s2)))"
    using strip_right_prefix2 [of "CHR ''0''" "CHR ''x''" s2]
      strip_right_prefix2 [of "CHR ''0''" "CHR ''X''" s2] plain_not_space
    by auto
  then have a: "(if base = 16 \<and> (prefix ''0x'' (strip_right s2) \<or> prefix ''0X'' (strip_right s2))
             then (if prefix ''_'' (drop 2 (strip_right s2)) then drop 3 (strip_right s2)
                   else drop 2 (strip_right s2))
             else strip_right s2) = strip_right s2"
    by (rule if_not_P)
  have b: "int_prefix base s2 = s2"
    unfolding int_prefix_def using False by (rule if_not_P)
  show ?thesis
    unfolding a b ..
qed

lemma int_sign_strip:
  assumes "int_sign (dropWhile is_py_space a) = (neg, s2)"
  shows "(if prefix ''-'' (strip_spaces a) \<or> prefix ''+'' (strip_spaces a)
          then tl (strip_spaces a) else strip_spaces a) = strip_right s2"
    and "neg \<longleftrightarrow> prefix ''-'' (strip_spaces a)"
proof -
  have "(if prefix ''-'' (strip_spaces a) \<or> prefix ''+'' (strip_spaces a)
         then tl (strip_spaces a) else strip_spaces a) = strip_right s2
        \<and> (neg \<longleftrightarrow> prefix ''-'' (strip_spaces a))"
  proof (cases "dropWhile is_py_space a")
    case Nil
    then have "strip_spaces a = []"
      by (simp only: strip_spaces_def) (simp add: strip_right_def)
    moreover have "neg = False" "s2 = []"
      using assms unfolding Nil by (simp_all add: int_sign_def)
    ultimately show ?thesis
      by (simp add: strip_right_def)
  next
    case (Cons c r)
    then have c: "\<not> is_py_space c"
      using hd_dropWhile [of is_py_space a] by auto
    have t: "strip_spaces a = c # strip_right r"
      using Cons c by (simp add: strip_spaces_def strip_right_Cons)
    have "int_sign (c # r) = (neg, s2)"
      using assms Cons by simp
    then show ?thesis
      using c by (auto simp: t int_sign_def strip_right_Cons split: if_splits)
  qed
  then show "(if prefix ''-'' (strip_spaces a) \<or> prefix ''+'' (strip_spaces a)
          then tl (strip_spaces a) else strip_spaces a) = strip_right s2"
    and "neg \<longleftrightarrow> prefix ''-'' (strip_spaces a)"
    by simp_all
qed

lemma number_core_int_sign:
  assumes "int_sign (dropWhile is_py_space a) = (neg, s2)"
  shows "number_core base a = strip_right (int_prefix base s2)"
  unfolding number_core_def Let_def int_sign_strip(1) [OF assms]
  by (rule strip_right_int_prefix)

lemma py_long_from_string_number:
  assumes "base = 10 \<or> base = 16"
  shows "py_long_from_string limit base a =
           (if is_number base a \<and> \<not> (base = 10 \<and> over_digit_limit limit a)
            then Some (number_value base a) else None)"
proof -
  obtain neg s2 where sg: "int_sign (dropWhile is_py_space a) = (neg, s2)"
    by (cases "int_sign (dropWhile is_py_space a)")
  define s3 where "s3 = int_prefix base s2"
  note core = number_core_int_sign [OF sg, of base, folded s3_def]
  note negative = int_sign_strip(2) [OF sg]
  show ?thesis
  proof (cases "is_number base a")
    case True
    then have run: "digit_run base (strip_right s3)"
      by (simp add: is_number_def core)
    then obtain c r where cr: "strip_right s3 = c # r"
      by (cases "strip_right s3") auto
    with run have c: "is_digit_in base c" and tl: "tail_run base False r"
      by (simp_all add: digit_run_tail)
    then have tr: "tail_run base False (strip_right s3)"
      using cr digit_props(2) [OF c] by simp
    obtain ws where ws: "s3 = strip_right s3 @ ws" "list_all is_py_space ws"
      using strip_right_decomp by blast
    have hd: "s3 \<noteq> []" "is_digit_in base (hd s3)"
      using ws(1) cr c by (metis append_Cons list.distinct(1), metis append_Cons list.sel(1))
    have sc: "scan_digits base 0 False s3
                = Some (digits_value base (filter (\<lambda>c. c \<noteq> CHR ''_'') (strip_right s3)), ws)"
      using scan_digits_run [OF tr ws(2), of 0] ws(1) by (simp add: digits_value_def)
    have tk: "take (length s3 - length ws) s3 = strip_right s3"
      using ws(1) by (metis add_diff_cancel_right' append_eq_conv_conj length_append)
    have sp: "dropWhile is_py_space ws = []"
      using ws(2) by (simp add: list_all_iff)
    have lim: "(base \<notin> set [2, 4, 8, 16, 32]
                 \<and> 640 < length (filter (\<lambda>c. c \<noteq> CHR ''_'') (strip_right s3))
                 \<and> 0 < limit \<and> limit < length (filter (\<lambda>c. c \<noteq> CHR ''_'') (strip_right s3)))
               \<longleftrightarrow> (base = 10 \<and> over_digit_limit limit a)"
      using assms number_core_int_sign(1) [OF sg, of 10]
      by (auto simp: over_digit_limit_def s3_def)
    have "py_long_from_string limit base a =
            (if base = 10 \<and> over_digit_limit limit a then None
             else Some (if neg then - digits_value base (filter (\<lambda>c. c \<noteq> CHR ''_'') (strip_right s3))
                        else digits_value base (filter (\<lambda>c. c \<noteq> CHR ''_'') (strip_right s3))))"
      unfolding py_long_from_string_def sg
      by (simp only: prod.case Let_def s3_def [symmetric] hd sc option.case tk sp lim)
         (simp add: hd)
    then show ?thesis
      using True core negative by (simp add: number_value_def)
  next
    case False
    have "py_long_from_string limit base a = None"
    proof (rule ccontr)
      assume "py_long_from_string limit base a \<noteq> None"
      then obtain v rest where hd: "s3 \<noteq> []" "is_digit_in base (hd s3)"
        and sc: "scan_digits base 0 False s3 = Some (v, rest)"
        and sp: "dropWhile is_py_space rest = []"
        unfolding py_long_from_string_def sg
        by (auto simp: Let_def s3_def split: if_splits option.splits)
      from scan_digits_split [OF sc] obtain pre where
        pre: "s3 = pre @ rest" "tail_run base False pre"
        by blast
      from sp have rest: "list_all is_py_space rest"
        by (simp add: list_all_iff dropWhile_eq_Nil_conv)
      have "pre \<noteq> []"
      proof
        assume "pre = []"
        with pre(1) hd rest have "is_py_space (hd s3)"
          by (cases rest) auto
        with hd(2) show False
          using digit_props(1) by blast
      qed
      then obtain c r where cr: "pre = c # r"
        by (cases pre) auto
      with pre hd have "digit_run base pre"
        by (auto simp: digit_run_tail underscore_props split: if_splits)
      moreover have "strip_right s3 = pre"
        using pre rest tail_run_no_space [OF pre(2)]
        by (simp add: strip_right_spaces strip_right_id)
      ultimately show False
        using False core by (simp add: is_number_def)
    qed
    with False show ?thesis by simp
  qed
qed

lemma integer_range:
  "0 < w \<Longrightarrow> int_minimum w sg = (if sg then - (2 ^ (w - 1)) else 0)
     \<and> int_maximum w sg = (if sg then 2 ^ (w - 1) - 1 else 2 ^ w - 1)"
proof -
  assume "0 < w"
  then obtain k where "w = Suc k" by (cases w) auto
  then show ?thesis by (simp add: int_minimum_def int_maximum_def)
qed

lemma IntegerData_init_checked:
  "0 < w \<Longrightarrow>
   (case IntegerData_init v w sg of Inl e \<Rightarrow> Inl e | Inr d \<Rightarrow> Inr (d, rest))
     = range_checked w sg v rest"
  using integer_range [of w sg]
  by (auto simp: IntegerData_init_def range_checked_def)

lemma from_text_integer_literal:
  assumes "0 < w" and "split_sep sep text = Inr (tok, rest)"
  shows "from_text fl (IntegerParser w sg sep) text =
           (case integer_literal fl w sg tok of
              None \<Rightarrow> Inl ParseError
            | Some v \<Rightarrow> range_checked w sg v rest)"
  using assms
  by (simp add: from_text.simps IntegerData_init_checked split: option.splits)

lemma integer_literal_token:
  assumes "0 < w"
  shows "integer_literal fl w sg tok = token_value fl w sg tok"
  using assms
  by (auto simp: integer_literal_def token_value_def py_int_def py_long_from_string_number
      wrap_signed_def split: option.splits)

lemma dec_digits_ascii: "list_all is_dec_digit ds \<Longrightarrow> is_ascii ds"
  by (auto simp: list_all_iff is_ascii_def is_dec_digit_def)

lemma hex_digits_ascii: "list_all is_hex_digit ds \<Longrightarrow> is_ascii ds"
  by (auto simp: list_all_iff is_ascii_def is_hex_digit_def is_dec_digit_def)

lemma plain_digits_number:
  assumes "ds \<noteq> []" and "list_all (is_digit_in base) ds"
  shows "strip_spaces ds = ds" "digit_run base ds" "filter (\<lambda>c. c \<noteq> CHR ''_'') ds = ds"
    "strip_right ds = ds"
proof -
  have ns: "list_all (\<lambda>c. \<not> is_py_space c) ds"
    using assms(2) by (auto simp: list_all_iff digit_props)
  from assms obtain c r where cr: "ds = c # r"
    by (cases ds) auto
  have "dropWhile is_py_space ds = ds"
    using ns cr by simp
  then show "strip_spaces ds = ds"
    using ns by (simp add: strip_spaces_def strip_right_id)
  show "strip_right ds = ds"
    using ns by (rule strip_right_id)
  have "list_all (is_digit_in base) r \<Longrightarrow> tail_run base False r" for r
    by (induction r) (auto simp: underscore_props)
  then have "tail_run base False r"
    using assms(2) cr by simp
  then show "digit_run base ds"
    using assms(2) cr by (simp add: digit_run_tail)
  show "filter (\<lambda>c. c \<noteq> CHR ''_'') ds = ds"
    using assms(2) underscore_props(1) [of base] by (auto simp: filter_id_conv list_all_iff)
qed

lemma digit_in_props:
  "is_dec_digit c \<Longrightarrow> is_digit_in 10 c" "is_hex_digit c \<Longrightarrow> is_digit_in 16 c"
  by (auto simp: is_dec_digit_def is_hex_digit_def is_digit_in_def digit_value_def Let_def)

lemma token_value_dec_digits:
  assumes "ds \<noteq> []" and "list_all is_dec_digit ds"
  shows "token_value fl w sg ds =
           (if 0 < int_max_str_digits fl \<and> max 640 (int_max_str_digits fl) < length ds then None
            else Some (digits_value 10 ds))"
    and "token_value fl w sg (CHR ''-'' # ds) =
           (if 0 < int_max_str_digits fl \<and> max 640 (int_max_str_digits fl) < length ds then None
            else Some (- digits_value 10 ds))"
proof -
  have all: "list_all (is_digit_in 10) ds"
    using assms(2) by (auto simp: list_all_iff digit_in_props)
  note pl = plain_digits_number [OF assms(1) all]
  from assms obtain c r where cr: "ds = c # r" and c: "is_dec_digit c"
    by (cases ds) auto
  have np: "\<not> prefix ''0x'' ds" "\<not> prefix ''0X'' ds" "\<not> prefix ''-'' ds" "\<not> prefix ''+'' ds"
    using assms(2) by (auto simp: prefix_def is_dec_digit_def)
  have core: "number_core 10 ds = ds"
    using np pl(1) by (simp add: number_core_def)
  show "token_value fl w sg ds =
           (if 0 < int_max_str_digits fl \<and> max 640 (int_max_str_digits fl) < length ds then None
            else Some (digits_value 10 ds))"
    using np pl dec_digits_ascii [OF assms(2)]
    by (simp add: token_value_def int_text_def is_number_def over_digit_limit_def number_value_def
        core)
  have ns: "\<not> is_py_space CHR ''-''"
    by (rule plain_not_space)
  have st: "strip_spaces (CHR ''-'' # ds) = CHR ''-'' # ds"
    using pl(4) ns by (simp add: strip_spaces_def strip_right_Cons)
  have core': "number_core 10 (CHR ''-'' # ds) = ds"
    using np by (simp add: number_core_def st)
  have asc: "is_ascii (CHR ''-'' # ds)"
    using dec_digits_ascii [OF assms(2)] by (simp add: is_ascii_def)
  show "token_value fl w sg (CHR ''-'' # ds) =
           (if 0 < int_max_str_digits fl \<and> max 640 (int_max_str_digits fl) < length ds then None
            else Some (- digits_value 10 ds))"
    using pl asc
    by (simp add: token_value_def int_text_def is_number_def over_digit_limit_def number_value_def
        core' st)
qed

lemma token_value_hex_digits:
  assumes "ds \<noteq> []" and "list_all is_hex_digit ds" and "tok = ''0x'' @ ds \<or> tok = ''0X'' @ ds"
  shows "token_value fl w sg tok = Some (wrap_signed w sg (digits_value 16 ds))"
proof -
  have all: "list_all (is_digit_in 16) ds"
    using assms(2) by (auto simp: list_all_iff digit_in_props)
  note pl = plain_digits_number [OF assms(1) all]
  have no_x: "\<not> prefix [a, x] ds" if "\<not> is_hex_digit x" for a x
  proof
    assume "prefix [a, x] ds"
    then obtain r where "ds = [a, x] @ r"
      by (auto simp: prefix_def)
    with assms(2) that show False by simp
  qed
  have np: "\<not> prefix ''0x'' ds" "\<not> prefix ''0X'' ds"
    using no_x [of "CHR ''x''"] no_x [of "CHR ''X''"] hex_digit_props(6,7) by blast+
  have ns: "\<not> prefix ''-'' ds" "\<not> prefix ''+'' ds"
    using assms(1,2) hex_digit_props(4,5) by (cases ds; auto simp: prefix_def)+
  have core: "number_core 16 ds = ds"
    using np ns pl(1) by (simp add: number_core_def)
  show ?thesis
    using assms(3) pl ns hex_digits_ascii [OF assms(2)]
    by (auto simp: token_value_def int_text_def is_number_def number_value_def core)
qed

lemma split1_no_space: "CHR '' '' \<notin> set s \<Longrightarrow> split1 '' '' s = None"
  by (induction s) (auto simp: prefix_def)

lemma from_text_long_decimal:
  assumes "list_all is_dec_digit ds" and "4300 < length ds"
  shows "from_text wire_floats (IntegerParser 64 False '' '') ds = Inl ParseError"
proof -
  have "CHR '' '' \<notin> set ds"
    using assms(1) by (auto simp: list_all_iff is_dec_digit_def)
  then have sp: "split_sep '' '' ds = Inr (ds, [])"
    by (simp add: split_sep_def split1_no_space)
  have ne: "ds \<noteq> []"
    using assms(2) by auto
  have "token_value wire_floats 64 False ds = None"
    using assms(2) by (simp add: token_value_dec_digits(1) [OF ne assms(1)] wire_floats_def)
  then show ?thesis
    using from_text_integer_literal [OF _ sp, of 64 wire_floats False]
    by (simp add: integer_literal_token)
qed

text \<open>
  C5 (amended).  For an integer parser of width 8, 16, 32 or 64, signed or not, text
  decoding takes the token before the separator and reads it as \<^verbatim>\<open>int\<close> does: in base 16
  after \<^verbatim>\<open>0x\<close> or \<^verbatim>\<open>0X\<close>, in base 10 otherwise, allowing white space around the number, a
  sign, single underscores between digits and the decimal digits and white space of
  Unicode, and refusing a decimal number with more digits than the interpreter's limit.
  A token that is such a number has its value, for base 16 less \<open>2 ^ w\<close> under a signed
  parser when it is \<open>2 ^ (w - 1)\<close> or more; the value is returned with the rest of the
  text when it lies between the minimum and the maximum of the width and signedness, and
  decoding fails with \<^verbatim>\<open>ParameterInvalid\<close> otherwise.  Decoding fails with \<^verbatim>\<open>ParseError\<close>
  exactly when the token is not such a number, and with no other error.  In particular
  a run of decimal digits within the limit, with or without a minus sign, has its
  decimal value, and a run of hexadecimal digits after \<^verbatim>\<open>0x\<close> or \<^verbatim>\<open>0X\<close> its hexadecimal
  value.
\<close>

theorem IntegerParser_from_text:
  assumes "supported_bits w" and "split_sep sep text = Inr (tok, rest)"
  shows "from_text fl (IntegerParser w sg sep) text
           = (case token_value fl w sg tok of
                None \<Rightarrow> Inl ParseError
              | Some v \<Rightarrow> range_checked w sg v rest)
       \<and> (from_text fl (IntegerParser w sg sep) text = Inl ParseError
            \<longleftrightarrow> token_value fl w sg tok = None)
       \<and> (ds \<noteq> [] \<and> list_all is_dec_digit ds \<and> tok = ds
            \<and> \<not> (0 < int_max_str_digits fl \<and> max 640 (int_max_str_digits fl) < length ds) \<longrightarrow>
            from_text fl (IntegerParser w sg sep) text = range_checked w sg (digits_value 10 ds) rest)
       \<and> (ds \<noteq> [] \<and> list_all is_dec_digit ds \<and> tok = CHR ''-'' # ds
            \<and> \<not> (0 < int_max_str_digits fl \<and> max 640 (int_max_str_digits fl) < length ds) \<longrightarrow>
            from_text fl (IntegerParser w sg sep) text
              = range_checked w sg (- digits_value 10 ds) rest)
       \<and> (ds \<noteq> [] \<and> list_all is_hex_digit ds \<and> (tok = ''0x'' @ ds \<or> tok = ''0X'' @ ds) \<longrightarrow>
            from_text fl (IntegerParser w sg sep) text
              = range_checked w sg (wrap_signed w sg (digits_value 16 ds)) rest)
       \<and> (\<forall>e. from_text fl (IntegerParser w sg sep) text = Inl e \<longrightarrow>
            e = ParseError \<or> e = ParameterInvalid)"
proof -
  from assms(1) have w: "0 < w"
    by (auto simp: supported_bits_def)
  have ft: "from_text fl (IntegerParser w sg sep) text
              = (case token_value fl w sg tok of
                   None \<Rightarrow> Inl ParseError
                 | Some v \<Rightarrow> range_checked w sg v rest)"
    using from_text_integer_literal [OF w assms(2), of fl sg]
    by (simp add: integer_literal_token [OF w])
  have iff: "from_text fl (IntegerParser w sg sep) text = Inl ParseError
               \<longleftrightarrow> token_value fl w sg tok = None"
    by (auto simp: ft range_checked_def split: option.splits if_splits)
  have dec: "from_text fl (IntegerParser w sg sep) text = range_checked w sg (digits_value 10 ds) rest"
    if "ds \<noteq> []" "list_all is_dec_digit ds" "tok = ds"
      "\<not> (0 < int_max_str_digits fl \<and> max 640 (int_max_str_digits fl) < length ds)"
    using that token_value_dec_digits(1) [of ds fl w sg] by (auto simp: ft)
  have neg: "from_text fl (IntegerParser w sg sep) text
               = range_checked w sg (- digits_value 10 ds) rest"
    if "ds \<noteq> []" "list_all is_dec_digit ds" "tok = CHR ''-'' # ds"
      "\<not> (0 < int_max_str_digits fl \<and> max 640 (int_max_str_digits fl) < length ds)"
    using that token_value_dec_digits(2) [of ds fl w sg] by (auto simp: ft)
  have hex: "from_text fl (IntegerParser w sg sep) text
               = range_checked w sg (wrap_signed w sg (digits_value 16 ds)) rest"
    if "ds \<noteq> []" "list_all is_hex_digit ds" "tok = ''0x'' @ ds \<or> tok = ''0X'' @ ds"
    using token_value_hex_digits [OF that, of fl w sg] by (simp add: ft)
  have errs: "e = ParseError \<or> e = ParameterInvalid"
    if "from_text fl (IntegerParser w sg sep) text = Inl e" for e
    using that by (auto simp: ft range_checked_def split: option.splits if_splits)
  from ft iff dec neg hex errs show ?thesis by blast
qed

lemma split_sep_examples:
  "split_sep '' '' ''0xff rest'' = Inr (''0xff'', ''rest'')"
  "split_sep '' '' ''0x1ff'' = Inr (''0x1ff'', [])"
  "split_sep '' '' ''300'' = Inr (''300'', [])"
  "split_sep '' '' ''-12'' = Inr (''-12'', [])"
  "split_sep '' '' ''1.5'' = Inr (''1.5'', [])"
  "split_sep '' '' ''ace'' = Inr (''ace'', [])"
  "split_sep '' '' ''deadbeef'' = Inr (''deadbeef'', [])"
  "split_sep '' '' [] = Inr ([], [])"
  "split_sep '' '' ''0x'' = Inr (''0x'', [])"
  "split_sep '' '' [CHR 0xD9, CHR 0xA3] = Inr ([CHR 0xD9, CHR 0xA3], [])"
  "split_sep '' '' ''+1_0'' = Inr (''+1_0'', [])"
  by (simp_all add: split_sep_def)

lemma char_of_51: "char_of (51 :: nat) = CHR ''3''"
  by code_simp

lemma token_value_examples:
  "token_value wire_floats 8 False ''1.5'' = None"
  "token_value wire_floats 8 False ''ace'' = None"
  "token_value wire_floats 8 False ''deadbeef'' = None"
  "token_value wire_floats 8 False [] = None"
  "token_value wire_floats 8 False ''0x'' = None"
  "token_value wire_floats 8 False [CHR 0xD9, CHR 0xA3] = Some 3"
  "token_value wire_floats 8 False ''+1_0'' = Some 10"
  by (simp_all add: token_value_def int_text_def is_ascii_def is_number_def number_core_def
      strip_spaces_def strip_right_def is_py_space_def is_digit_in_def digit_value_def
      over_digit_limit_def number_value_def digits_value_def wire_floats_def
      bytes_of_text_def is_cont_def char_of_51 Let_def)

text \<open>
  The theorem at tokens of each kind, read with the interpreter's default limit of 4300
  digits: hexadecimal and decimal literals in and out of range, tokens that are no
  numbers (among them hexadecimal digits without the prefix, the empty token and the
  prefix alone), the Arabic-Indic digit three, and a decimal number with a sign and an
  underscore.
\<close>

theorem IntegerParser_from_text_witness:
  "from_text wire_floats (IntegerParser 8 True '' '') ''0xff rest''
     = Inr (IntegerData (- 1) 8 True, ''rest'')
   \<and> from_text wire_floats (IntegerParser 8 True '' '') ''0x1ff'' = Inl ParameterInvalid
   \<and> from_text wire_floats (IntegerParser 8 False '' '') ''300'' = Inl ParameterInvalid
   \<and> from_text wire_floats (IntegerParser 16 True '' '') ''-12''
     = Inr (IntegerData (- 12) 16 True, [])
   \<and> from_text wire_floats (IntegerParser 8 False '' '') ''1.5'' = Inl ParseError
   \<and> from_text wire_floats (IntegerParser 8 False '' '') ''ace'' = Inl ParseError
   \<and> from_text wire_floats (IntegerParser 8 False '' '') ''deadbeef'' = Inl ParseError
   \<and> from_text wire_floats (IntegerParser 8 False '' '') [] = Inl ParseError
   \<and> from_text wire_floats (IntegerParser 8 False '' '') ''0x'' = Inl ParseError
   \<and> from_text wire_floats (IntegerParser 8 False '' '') [CHR 0xD9, CHR 0xA3]
     = Inr (IntegerData 3 8 False, [])
   \<and> from_text wire_floats (IntegerParser 8 False '' '') ''+1_0''
     = Inr (IntegerData 10 8 False, [])"
proof -
  have s8: "supported_bits 8" and s16: "supported_bits 16"
    by (simp_all add: supported_bits_def)
  have a: "from_text wire_floats (IntegerParser 8 True '' '') ''0xff rest''
     = Inr (IntegerData (- 1) 8 True, ''rest'')"
    using IntegerParser_from_text [OF s8 split_sep_examples(1), where ds = "''ff''"
        and fl = wire_floats and sg = True, THEN conjunct2, THEN conjunct2, THEN conjunct2, THEN conjunct2, THEN conjunct1]
    by (simp add: is_hex_digit_def is_dec_digit_def digits_value_def digit_value_def
        wrap_signed_def range_checked_def)
  have b: "from_text wire_floats (IntegerParser 8 True '' '') ''0x1ff'' = Inl ParameterInvalid"
    using IntegerParser_from_text [OF s8 split_sep_examples(2), where ds = "''1ff''"
        and fl = wire_floats and sg = True, THEN conjunct2, THEN conjunct2, THEN conjunct2, THEN conjunct2, THEN conjunct1]
    by (simp add: is_hex_digit_def is_dec_digit_def digits_value_def digit_value_def
        wrap_signed_def range_checked_def)
  have c: "from_text wire_floats (IntegerParser 8 False '' '') ''300'' = Inl ParameterInvalid"
    using IntegerParser_from_text [OF s8 split_sep_examples(3), where ds = "''300''"
        and fl = wire_floats and sg = False, THEN conjunct2, THEN conjunct2, THEN conjunct1]
    by (simp add: is_dec_digit_def digits_value_def digit_value_def range_checked_def
        wire_floats_def)
  have d: "from_text wire_floats (IntegerParser 16 True '' '') ''-12''
     = Inr (IntegerData (- 12) 16 True, [])"
    using IntegerParser_from_text [OF s16 split_sep_examples(4), where ds = "''12''"
        and fl = wire_floats and sg = True, THEN conjunct2, THEN conjunct2, THEN conjunct2, THEN conjunct1]
    by (simp add: is_dec_digit_def digits_value_def digit_value_def range_checked_def
        wire_floats_def)
  have e: "from_text wire_floats (IntegerParser 8 False '' '') ''1.5'' = Inl ParseError"
    using IntegerParser_from_text [OF s8 split_sep_examples(5), where ds = "[]"
        and fl = wire_floats and sg = False, THEN conjunct1]
    by (simp add: token_value_examples)
  have f: "from_text wire_floats (IntegerParser 8 False '' '') ''ace'' = Inl ParseError"
    using IntegerParser_from_text [OF s8 split_sep_examples(6), where ds = "[]"
        and fl = wire_floats and sg = False, THEN conjunct1]
    by (simp add: token_value_examples)
  have g: "from_text wire_floats (IntegerParser 8 False '' '') ''deadbeef'' = Inl ParseError"
    using IntegerParser_from_text [OF s8 split_sep_examples(7), where ds = "[]"
        and fl = wire_floats and sg = False, THEN conjunct1]
    by (simp add: token_value_examples)
  have h: "from_text wire_floats (IntegerParser 8 False '' '') [] = Inl ParseError"
    using IntegerParser_from_text [OF s8 split_sep_examples(8), where ds = "[]"
        and fl = wire_floats and sg = False, THEN conjunct1]
    by (simp add: token_value_examples)
  have i: "from_text wire_floats (IntegerParser 8 False '' '') ''0x'' = Inl ParseError"
    using IntegerParser_from_text [OF s8 split_sep_examples(9), where ds = "[]"
        and fl = wire_floats and sg = False, THEN conjunct1]
    by (simp add: token_value_examples)
  have j: "from_text wire_floats (IntegerParser 8 False '' '') [CHR 0xD9, CHR 0xA3]
     = Inr (IntegerData 3 8 False, [])"
    using IntegerParser_from_text [OF s8 split_sep_examples(10), where ds = "[]"
        and fl = wire_floats and sg = False, THEN conjunct1]
    by (simp add: token_value_examples range_checked_def)
  have k: "from_text wire_floats (IntegerParser 8 False '' '') ''+1_0''
     = Inr (IntegerData 10 8 False, [])"
    using IntegerParser_from_text [OF s8 split_sep_examples(11), where ds = "[]"
        and fl = wire_floats and sg = False, THEN conjunct1]
    by (simp add: token_value_examples range_checked_def)
  from a b c d e f g h i j k show ?thesis by blast
qed

text \<open>
  C5 as stated fails at a decimal literal of 4301 digits under the interpreter's default
  limit: \<^verbatim>\<open>int\<close> refuses it with \<^verbatim>\<open>ValueError\<close>, and decoding fails with \<^verbatim>\<open>ParseError\<close>,
  not with the \<^verbatim>\<open>ParameterInvalid\<close> of a value out of range.
\<close>

theorem digit_limit_counterexample:
  "list_all is_dec_digit (replicate 4301 CHR ''7'')
   \<and> from_text wire_floats (IntegerParser 64 False '' '') (replicate 4301 CHR ''7'') = Inl ParseError"
proof -
  have "list_all is_dec_digit (replicate 4301 CHR ''7'')"
    by (simp add: list_all_iff is_dec_digit_def)
  moreover from this have
    "from_text wire_floats (IntegerParser 64 False '' '') (replicate 4301 CHR ''7'') = Inl ParseError"
    by (rule from_text_long_decimal) simp
  ultimately show ?thesis ..
qed

section \<open>Claims about the transport\<close>

lemma bytes_read_simps [simp]:
  "bytes_read [] = []"
  "bytes_read (None # polls) = bytes_read polls"
  "bytes_read (Some b # polls) = b # bytes_read polls"
  by (simp_all add: bytes_read_def)

lemma from_packet_session:
  "address s = address t \<Longrightarrow> parser s = parser t \<Longrightarrow> from_packet fl s p = from_packet fl t p"
  unfolding from_packet_def by (simp only:)

lemma read_loop_timeout:
  "read_loop fl self wait polls reply = (Inr None, self') \<Longrightarrow> status self' = status self"
proof (induction fl self wait polls reply rule: read_loop.induct)
  case (1 fl self wait reply)
  then show ?case by (auto simp: print_line_def)
next
  case (2 fl self wait polls reply)
  then show ?case by simp
next
  case (3 fl self wait b polls reply)
  then show ?case
    by (auto simp: Let_def print_line_def split: sum.splits option.splits if_splits)
qed

lemma read_loop_status:
  "read_loop fl self wait polls reply = (res, self') \<Longrightarrow>
     (\<exists>m. res = Inr (Some m)) \<or> status self' \<noteq> status self \<Longrightarrow>
     \<exists>k m st. from_packet fl self (reply @ take k (bytes_read polls)) = Inr (Some (m, st))
       \<and> status self' = Some st \<and> (\<forall>m'. res = Inr (Some m') \<longrightarrow> m' = m)"
proof (induction fl self wait polls reply rule: read_loop.induct)
  case (1 fl self wait reply)
  then show ?case by (auto simp: print_line_def)
next
  case (2 fl self wait polls reply)
  then show ?case by simp
next
  case (3 fl self wait b polls reply)
  show ?case
  proof (cases "from_packet fl self (reply @ [b])")
    case (Inl e)
    with 3 show ?thesis by auto
  next
    case (Inr found)
    show ?thesis
    proof (cases found)
      case None
      with 3 Inr obtain k m st where
        "from_packet fl self ((reply @ [b]) @ take k (bytes_read polls)) = Inr (Some (m, st))"
        "status self' = Some st" "\<forall>m'. res = Inr (Some m') \<longrightarrow> m' = m"
        by auto
      then have "from_packet fl self (reply @ take (Suc k) (bytes_read (Some b # polls))) = Inr (Some (m, st))"
        by simp
      with \<open>status self' = Some st\<close> \<open>\<forall>m'. res = Inr (Some m') \<longrightarrow> m' = m\<close> show ?thesis
        by blast
    next
      case (Some ms)
      obtain m st where ms: "ms = (m, st)" by (cases ms)
      have dec: "from_packet fl self (reply @ take 1 (bytes_read (Some b # polls))) = Inr (Some (m, st))"
        using Inr Some ms by simp
      have "status self' = Some st \<and> (\<forall>m'. res = Inr (Some m') \<longrightarrow> m' = m)"
        using "3.prems"(1) Inr Some ms
        by (auto simp: Let_def print_line_def split: sum.splits if_splits)
      with dec show ?thesis by blast
    qed
  qed
qed

lemma to_packet_ping:
  "address self = 5 \<Longrightarrow> to_packet fl self ping_message = Inr [0x1A, 0xCE, 0xA5, 0x00, 0x65, 0x53]"
  using to_packet_layout [of fl ping_message "[]" self] crc16_ping_command
  by (simp add: pack_H_def)

lemma command_deadline_ping: "command_deadline ping_message = Inr (Some MINIMUM_DEADLINE)"
  by (simp add: ping_message_def)

lemma ace_session_fields:
  "address ace_session = 5" "debug ace_session = False" "device ace_session = (\<lambda>history wait. [])"
  "written ace_session = []" "status ace_session = None" "console ace_session = []"
  "echo ace_session = False" "macros ace_session = []" "parser ace_session = ACE_PARSER"
  by (simp_all add: ace_session_def)

lemma silent_timeout:
  "fst (SpaceProtocol_send_message wire_floats (ace_session\<lparr>status := Some 2\<rparr>) ping_message None)
     = Inr None"
  by (simp add: SpaceProtocol_send_message_def to_packet_ping command_deadline_ping Let_def
      ace_session_fields)

lemma send_message_ping_reply:
  "SpaceProtocol_send_message wire_floats
          (ace_session\<lparr>status := Some 2, device := polite_device\<rparr>) ping_message None
     = (Inr (Some ping_message),
        ace_session\<lparr>status := Some 0, device := polite_device,
                      written := [[0x1A, 0xCE, 0xA5, 0x00, 0x65, 0x53]]\<rparr>)"
proof -
  let ?s = "ace_session\<lparr>status := Some 2, device := polite_device,
                         written := [[0x1A, 0xCE, 0xA5, 0x00, 0x65, 0x53]]\<rparr>"
  have short: "\<And>p. length p < 7 \<Longrightarrow> from_packet wire_floats ?s p = Inr None"
    by (simp add: from_packet_def)
  have full: "from_packet wire_floats ?s [0x1A, 0xCE, 0xB5, 0x00, 0x00, 0x72, 0x75]
                = Inr (Some (ping_message, 0))"
    using from_packet_session [of ?s ace_session wire_floats] from_packet_ping_reply
    by simp
  show ?thesis
    using short full
    by (simp add: SpaceProtocol_send_message_def to_packet_ping Let_def polite_device_def
        command_deadline_ping ace_session_fields)
qed

text \<open>
  C7.  \<^verbatim>\<open>send_message\<close> of \<open>SpaceProtocol\<close> writes the status field only on a successful
  decode.  When it returns \<open>None\<close>, the deadline having expired, the status that
  \<^verbatim>\<open>get_status\<close> returns is the one from before the call.  When it returns a message, or
  whenever the status after the call differs from the one before, a frame was decoded:
  some prefix of the bytes the device delivered after the command packet decodes, with
  \<^verbatim>\<open>_from_packet\<close>, to a message and a status byte; that status byte is the one stored and
  that message is the one returned.
\<close>

theorem send_message_status:
  assumes "SpaceProtocol_send_message fl self command wait = (res, self')"
  shows "(res = Inr None \<longrightarrow> get_status self' = get_status self)
       \<and> ((\<exists>m. res = Inr (Some m)) \<or> get_status self' \<noteq> get_status self \<longrightarrow>
            (\<exists>packet t k m st.
               to_packet fl self command = Inr packet
             \<and> from_packet fl self (take k (bytes_read (device self (written self @ [packet]) t)))
                 = Inr (Some (m, st))
             \<and> get_status self' = Some st
             \<and> (\<forall>m'. res = Inr (Some m') \<longrightarrow> m' = m)))"
proof (cases "case wait of None \<Rightarrow> command_deadline command | Some d \<Rightarrow> Inr (Some d)")
  case (Inl e)
  with assms have "res = Inl e" "self' = self"
    by (simp_all add: SpaceProtocol_send_message_def)
  then show ?thesis by simp
next
  case found: (Inr found)
  define dl where "dl = (case found of None \<Rightarrow> MINIMUM_DEADLINE | Some d \<Rightarrow> d)"
  show ?thesis
  proof (cases "to_packet fl self command")
    case (Inl e)
    with assms found have "res = Inl e" "self' = self"
      by (simp_all add: SpaceProtocol_send_message_def)
    then show ?thesis by simp
  next
    case packet: (Inr packet)
    show ?thesis
    proof (cases "if debug self then to_text fl command else Inr []")
      case (Inl e)
      with assms found packet have "res = Inl e" "self' = self"
        by (simp_all add: SpaceProtocol_send_message_def)
      then show ?thesis by simp
    next
      case (Inr t)
      define self1 where "self1 =
        (if debug self
         then print_line (Print ('' Packet: '' @ hex_bytes packet))
                (print_line (Print (''Sending: '' @ t)) self)
         else self)"
      define self2 where "self2 = self1\<lparr>written := written self1 @ [packet]\<rparr>"
      have same: "status self2 = status self" "address self2 = address self"
        "parser self2 = parser self" "device self2 = device self"
        "written self2 = written self @ [packet]"
        by (simp_all add: self2_def self1_def print_line_def)
      have run: "read_loop fl self2 dl (device self (written self @ [packet]) (dl + EXTRA_DEADLINE)) []
                   = (res, self')"
        using assms found packet Inr same(4,5)
        by (simp add: SpaceProtocol_send_message_def Let_def dl_def self2_def self1_def)
      have timeout: "res = Inr None \<longrightarrow> get_status self' = get_status self"
        using read_loop_timeout [of fl self2 dl _ "[]" self'] run same(1)
        by (auto simp: get_status_def)
      have decoded: "(\<exists>m. res = Inr (Some m)) \<or> get_status self' \<noteq> get_status self \<longrightarrow>
            (\<exists>packet t k m st.
               to_packet fl self command = Inr packet
             \<and> from_packet fl self (take k (bytes_read (device self (written self @ [packet]) t)))
                 = Inr (Some (m, st))
             \<and> get_status self' = Some st
             \<and> (\<forall>m'. res = Inr (Some m') \<longrightarrow> m' = m))"
      proof
        assume "(\<exists>m. res = Inr (Some m)) \<or> get_status self' \<noteq> get_status self"
        then have "(\<exists>m. res = Inr (Some m)) \<or> status self' \<noteq> status self2"
          by (simp add: get_status_def same(1))
        from read_loop_status [OF run this] obtain k m st where
          "from_packet fl self2 (take k (bytes_read (device self (written self @ [packet]) (dl + EXTRA_DEADLINE))))
             = Inr (Some (m, st))"
          "status self' = Some st" "\<forall>m'. res = Inr (Some m') \<longrightarrow> m' = m"
          by auto
        moreover have "from_packet fl self2 = from_packet fl self"
          using from_packet_session [OF same(2,3)] by (intro ext)
        ultimately show "\<exists>packet t k m st.
               to_packet fl self command = Inr packet
             \<and> from_packet fl self (take k (bytes_read (device self (written self @ [packet]) t)))
                 = Inr (Some (m, st))
             \<and> get_status self' = Some st
             \<and> (\<forall>m'. res = Inr (Some m') \<longrightarrow> m' = m)"
          using packet unfolding get_status_def by metis
      qed
      from timeout decoded show ?thesis ..
    qed
  qed
qed

text \<open>
  The theorem at a session whose last status is 2 and whose device stays silent: the
  ping times out and the status is still 2.
\<close>

theorem send_message_status_witness:
  "fst (SpaceProtocol_send_message wire_floats (ace_session\<lparr>status := Some 2\<rparr>) ping_message None)
     = Inr None
   \<and> get_status (snd (SpaceProtocol_send_message wire_floats (ace_session\<lparr>status := Some 2\<rparr>)
                          ping_message None)) = Some 2"
  using send_message_status [OF surjective_pairing, where fl = wire_floats
      and self = "ace_session\<lparr>status := Some 2\<rparr>" and command = ping_message and wait = None]
    silent_timeout
  by (simp add: get_status_def)

section \<open>Claims about the line classifier\<close>

lemma run_line_ignored:
  "ignored_line (py_strip line) \<Longrightarrow>
     run_line fl (Suc depth) self line echo_input logged = (Inr None, self)"
  by (simp add: run_line.simps(2) ignored_line_def Let_def)

lemma run_line_not_prompt:
  assumes "\<not> ignored_line (py_strip y)" and "\<not> prefix ''>'' (py_strip y)"
    and "py_strip line = CHR ''>'' # y"
  shows "run_line fl (Suc depth) self line echo_input logged
           = run_line fl (Suc depth) self y echo_input logged"
  using assms unfolding ignored_line_def
  by (simp add: run_line.simps(2) [of fl depth self line] run_line.simps(2) [of fl depth self y] Let_def)

lemma not_macro_command:
  assumes "ignored_line s \<or> prefix ''>'' s"
  shows "\<not> prefix ''pause '' s" "\<not> prefix ''flash '' s" "\<not> prefix ''flashboot '' s"
    "\<not> prefix ''cload '' s" "\<not> prefix ''csave '' s"
  using assms by (auto simp: ignored_line_def prefix_def)

lemma run_line_prompt_ignored:
  assumes "ignored_line (py_strip y) \<or> prefix ''>'' (py_strip y)"
    and "py_strip line = CHR ''>'' # y"
  shows "run_line fl (Suc depth) self line echo_input logged =
     (let self1 = (if echo self \<and> echo_input then print_line (Print (''> '' @ py_strip y)) self
                   else self)
      in case map_of (macros self1) (py_strip y) of
           Some body \<Rightarrow>
             run_script fl depth
               (if logged then log_write (''# MACRO: '' @ py_strip y @ [CHR 0x0A]) self1 else self1)
               body logged
         | None \<Rightarrow> send_text fl self1 (py_strip y) logged)"
  using not_macro_command [OF assms(1)] assms(2)
  by (simp add: run_line.simps(2) [of fl depth self line] Let_def run_script_def ignored_line_def
      cong: option.case_cong if_cong)


lemma from_text_hash: "from_text fl ACE_TYPES ''#'' = Inl IdentifierUnknown"
  by (simp add: ACE_TYPES_def from_text.simps split_sep_def)

lemma from_text_comment: "from_text fl ACE_PARSER ''# comment'' = Inl IdentifierUnknown"
  by (simp add: ACE_PARSER_def from_text.simps split_sep_def SPACE_PING_def from_text_hash)

lemma py_strip_prompt_comment: "py_strip ''> # comment'' = ''> # comment''" "py_strip '' # comment'' = ''# comment''"
  by (simp_all add: py_strip_def is_str_space_def is_py_space_def)

text \<open>
  C9 (amended).  \<^verbatim>\<open>run_line\<close> strips the line.  A blank line and a line that starts with
  \<^verbatim>\<open>#\<close> or \<^verbatim>\<open><\<close> are ignored: nothing is sent, printed or logged.  A line that starts
  with \<^verbatim>\<open>>\<close> loses that character and is stripped again; the first rule and the prompt
  rule are not applied to the remainder.  So when the remainder is itself blank, a comment,
  a recorded reply or another prompt, it is echoed, looked up among the macros and
  otherwise sent as a wire command; any other remainder is run as if it had been the
  line.
\<close>

theorem run_line_classifier:
  "(ignored_line (py_strip line) \<longrightarrow>
      run_line fl (Suc depth) self line echo_input logged = (Inr None, self))
   \<and> (\<forall>y. py_strip line = CHR ''>'' # y \<longrightarrow>
        run_line fl (Suc depth) self line echo_input logged =
          (if ignored_line (py_strip y) \<or> prefix ''>'' (py_strip y) then
             (let self1 = (if echo self \<and> echo_input
                           then print_line (Print (''> '' @ py_strip y)) self else self)
              in case map_of (macros self1) (py_strip y) of
                   Some body \<Rightarrow>
                     run_script fl depth
                       (if logged then log_write (''# MACRO: '' @ py_strip y @ [CHR 0x0A]) self1
                        else self1)
                       body logged
                 | None \<Rightarrow> send_text fl self1 (py_strip y) logged)
           else run_line fl (Suc depth) self y echo_input logged))"
proof (intro conjI allI impI)
  assume "ignored_line (py_strip line)"
  then show "run_line fl (Suc depth) self line echo_input logged = (Inr None, self)"
    by (rule run_line_ignored)
next
  fix y
  assume line: "py_strip line = CHR ''>'' # y"
  show "run_line fl (Suc depth) self line echo_input logged =
          (if ignored_line (py_strip y) \<or> prefix ''>'' (py_strip y) then
             (let self1 = (if echo self \<and> echo_input
                           then print_line (Print (''> '' @ py_strip y)) self else self)
              in case map_of (macros self1) (py_strip y) of
                   Some body \<Rightarrow>
                     run_script fl depth
                       (if logged then log_write (''# MACRO: '' @ py_strip y @ [CHR 0x0A]) self1
                        else self1)
                       body logged
                 | None \<Rightarrow> send_text fl self1 (py_strip y) logged)
           else run_line fl (Suc depth) self y echo_input logged)"
  proof (cases "ignored_line (py_strip y) \<or> prefix ''>'' (py_strip y)")
    case True
    from run_line_prompt_ignored [OF True line] True show ?thesis
      by (simp only: if_True)
  next
    case False
    then have "\<not> ignored_line (py_strip y)" "\<not> prefix ''>'' (py_strip y)"
      by simp_all
    from run_line_not_prompt [OF this line] False show ?thesis
      by (simp only: if_False)
  qed
qed

text \<open>
  The theorem at a comment, which is ignored, and at a ping after a prompt, which runs
  as the ping does.
\<close>

theorem run_line_classifier_witness:
  "run_line wire_floats (Suc 0) ace_session ''# comment'' True True = (Inr None, ace_session)
   \<and> run_line wire_floats (Suc 0) ace_session ''> ping'' True True
       = run_line wire_floats (Suc 0) ace_session '' ping'' True True"
proof -
  have strip: "py_strip ''# comment'' = ''# comment''" "py_strip ''> ping'' = ''> ping''"
    "py_strip '' ping'' = ''ping''"
    by (simp_all add: py_strip_def is_str_space_def is_py_space_def)
  show ?thesis
    using run_line_classifier [of "''# comment''" wire_floats 0 ace_session True True]
      run_line_classifier [of "''> ping''" wire_floats 0 ace_session True True]
    by (simp add: strip ignored_line_def)
qed

text \<open>
  C9 as stated fails at \<^verbatim>\<open>> # comment\<close>: the line is not ignored.  Its remainder
  \<^verbatim>\<open># comment\<close> goes to \<^verbatim>\<open>send_text\<close>, where the message parser knows no command \<^verbatim>\<open>#\<close> and
  raises \<^verbatim>\<open>IdentifierUnknown\<close>.
\<close>

theorem prompt_comment_counterexample:
  "run_line wire_floats (Suc 0) ace_session ''> # comment'' True True
     = (Inl IdentifierUnknown, ace_session)"
  using run_line_prompt_ignored [of "'' # comment''" "''> # comment''" wire_floats 0 ace_session True True]
  by (simp add: py_strip_prompt_comment ignored_line_def send_text_def from_text_comment ace_session_fields)


end
